theory Spec2Isabelle
  imports Main "HOL-Library.Word"
begin

unbundle bit_operations_syntax

section \<open>Data model\<close>

text \<open>
  The hash works on unsigned 64-bit words; \<open>size_t\<close> is a 64-bit word as well.
  An input buffer is the memory seen from the pointer \<open>in\<close>: the byte at each offset.
  A pointer into the buffer (\<open>p\<close>, \<open>bytes + n\<close>) is its offset from \<open>in\<close>.
  The code never writes to the buffer.
\<close>

type_synonym u8 = "8 word"
type_synonym u32 = "32 word"
type_synonym u64 = "64 word"
type_synonym u128 = "128 word"
type_synonym size_t = "64 word"
type_synonym buffer = "size_t \<Rightarrow> u8"

text \<open>\<open>uint64_t state[6]\<close>: the six words, in index order.\<close>

type_synonym state = "u64 \<times> u64 \<times> u64 \<times> u64 \<times> u64 \<times> u64"

definition MUSEAIR_SECRET_0 :: u64 where "MUSEAIR_SECRET_0 = 0x5ae31e589c56e17a"
definition MUSEAIR_SECRET_1 :: u64 where "MUSEAIR_SECRET_1 = 0x96d7bb04e64f6da9"
definition MUSEAIR_SECRET_2 :: u64 where "MUSEAIR_SECRET_2 = 0x7ab1006b26f9eb64"
definition MUSEAIR_SECRET_3 :: u64 where "MUSEAIR_SECRET_3 = 0x21233394220b8457"
definition MUSEAIR_SECRET_4 :: u64 where "MUSEAIR_SECRET_4 = 0x047cb9557c9f3b43"
definition MUSEAIR_SECRET_5 :: u64 where "MUSEAIR_SECRET_5 = 0xd24f2590c0bcee28"
definition MUSEAIR_RING_PREV :: u64 where "MUSEAIR_RING_PREV = 0x33ea8f71bb6016d8"

section \<open>Readers\<close>

text \<open>
  \<open>_museair_read_u64\<close>, \<open>_museair_read_u32\<close>: the value of 8 (4) bytes at \<open>p\<close>, least
  significant byte first (on a big-endian host the code swaps after \<open>memcpy\<close>, so
  the value is the same).
\<close>

definition read_u64 :: "buffer \<Rightarrow> size_t \<Rightarrow> u64" where
  "read_u64 bytes p =
     ucast (bytes p)
     OR push_bit 8 (ucast (bytes (p + 1)))
     OR push_bit 16 (ucast (bytes (p + 2)))
     OR push_bit 24 (ucast (bytes (p + 3)))
     OR push_bit 32 (ucast (bytes (p + 4)))
     OR push_bit 40 (ucast (bytes (p + 5)))
     OR push_bit 48 (ucast (bytes (p + 6)))
     OR push_bit 56 (ucast (bytes (p + 7)))"

definition read_u32 :: "buffer \<Rightarrow> size_t \<Rightarrow> u64" where
  "read_u32 bytes p =
     ucast ((ucast (bytes p)
       OR push_bit 8 (ucast (bytes (p + 1)))
       OR push_bit 16 (ucast (bytes (p + 2)))
       OR push_bit 24 (ucast (bytes (p + 3)))) :: u32)"

text \<open>\<open>_museair_read_short(bytes, len, &i, &j)\<close>, with \<open>bytes\<close> the pointer \<open>p\<close>.\<close>

definition read_short :: "buffer \<Rightarrow> size_t \<Rightarrow> size_t \<Rightarrow> u64 \<times> u64" where
  "read_short bytes p len =
     (if len \<ge> 4 then
        let off = drop_bit (unat (drop_bit 3 len)) (len AND 24) in
        (push_bit 32 (read_u32 bytes p) OR read_u32 bytes (p + len - 4),
         push_bit 32 (read_u32 bytes (p + off)) OR read_u32 bytes (p + len - 4 - off))
      else if len > 0 then
        (push_bit 48 (ucast (bytes p))
           OR push_bit 24 (ucast (bytes (p + drop_bit 1 len)))
           OR ucast (bytes (p + (len - 1))),
         0)
      else (0, 0))"

section \<open>Primitives\<close>

definition rotl :: "u64 \<Rightarrow> u8 \<Rightarrow> u64" where
  "rotl v n = push_bit (unat n) v OR drop_bit (unat ((- n) AND 63)) v"

definition rotr :: "u64 \<Rightarrow> u8 \<Rightarrow> u64" where
  "rotr v n = drop_bit (unat n) v OR push_bit (unat ((- n) AND 63)) v"

text \<open>\<open>_museair_wmul(&lo, &hi, a, b)\<close> returns \<open>(lo, hi)\<close>.\<close>

definition wmul :: "u64 \<Rightarrow> u64 \<Rightarrow> u64 \<times> u64" where
  "wmul a b = (let v = (ucast a :: u128) * (ucast b :: u128) in (ucast v, ucast (drop_bit 64 v)))"

definition chixx :: "u64 \<Rightarrow> u64 \<Rightarrow> u64 \<Rightarrow> u64 \<times> u64 \<times> u64" where
  "chixx t u v =
     (let x = NOT u AND v;
          y = NOT v AND t;
          z = NOT t AND u
      in (t XOR x, u XOR y, v XOR z))"

text \<open>\<open>_museair_frac_6\<close>, \<open>_museair_frac_3\<close> return the new \<open>(*state_p, *state_q)\<close>.\<close>

definition frac_6 :: "bool \<Rightarrow> u64 \<Rightarrow> u64 \<Rightarrow> u64 \<Rightarrow> u64 \<Rightarrow> u64 \<times> u64" where
  "frac_6 BFast state_p state_q input_p input_q =
     (if \<not> BFast then
        let state_p = state_p XOR input_p;
            state_q = state_q XOR input_q;
            (lo, hi) = wmul state_p state_q
        in (state_p XOR lo, state_q XOR hi)
      else
        let (lo, hi) = wmul (state_p XOR input_p) (state_q XOR input_q)
        in (lo, hi))"

definition frac_3 :: "bool \<Rightarrow> u64 \<Rightarrow> u64 \<Rightarrow> u64 \<Rightarrow> u64 \<times> u64" where
  "frac_3 BFast state_p state_q input =
     (if \<not> BFast then
        let state_q = state_q XOR input;
            (lo, hi) = wmul state_p state_q
        in (state_p XOR lo, state_q XOR hi)
      else
        let (lo, hi) = wmul state_p (state_q XOR input)
        in (lo, hi))"

section \<open>Layers\<close>

text \<open>\<open>_museair_layer_12\<close> returns the new state and the new \<open>*ring_prev\<close>.\<close>

definition layer_12 :: "bool \<Rightarrow> state \<Rightarrow> buffer \<Rightarrow> size_t \<Rightarrow> u64 \<Rightarrow> state \<times> u64" where
  "layer_12 BFast state bytes p ring_prev =
     (case state of (s0, s1, s2, s3, s4, s5) \<Rightarrow>
      if \<not> BFast then
        let s0 = s0 XOR read_u64 bytes (p + 8 * 0);
            s1 = s1 XOR read_u64 bytes (p + 8 * 1);
            (lo0, hi0) = wmul s0 s1;
            s0 = s0 + (ring_prev XOR hi0);

            s1 = s1 XOR read_u64 bytes (p + 8 * 2);
            s2 = s2 XOR read_u64 bytes (p + 8 * 3);
            (lo1, hi1) = wmul s1 s2;
            s1 = s1 + (lo0 XOR hi1);

            s2 = s2 XOR read_u64 bytes (p + 8 * 4);
            s3 = s3 XOR read_u64 bytes (p + 8 * 5);
            (lo2, hi2) = wmul s2 s3;
            s2 = s2 + (lo1 XOR hi2);

            s3 = s3 XOR read_u64 bytes (p + 8 * 6);
            s4 = s4 XOR read_u64 bytes (p + 8 * 7);
            (lo3, hi3) = wmul s3 s4;
            s3 = s3 + (lo2 XOR hi3);

            s4 = s4 XOR read_u64 bytes (p + 8 * 8);
            s5 = s5 XOR read_u64 bytes (p + 8 * 9);
            (lo4, hi4) = wmul s4 s5;
            s4 = s4 + (lo3 XOR hi4);

            s5 = s5 XOR read_u64 bytes (p + 8 * 10);
            s0 = s0 XOR read_u64 bytes (p + 8 * 11);
            (lo5, hi5) = wmul s5 s0;
            s5 = s5 + (lo4 XOR hi5)
        in ((s0, s1, s2, s3, s4, s5), lo5)
      else
        let s0 = s0 XOR read_u64 bytes (p + 8 * 0);
            s1 = s1 XOR read_u64 bytes (p + 8 * 1);
            (lo0, hi0) = wmul s0 s1;
            s0 = ring_prev XOR hi0;

            s1 = s1 XOR read_u64 bytes (p + 8 * 2);
            s2 = s2 XOR read_u64 bytes (p + 8 * 3);
            (lo1, hi1) = wmul s1 s2;
            s1 = lo0 XOR hi1;

            s2 = s2 XOR read_u64 bytes (p + 8 * 4);
            s3 = s3 XOR read_u64 bytes (p + 8 * 5);
            (lo2, hi2) = wmul s2 s3;
            s2 = lo1 XOR hi2;

            s3 = s3 XOR read_u64 bytes (p + 8 * 6);
            s4 = s4 XOR read_u64 bytes (p + 8 * 7);
            (lo3, hi3) = wmul s3 s4;
            s3 = lo2 XOR hi3;

            s4 = s4 XOR read_u64 bytes (p + 8 * 8);
            s5 = s5 XOR read_u64 bytes (p + 8 * 9);
            (lo4, hi4) = wmul s4 s5;
            s4 = lo3 XOR hi4;

            s5 = s5 XOR read_u64 bytes (p + 8 * 10);
            s0 = s0 XOR read_u64 bytes (p + 8 * 11);
            (lo5, hi5) = wmul s5 s0;
            s5 = lo4 XOR hi5
        in ((s0, s1, s2, s3, s4, s5), lo5))"

definition layer_6 :: "bool \<Rightarrow> state \<Rightarrow> buffer \<Rightarrow> size_t \<Rightarrow> state" where
  "layer_6 BFast state bytes p =
     (case state of (s0, s1, s2, s3, s4, s5) \<Rightarrow>
      let (s0, s1) = frac_6 BFast s0 s1 (read_u64 bytes (p + 8 * 0)) (read_u64 bytes (p + 8 * 1));
          (s2, s3) = frac_6 BFast s2 s3 (read_u64 bytes (p + 8 * 2)) (read_u64 bytes (p + 8 * 3));
          (s4, s5) = frac_6 BFast s4 s5 (read_u64 bytes (p + 8 * 4)) (read_u64 bytes (p + 8 * 5))
      in (s0, s1, s2, s3, s4, s5))"

definition layer_3 :: "bool \<Rightarrow> state \<Rightarrow> buffer \<Rightarrow> size_t \<Rightarrow> state" where
  "layer_3 BFast state bytes p =
     (case state of (s0, s1, s2, s3, s4, s5) \<Rightarrow>
      let (s0, s3) = frac_3 BFast s0 s3 (read_u64 bytes (p + 8 * 0));
          (s1, s4) = frac_3 BFast s1 s4 (read_u64 bytes (p + 8 * 1));
          (s2, s5) = frac_3 BFast s2 s5 (read_u64 bytes (p + 8 * 2))
      in (s0, s1, s2, s3, s4, s5))"

text \<open>\<open>_museair_layer_0\<close> returns \<open>(*i, *j, *k)\<close>; the state it updates is not used again.\<close>

definition layer_0 :: "state \<Rightarrow> buffer \<Rightarrow> size_t \<Rightarrow> size_t \<Rightarrow> size_t \<Rightarrow> u64 \<times> u64 \<times> u64" where
  "layer_0 state bytes p q len =
     (case state of (s0, s1, s2, s3, s4, s5) \<Rightarrow>
      let (i, j, k) =
            (if q \<le> 8 * 2 then
               let (i', j') = read_short bytes p q in (i', j', 0)
             else
               (read_u64 bytes p, read_u64 bytes (p + 8), read_u64 bytes (p + q - 8)))
      in
      if len \<ge> 8 * 3 then
        let (s0, s2, s4) = chixx s0 s2 s4;
            (s1, s3, s5) = chixx s1 s3 s5
        in (i XOR (s0 + s1), j XOR (s2 + s3), k XOR (s4 + s5))
      else
        (i XOR s0, j XOR s1, k XOR s2))"

definition layer_f :: "bool \<Rightarrow> size_t \<Rightarrow> u64 \<Rightarrow> u64 \<Rightarrow> u64 \<Rightarrow> u64 \<times> u64 \<times> u64" where
  "layer_f BFast len i j k =
     (let rot = (ucast len :: u8) AND 63;
          (i, j, k) = chixx i j k;
          i = rotl i rot;
          j = rotr j rot;
          k = k XOR len
      in
      if \<not> BFast then
        let (lo0, hi0) = wmul (i XOR MUSEAIR_SECRET_3) j;
            (lo1, hi1) = wmul (j XOR MUSEAIR_SECRET_4) k;
            (lo2, hi2) = wmul (k XOR MUSEAIR_SECRET_5) i
        in (i XOR (lo0 XOR hi2), j XOR (lo1 XOR hi0), k XOR (lo2 XOR hi1))
      else
        let (lo0, hi0) = wmul i j;
            (lo1, hi1) = wmul j k;
            (lo2, hi2) = wmul k i
        in (lo0 XOR hi2, lo1 XOR hi0, lo2 XOR hi1))"

section \<open>Towers\<close>

text \<open>
  The loop of \<open>_museair_tower_loong\<close>: \<open>do { layer_12; p += 96; q -= 96; } while (q >= 96)\<close>.
  The code enters it only under \<open>if (q >= 8 * 12)\<close>, so the body runs as long as
  \<open>q \<ge> 96\<close>, the test being made before each pass. Returns
  \<open>(state, p, q, ring_prev)\<close> at the exit of the loop.
\<close>

function layer_12_loop ::
  "bool \<Rightarrow> buffer \<Rightarrow> state \<Rightarrow> size_t \<Rightarrow> size_t \<Rightarrow> u64 \<Rightarrow> state \<times> size_t \<times> size_t \<times> u64" where
  "layer_12_loop BFast bytes state p q ring_prev =
     (if q \<ge> 8 * 12 then
        let (state, ring_prev) = layer_12 BFast state bytes p ring_prev
        in layer_12_loop BFast bytes state (p + 8 * 12) (q - 8 * 12) ring_prev
      else (state, p, q, ring_prev))"
  by pat_completeness auto
termination
proof (relation "measure (\<lambda>(BFast, bytes, state, p, q, ring_prev). unat q)")
  show "wf (measure (\<lambda>(BFast, bytes, state, p, q, ring_prev). unat q))"
    by simp
next
  fix BFast :: bool and bytes :: buffer and state :: state and p q ring_prev :: u64
    and x :: "state \<times> u64" and xa :: state and y :: u64
  assume "8 * 12 \<le> q"
  then have le: "(96 :: u64) \<le> q" by simp
  then have "unat (q - 96) = unat q - unat (96 :: u64)"
    by (rule unat_sub)
  moreover from le have "unat (96 :: u64) \<le> unat q"
    by (simp add: word_le_nat_alt)
  ultimately have "unat (q - 96) < unat q" by simp
  then show "((BFast, bytes, xa, p + 8 * 12, q - 8 * 12, y), (BFast, bytes, state, p, q, ring_prev))
        \<in> measure (\<lambda>(BFast, bytes, state, p, q, ring_prev). unat q)"
    by simp
qed

declare layer_12_loop.simps [simp del]

text \<open>
  The first part of \<open>_museair_tower_loong\<close>: the initial state and the block
  \<open>if (q >= 8 * 12) { ... }\<close>. Returns \<open>(state, p, q)\<close> after that block.
\<close>

definition tower_loong_ring :: "bool \<Rightarrow> buffer \<Rightarrow> size_t \<Rightarrow> u64 \<Rightarrow> state \<times> size_t \<times> size_t" where
  "tower_loong_ring BFast bytes len seed =
     (let p = 0;
          q = len;
          (s0, s1, s2, s3, s4, s5) =
            (MUSEAIR_SECRET_0 + seed, MUSEAIR_SECRET_1 - seed, MUSEAIR_SECRET_2 XOR seed,
             MUSEAIR_SECRET_3, MUSEAIR_SECRET_4, MUSEAIR_SECRET_5)
      in
      if q \<ge> 8 * 12 then
        let s3 = s3 + seed;
            s4 = s4 - seed;
            s5 = s5 XOR seed;
            ring_prev = MUSEAIR_RING_PREV;
            ((s0, s1, s2, s3, s4, s5), p, q, ring_prev) =
              layer_12_loop BFast bytes (s0, s1, s2, s3, s4, s5) p q ring_prev;
            s0 = s0 XOR ring_prev
        in ((s0, s1, s2, s3, s4, s5), p, q)
      else ((s0, s1, s2, s3, s4, s5), p, q))"

text \<open>
  The rest of \<open>_museair_tower_loong\<close> up to the call of \<open>_museair_layer_0\<close>:
  the 6-word and the 3-word block. Returns \<open>(state, p, q)\<close>.
\<close>

definition tower_loong_blocks :: "bool \<Rightarrow> buffer \<Rightarrow> size_t \<Rightarrow> u64 \<Rightarrow> state \<times> size_t \<times> size_t" where
  "tower_loong_blocks BFast bytes len seed =
     (let (state, p, q) = tower_loong_ring BFast bytes len seed;
          (state, p, q) =
            (if q \<ge> 8 * 6 then (layer_6 BFast state bytes p, p + 8 * 6, q - 8 * 6)
             else (state, p, q));
          (state, p, q) =
            (if q \<ge> 8 * 3 then (layer_3 BFast state bytes p, p + 8 * 3, q - 8 * 3)
             else (state, p, q))
      in (state, p, q))"

text \<open>The accumulators \<open>(i, j, k)\<close> after \<open>_museair_layer_0\<close>, before the final twist.\<close>

definition tower_loong_fold :: "bool \<Rightarrow> buffer \<Rightarrow> size_t \<Rightarrow> u64 \<Rightarrow> u64 \<times> u64 \<times> u64" where
  "tower_loong_fold BFast bytes len seed =
     (let (state, p, q) = tower_loong_blocks BFast bytes len seed
      in layer_0 state bytes p q len)"

definition tower_loong :: "bool \<Rightarrow> buffer \<Rightarrow> size_t \<Rightarrow> u64 \<Rightarrow> u64 \<times> u64 \<times> u64" where
  "tower_loong BFast bytes len seed =
     (let (i, j, k) = tower_loong_fold BFast bytes len seed
      in layer_f BFast len i j k)"

definition tower_short :: "buffer \<Rightarrow> size_t \<Rightarrow> u64 \<Rightarrow> u64 \<times> u64" where
  "tower_short bytes len seed =
     (let (i, j) = read_short bytes 0 len;
          (lo, hi) = wmul (seed XOR MUSEAIR_SECRET_0) (len XOR MUSEAIR_SECRET_1)
      in (i XOR (lo XOR len), j XOR (hi XOR seed)))"

section \<open>Epilogues\<close>

definition epi_short :: "u64 \<Rightarrow> u64 \<Rightarrow> u64 \<times> u64" where
  "epi_short i j =
     (let i = i XOR MUSEAIR_SECRET_2;
          j = j XOR MUSEAIR_SECRET_3;
          (lo, hi) = wmul i j;
          i = i XOR (lo XOR MUSEAIR_SECRET_4);
          j = j XOR (hi XOR MUSEAIR_SECRET_5);
          (lo, hi) = wmul i j;
          i = i XOR (j XOR lo XOR hi)
      in (i, j))"

definition epi_short_128 :: "bool \<Rightarrow> u64 \<Rightarrow> u64 \<Rightarrow> u64 \<times> u64" where
  "epi_short_128 BFast i j =
     (if \<not> BFast then
        let (lo0, hi0) = wmul (i XOR MUSEAIR_SECRET_2) j;
            (lo1, hi1) = wmul i (j XOR MUSEAIR_SECRET_3);
            i = i XOR (lo0 XOR hi1);
            j = j XOR (lo1 XOR hi0);
            (lo0, hi0) = wmul (i XOR MUSEAIR_SECRET_4) j;
            (lo1, hi1) = wmul i (j XOR MUSEAIR_SECRET_5);
            i = i XOR (lo0 XOR hi1);
            j = j XOR (lo1 XOR hi0)
        in (i, j)
      else
        let (lo0, hi0) = wmul i j;
            (lo1, hi1) = wmul (i XOR MUSEAIR_SECRET_2) (j XOR MUSEAIR_SECRET_3);
            i = lo0 XOR hi1;
            j = lo1 XOR hi0;
            (lo0, hi0) = wmul i j;
            (lo1, hi1) = wmul (i XOR MUSEAIR_SECRET_4) (j XOR MUSEAIR_SECRET_5);
            i = lo0 XOR hi1;
            j = lo1 XOR hi0
        in (i, j))"

definition epi_loong :: "bool \<Rightarrow> u64 \<Rightarrow> u64 \<Rightarrow> u64 \<Rightarrow> u64 \<times> u64 \<times> u64" where
  "epi_loong BFast i j k =
     (let (i, j, k) =
            (if \<not> BFast then
               let (lo0, hi0) = wmul (i XOR MUSEAIR_SECRET_0) j;
                   (lo1, hi1) = wmul (j XOR MUSEAIR_SECRET_1) k;
                   (lo2, hi2) = wmul (k XOR MUSEAIR_SECRET_2) i
               in (i XOR (lo0 XOR hi2), j XOR (lo1 XOR hi0), k XOR (lo2 XOR hi1))
             else
               let (lo0, hi0) = wmul i j;
                   (lo1, hi1) = wmul j k;
                   (lo2, hi2) = wmul k i
               in (lo0 XOR hi2, lo1 XOR hi0, lo2 XOR hi1))
      in (i + (j + k), j, k))"

definition epi_loong_128 :: "bool \<Rightarrow> u64 \<Rightarrow> u64 \<Rightarrow> u64 \<Rightarrow> u64 \<times> u64 \<times> u64" where
  "epi_loong_128 BFast i j k =
     (if \<not> BFast then
        let (lo0, hi0) = wmul (i XOR MUSEAIR_SECRET_0) j;
            (lo1, hi1) = wmul (j XOR MUSEAIR_SECRET_1) k;
            (lo2, hi2) = wmul (k XOR MUSEAIR_SECRET_2) i
        in (i XOR (lo0 XOR lo1 XOR hi2), j XOR (hi0 XOR hi1 XOR lo2), k)
      else
        let (lo0, hi0) = wmul i j;
            (lo1, hi1) = wmul j k;
            (lo2, hi2) = wmul k i
        in (lo0 XOR lo1 XOR hi2, hi0 XOR hi1 XOR lo2, k))"

section \<open>Hash functions\<close>

definition hash_short :: "buffer \<Rightarrow> size_t \<Rightarrow> u64 \<Rightarrow> u64 \<times> u64" where
  "hash_short bytes len seed =
     (let (i, j) = tower_short bytes len seed in epi_short i j)"

definition hash_short_128 :: "bool \<Rightarrow> buffer \<Rightarrow> size_t \<Rightarrow> u64 \<Rightarrow> u64 \<times> u64" where
  "hash_short_128 BFast bytes len seed =
     (let (i, j) = tower_short bytes len seed in epi_short_128 BFast i j)"

definition hash_loong :: "bool \<Rightarrow> buffer \<Rightarrow> size_t \<Rightarrow> u64 \<Rightarrow> u64 \<times> u64 \<times> u64" where
  "hash_loong BFast bytes len seed =
     (let (i, j, k) = tower_loong BFast bytes len seed in epi_loong BFast i j k)"

definition hash_loong_128 :: "bool \<Rightarrow> buffer \<Rightarrow> size_t \<Rightarrow> u64 \<Rightarrow> u64 \<times> u64 \<times> u64" where
  "hash_loong_128 BFast bytes len seed =
     (let (i, j, k) = tower_loong BFast bytes len seed in epi_loong_128 BFast i j k)"

text \<open>
  \<open>_museair_hash\<close> returns \<open>i\<close>. \<open>_museair_hash_128\<close> returns \<open>i\<close> and stores \<open>j\<close> in
  \<open>*upper_half\<close>: the model returns \<open>(i, j)\<close>. The values are those of a little-endian
  host (\<open>MUSEAIR_BSWAP\<close> is 0).
\<close>

definition museair_hash_impl :: "bool \<Rightarrow> buffer \<Rightarrow> size_t \<Rightarrow> u64 \<Rightarrow> u64" where
  "museair_hash_impl BFast bytes len seed =
     (if len \<le> 16 then
        let (i, j) = hash_short bytes len seed in i
      else
        let (i, j, k) = hash_loong BFast bytes len seed in i)"

definition museair_hash_128_impl :: "bool \<Rightarrow> buffer \<Rightarrow> size_t \<Rightarrow> u64 \<Rightarrow> u64 \<times> u64" where
  "museair_hash_128_impl BFast bytes len seed =
     (if len \<le> 16 then
        let (i, j) = hash_short_128 BFast bytes len seed in (i, j)
      else
        let (i, j, k) = hash_loong_128 BFast bytes len seed in (i, j))"

definition museair_hash :: "buffer \<Rightarrow> size_t \<Rightarrow> u64 \<Rightarrow> u64" where
  "museair_hash bytes len seed = museair_hash_impl False bytes len seed"

definition museair_hash_128 :: "buffer \<Rightarrow> size_t \<Rightarrow> u64 \<Rightarrow> u64 \<times> u64" where
  "museair_hash_128 bytes len seed = museair_hash_128_impl False bytes len seed"

definition museair_bfast_hash :: "buffer \<Rightarrow> size_t \<Rightarrow> u64 \<Rightarrow> u64" where
  "museair_bfast_hash bytes len seed = museair_hash_impl True bytes len seed"

definition museair_bfast_hash_128 :: "buffer \<Rightarrow> size_t \<Rightarrow> u64 \<Rightarrow> u64 \<times> u64" where
  "museair_bfast_hash_128 bytes len seed = museair_hash_128_impl True bytes len seed"

section \<open>The specification's reading of three steps\<close>

text \<open>
  The update of one cyclic pair of the 12-word block, as the specification words it:
  XOR the two input words into the pair, multiply the pair, and set the first word of the
  pair from the incoming ring-carry and the high half of the product. Returns the new
  pair and the low half, the ring-carry of the next pair.
\<close>

definition ring_pair :: "bool \<Rightarrow> u64 \<Rightarrow> u64 \<Rightarrow> u64 \<Rightarrow> u64 \<Rightarrow> u64 \<Rightarrow> u64 \<times> u64 \<times> u64" where
  "ring_pair BFast state_p state_q input_p input_q carry =
     (let state_p = state_p XOR input_p;
          state_q = state_q XOR input_q;
          (lo, hi) = wmul state_p state_q
      in (if BFast then carry XOR hi else state_p + (carry XOR hi), state_q, lo))"

text \<open>The same update with the fast variant as the specification states it: the low half.\<close>

definition ring_pair_claimed :: "bool \<Rightarrow> u64 \<Rightarrow> u64 \<Rightarrow> u64 \<Rightarrow> u64 \<Rightarrow> u64 \<Rightarrow> u64 \<times> u64 \<times> u64" where
  "ring_pair_claimed BFast state_p state_q input_p input_q carry =
     (let state_p = state_p XOR input_p;
          state_q = state_q XOR input_q;
          (lo, hi) = wmul state_p state_q
      in (if BFast then lo else state_p + (carry XOR hi), state_q, lo))"

text \<open>The 12-word block as six pair updates on the cyclic pairs (0,1), (1,2), ..., (5,0).\<close>

definition ring_block ::
  "(bool \<Rightarrow> u64 \<Rightarrow> u64 \<Rightarrow> u64 \<Rightarrow> u64 \<Rightarrow> u64 \<Rightarrow> u64 \<times> u64 \<times> u64)
     \<Rightarrow> bool \<Rightarrow> state \<Rightarrow> buffer \<Rightarrow> size_t \<Rightarrow> u64 \<Rightarrow> state \<times> u64" where
  "ring_block pair BFast state bytes p ring_prev =
     (case state of (s0, s1, s2, s3, s4, s5) \<Rightarrow>
      let (s0, s1, carry) =
            pair BFast s0 s1 (read_u64 bytes (p + 8 * 0)) (read_u64 bytes (p + 8 * 1)) ring_prev;
          (s1, s2, carry) =
            pair BFast s1 s2 (read_u64 bytes (p + 8 * 2)) (read_u64 bytes (p + 8 * 3)) carry;
          (s2, s3, carry) =
            pair BFast s2 s3 (read_u64 bytes (p + 8 * 4)) (read_u64 bytes (p + 8 * 5)) carry;
          (s3, s4, carry) =
            pair BFast s3 s4 (read_u64 bytes (p + 8 * 6)) (read_u64 bytes (p + 8 * 7)) carry;
          (s4, s5, carry) =
            pair BFast s4 s5 (read_u64 bytes (p + 8 * 8)) (read_u64 bytes (p + 8 * 9)) carry;
          (s5, s0, carry) =
            pair BFast s5 s0 (read_u64 bytes (p + 8 * 10)) (read_u64 bytes (p + 8 * 11)) carry
      in ((s0, s1, s2, s3, s4, s5), carry))"

text \<open>
  The start of the block compressor as the specification states it: all six state words
  combined with the seed, whatever the length.
\<close>

definition tower_loong_ring_claimed ::
  "bool \<Rightarrow> buffer \<Rightarrow> size_t \<Rightarrow> u64 \<Rightarrow> state \<times> size_t \<times> size_t" where
  "tower_loong_ring_claimed BFast bytes len seed =
     (let p = 0;
          q = len;
          (s0, s1, s2, s3, s4, s5) =
            (MUSEAIR_SECRET_0 + seed, MUSEAIR_SECRET_1 - seed, MUSEAIR_SECRET_2 XOR seed,
             MUSEAIR_SECRET_3 + seed, MUSEAIR_SECRET_4 - seed, MUSEAIR_SECRET_5 XOR seed)
      in
      if q \<ge> 8 * 12 then
        let ring_prev = MUSEAIR_RING_PREV;
            ((s0, s1, s2, s3, s4, s5), p, q, ring_prev) =
              layer_12_loop BFast bytes (s0, s1, s2, s3, s4, s5) p q ring_prev;
            s0 = s0 XOR ring_prev
        in ((s0, s1, s2, s3, s4, s5), p, q)
      else ((s0, s1, s2, s3, s4, s5), p, q))"

text \<open>
  The final twist in the order the specification states it: XOR the length into \<open>k\<close>
  first, then ChiMix, then the rotations, then the multiplications, the results folded
  back by XOR in both variants.
\<close>

definition layer_f_claimed :: "bool \<Rightarrow> size_t \<Rightarrow> u64 \<Rightarrow> u64 \<Rightarrow> u64 \<Rightarrow> u64 \<times> u64 \<times> u64" where
  "layer_f_claimed BFast len i j k =
     (let rot = (ucast len :: u8) AND 63;
          k = k XOR len;
          (i, j, k) = chixx i j k;
          i = rotl i rot;
          j = rotr j rot
      in
      if \<not> BFast then
        let (lo0, hi0) = wmul (i XOR MUSEAIR_SECRET_3) j;
            (lo1, hi1) = wmul (j XOR MUSEAIR_SECRET_4) k;
            (lo2, hi2) = wmul (k XOR MUSEAIR_SECRET_5) i
        in (i XOR (lo0 XOR hi2), j XOR (lo1 XOR hi0), k XOR (lo2 XOR hi1))
      else
        let (lo0, hi0) = wmul i j;
            (lo1, hi1) = wmul j k;
            (lo2, hi2) = wmul k i
        in (i XOR (lo0 XOR hi2), j XOR (lo1 XOR hi0), k XOR (lo2 XOR hi1)))"


section \<open>The self-test\<close>

text \<open>
  \<open>ComputedVerifyImpl\<close> of \<open>selftests.c\<close>. Its parameter \<open>HASH(in, len, seed, out)\<close> writes
  the digest to \<open>out\<close>: here a function that returns the bytes written. \<open>store mem at bs\<close>
  is the memory \<open>mem\<close> after the bytes \<open>bs\<close> have been written from address \<open>at\<close> on.
\<close>

type_synonym hash_fn = "buffer \<Rightarrow> size_t \<Rightarrow> u64 \<Rightarrow> u8 list"

definition HASH_INIT :: "u64 \<Rightarrow> u64" where
  "HASH_INIT seed = seed"

definition store :: "buffer \<Rightarrow> size_t \<Rightarrow> u8 list \<Rightarrow> buffer" where
  "store mem at bs = (\<lambda>n. if unat (n - at) < length bs then bs ! unat (n - at) else mem n)"

text \<open>
  One pass of the loop \<open>for (int i = 0; i < 256; i++)\<close>, on \<open>(key, hashes)\<close>: the key is
  hashed with length \<open>i\<close> and seed \<open>256 - i\<close> into \<open>hashes[i * hashbytes]\<close>, then
  \<open>key[i] = (uint8_t)i\<close>.
\<close>

definition verify_pass :: "u32 \<Rightarrow> hash_fn \<Rightarrow> nat \<Rightarrow> buffer \<times> buffer \<Rightarrow> buffer \<times> buffer" where
  "verify_pass hashbytes HASH i kh =
     (let key = fst kh;
          hashes = snd kh;
          seed = HASH_INIT (256 - of_nat i);
          hashes = store hashes (ucast (of_nat i * hashbytes)) (HASH key (of_nat i) seed);
          key = key(of_nat i := of_nat i)
      in (key, hashes))"

text \<open>The loop, from zeroed memory (\<open>calloc\<close>): it returns \<open>(key, hashes)\<close>.\<close>

definition verify_sweep :: "u32 \<Rightarrow> hash_fn \<Rightarrow> buffer \<times> buffer" where
  "verify_sweep hashbytes HASH = fold (verify_pass hashbytes HASH) [0..<256] (\<lambda>_. 0, \<lambda>_. 0)"

definition ComputedVerifyImpl :: "u32 \<Rightarrow> hash_fn \<Rightarrow> u32" where
  "ComputedVerifyImpl hashbits HASH =
     (let hashbytes = hashbits div 8;
          hashes = snd (verify_sweep hashbytes HASH);
          seed = HASH_INIT 0;
          total = store (\<lambda>_. 0) 0 (HASH hashes (ucast (hashbytes * 256)) seed)
      in ucast (total 0) OR push_bit 8 (ucast (total 1)) OR push_bit 16 (ucast (total 2))
           OR push_bit 24 (ucast (total 3)))"

text \<open>
  \<open>main\<close> passes the four entry points as \<open>HASH\<close>. In \<open>museair.h\<close> they return the
  digest, the 128-bit ones its low half while they store the upper half through their
  fourth argument; none writes a digest to \<open>out\<close>. The function of the type of \<open>HASH\<close>
  that an entry point stands for writes the digest in little-endian order:
  \<open>digest_64\<close> the eight bytes of a 64-bit result, least significant first,
  \<open>digest_128\<close> the bytes of the low half and then those of the upper half.
\<close>

definition le_bytes :: "u64 \<Rightarrow> u8 list" where
  "le_bytes w = map (\<lambda>n. ucast (drop_bit (8 * n) w)) [0..<8]"

definition digest_64 :: "(buffer \<Rightarrow> size_t \<Rightarrow> u64 \<Rightarrow> u64) \<Rightarrow> hash_fn" where
  "digest_64 h bytes len seed = le_bytes (h bytes len seed)"

definition digest_128 :: "(buffer \<Rightarrow> size_t \<Rightarrow> u64 \<Rightarrow> u64 \<times> u64) \<Rightarrow> hash_fn" where
  "digest_128 h bytes len seed =
     (let r = h bytes len seed in le_bytes (fst r) @ le_bytes (snd r))"


section \<open>Arithmetic on numerals\<close>

text \<open>
  The verification values of the self-test are computed inside the logic. The counts of
  bits that the functions below recurse on are written in unary.
\<close>

abbreviation (input) C3 :: nat where
  "C3 \<equiv> Suc (Suc (Suc (0)))"

abbreviation (input) C4 :: nat where
  "C4 \<equiv> Suc (C3)"

abbreviation (input) C6 :: nat where
  "C6 \<equiv> Suc (Suc (C4))"

abbreviation (input) C8 :: nat where
  "C8 \<equiv> Suc (Suc (C6))"

abbreviation (input) C11 :: nat where
  "C11 \<equiv> Suc (Suc (Suc (C8)))"

abbreviation (input) C12 :: nat where
  "C12 \<equiv> Suc (C11)"

abbreviation (input) C16 :: nat where
  "C16 \<equiv> Suc (Suc (Suc (Suc (C12))))"

abbreviation (input) C24 :: nat where
  "C24 \<equiv> Suc (Suc (Suc (Suc (Suc (Suc (Suc (Suc (C16))))))))"

abbreviation (input) C32 :: nat where
  "C32 \<equiv> Suc (Suc (Suc (Suc (Suc (Suc (Suc (Suc (C24))))))))"

abbreviation (input) C40 :: nat where
  "C40 \<equiv> Suc (Suc (Suc (Suc (Suc (Suc (Suc (Suc (C32))))))))"

abbreviation (input) C48 :: nat where
  "C48 \<equiv> Suc (Suc (Suc (Suc (Suc (Suc (Suc (Suc (C40))))))))"

abbreviation (input) C56 :: nat where
  "C56 \<equiv> Suc (Suc (Suc (Suc (Suc (Suc (Suc (Suc (C48))))))))"

abbreviation (input) C64 :: nat where
  "C64 \<equiv> Suc (Suc (Suc (Suc (Suc (Suc (Suc (Suc (C56))))))))"

text \<open>
  Functions on binary numerals that compute, bit by bit, what the operations of the hash
  give on literal words; \<open>d0\<close> and \<open>d1\<close> append a bit, the first argument of \<open>tk\<close> and
  \<open>dr\<close> counts bits.
\<close>

definition d0 :: "nat \<Rightarrow> nat" where "d0 x = 2 * x"
definition d1 :: "nat \<Rightarrow> nat" where "d1 x = 2 * x + 1"

text \<open>\<open>tk n k\<close>: the low \<open>n\<close> bits of \<open>k\<close>; \<open>dr n k\<close>: \<open>k\<close> without its low \<open>n\<close> bits.\<close>

fun tk :: "nat \<Rightarrow> num \<Rightarrow> nat" where
  "tk 0 k = 0"
| "tk (Suc n) num.One = numeral num.One"
| "tk (Suc n) (num.Bit0 k) = d0 (tk n k)"
| "tk (Suc n) (num.Bit1 k) = d1 (tk n k)"

fun dr :: "nat \<Rightarrow> num \<Rightarrow> nat" where
  "dr 0 k = numeral k"
| "dr (Suc n) num.One = 0"
| "dr (Suc n) (num.Bit0 k) = dr n k"
| "dr (Suc n) (num.Bit1 k) = dr n k"

text \<open>Bitwise XOR, AND, OR and AND-NOT (\<open>~m & n\<close>) of two numerals.\<close>

fun xn :: "num \<Rightarrow> num \<Rightarrow> nat" where
  "xn num.One num.One = 0"
| "xn num.One (num.Bit0 n) = numeral (num.Bit1 n)"
| "xn num.One (num.Bit1 n) = numeral (num.Bit0 n)"
| "xn (num.Bit0 m) num.One = numeral (num.Bit1 m)"
| "xn (num.Bit1 m) num.One = numeral (num.Bit0 m)"
| "xn (num.Bit0 m) (num.Bit0 n) = d0 (xn m n)"
| "xn (num.Bit0 m) (num.Bit1 n) = d1 (xn m n)"
| "xn (num.Bit1 m) (num.Bit0 n) = d1 (xn m n)"
| "xn (num.Bit1 m) (num.Bit1 n) = d0 (xn m n)"

fun an :: "num \<Rightarrow> num \<Rightarrow> nat" where
  "an num.One num.One = numeral num.One"
| "an num.One (num.Bit0 n) = 0"
| "an num.One (num.Bit1 n) = numeral num.One"
| "an (num.Bit0 m) num.One = 0"
| "an (num.Bit1 m) num.One = numeral num.One"
| "an (num.Bit0 m) (num.Bit0 n) = d0 (an m n)"
| "an (num.Bit0 m) (num.Bit1 n) = d0 (an m n)"
| "an (num.Bit1 m) (num.Bit0 n) = d0 (an m n)"
| "an (num.Bit1 m) (num.Bit1 n) = d1 (an m n)"

fun on :: "num \<Rightarrow> num \<Rightarrow> nat" where
  "on num.One num.One = numeral num.One"
| "on num.One (num.Bit0 n) = numeral (num.Bit1 n)"
| "on num.One (num.Bit1 n) = numeral (num.Bit1 n)"
| "on (num.Bit0 m) num.One = numeral (num.Bit1 m)"
| "on (num.Bit1 m) num.One = numeral (num.Bit1 m)"
| "on (num.Bit0 m) (num.Bit0 n) = d0 (on m n)"
| "on (num.Bit0 m) (num.Bit1 n) = d1 (on m n)"
| "on (num.Bit1 m) (num.Bit0 n) = d1 (on m n)"
| "on (num.Bit1 m) (num.Bit1 n) = d1 (on m n)"

fun ann :: "num \<Rightarrow> num \<Rightarrow> nat" where
  "ann num.One num.One = 0"
| "ann num.One (num.Bit0 n) = numeral (num.Bit0 n)"
| "ann num.One (num.Bit1 n) = numeral (num.Bit0 n)"
| "ann (num.Bit0 m) num.One = numeral num.One"
| "ann (num.Bit1 m) num.One = 0"
| "ann (num.Bit0 m) (num.Bit0 n) = d0 (ann m n)"
| "ann (num.Bit0 m) (num.Bit1 n) = d1 (ann m n)"
| "ann (num.Bit1 m) (num.Bit0 n) = d0 (ann m n)"
| "ann (num.Bit1 m) (num.Bit1 n) = d0 (ann m n)"

text \<open>
  Shifts on natural numbers: \<open>tkn\<close> and \<open>drn\<close> keep and drop low bits, \<open>pushn n x\<close>
  appends \<open>n\<close> zero bits, \<open>un\<close> counts a numeral out in \<open>Suc\<close>s.
\<close>

definition tkn :: "nat \<Rightarrow> nat \<Rightarrow> nat" where "tkn n x = x mod 2 ^ n"
definition drn :: "nat \<Rightarrow> nat \<Rightarrow> nat" where "drn n x = x div 2 ^ n"

fun pushn :: "nat \<Rightarrow> nat \<Rightarrow> nat" where
  "pushn 0 x = x"
| "pushn (Suc n) x = pushn n (d0 x)"

fun du :: "nat \<Rightarrow> nat" where
  "du 0 = 0"
| "du (Suc n) = Suc (Suc (du n))"

fun un :: "num \<Rightarrow> nat" where
  "un num.One = Suc 0"
| "un (num.Bit0 k) = du (un k)"
| "un (num.Bit1 k) = Suc (du (un k))"

text \<open>\<open>shl n k\<close>: the numeral \<open>k\<close> with \<open>n\<close> zero bits appended.\<close>

fun shl :: "nat \<Rightarrow> num \<Rightarrow> num" where
  "shl 0 k = k"
| "shl (Suc n) k = shl n (num.Bit0 k)"

text \<open>\<open>fits n k\<close>: the numeral \<open>k\<close> has at most \<open>n\<close> bits.\<close>

fun fits :: "nat \<Rightarrow> num \<Rightarrow> bool" where
  "fits 0 k = False"
| "fits (Suc n) num.One = True"
| "fits (Suc n) (num.Bit0 k) = fits n k"
| "fits (Suc n) (num.Bit1 k) = fits n k"

text \<open>The two 64-bit halves of a product.\<close>

definition split64 :: "num \<Rightarrow> u64 \<times> u64" where
  "split64 k = (of_nat (tk 64 k), of_nat (dr 64 k))"



section \<open>The steps of the towers, one function each\<close>

text \<open>
  The steps of the towers as functions of their own, for the evaluation on literal
  inputs: each takes the tuple the step before returns.
\<close>

fun ring_close :: "state \<times> size_t \<times> size_t \<times> u64 \<Rightarrow> state \<times> size_t \<times> size_t" where
  "ring_close ((s0, s1, s2, s3, s4, s5), p, q, ring_prev) = ((s0 XOR ring_prev, s1, s2, s3, s4, s5), p, q)"

fun block_6 :: "bool \<Rightarrow> buffer \<Rightarrow> state \<times> size_t \<times> size_t \<Rightarrow> state \<times> size_t \<times> size_t" where
  "block_6 BFast bytes (state, p, q) =
     (if q \<ge> 8 * 6 then (layer_6 BFast state bytes p, p + 8 * 6, q - 8 * 6) else (state, p, q))"

fun block_3 :: "bool \<Rightarrow> buffer \<Rightarrow> state \<times> size_t \<times> size_t \<Rightarrow> state \<times> size_t \<times> size_t" where
  "block_3 BFast bytes (state, p, q) =
     (if q \<ge> 8 * 3 then (layer_3 BFast state bytes p, p + 8 * 3, q - 8 * 3) else (state, p, q))"

definition tail_read :: "buffer \<Rightarrow> size_t \<Rightarrow> size_t \<Rightarrow> u64 \<times> u64 \<times> u64" where
  "tail_read bytes p q =
     (if q \<le> 8 * 2 then
        let (i', j') = read_short bytes p q in (i', j', 0)
      else
        (read_u64 bytes p, read_u64 bytes (p + 8), read_u64 bytes (p + q - 8)))"

fun tail_fold :: "bool \<Rightarrow> state \<Rightarrow> u64 \<times> u64 \<times> u64 \<Rightarrow> u64 \<times> u64 \<times> u64" where
  "tail_fold long (s0, s1, s2, s3, s4, s5) (i, j, k) =
     (if long then
        let (s0, s2, s4) = chixx s0 s2 s4;
            (s1, s3, s5) = chixx s1 s3 s5
        in (i XOR (s0 + s1), j XOR (s2 + s3), k XOR (s4 + s5))
      else
        (i XOR s0, j XOR s1, k XOR s2))"

fun fold_call :: "buffer \<Rightarrow> size_t \<Rightarrow> state \<times> size_t \<times> size_t \<Rightarrow> u64 \<times> u64 \<times> u64" where
  "fold_call bytes len (state, p, q) = layer_0 state bytes p q len"

fun twist_rot :: "size_t \<Rightarrow> u8 \<Rightarrow> u64 \<times> u64 \<times> u64 \<Rightarrow> u64 \<times> u64 \<times> u64" where
  "twist_rot len rot (i, j, k) = (rotl i rot, rotr j rot, k XOR len)"

fun twist_mul :: "bool \<Rightarrow> u64 \<times> u64 \<times> u64 \<Rightarrow> u64 \<times> u64 \<times> u64" where
  "twist_mul BFast (i, j, k) =
     (if \<not> BFast then
        let (lo0, hi0) = wmul (i XOR MUSEAIR_SECRET_3) j;
            (lo1, hi1) = wmul (j XOR MUSEAIR_SECRET_4) k;
            (lo2, hi2) = wmul (k XOR MUSEAIR_SECRET_5) i
        in (i XOR (lo0 XOR hi2), j XOR (lo1 XOR hi0), k XOR (lo2 XOR hi1))
      else
        let (lo0, hi0) = wmul i j;
            (lo1, hi1) = wmul j k;
            (lo2, hi2) = wmul k i
        in (lo0 XOR hi2, lo1 XOR hi0, lo2 XOR hi1))"

fun twist_call :: "bool \<Rightarrow> size_t \<Rightarrow> u64 \<times> u64 \<times> u64 \<Rightarrow> u64 \<times> u64 \<times> u64" where
  "twist_call BFast len (i, j, k) = layer_f BFast len i j k"

fun epi_short_call :: "u64 \<times> u64 \<Rightarrow> u64 \<times> u64" where
  "epi_short_call (i, j) = epi_short i j"

fun epi_short_128_call :: "bool \<Rightarrow> u64 \<times> u64 \<Rightarrow> u64 \<times> u64" where
  "epi_short_128_call BFast (i, j) = epi_short_128 BFast i j"

fun epi_loong_call :: "bool \<Rightarrow> u64 \<times> u64 \<times> u64 \<Rightarrow> u64 \<times> u64 \<times> u64" where
  "epi_loong_call BFast (i, j, k) = epi_loong BFast i j k"

fun epi_loong_128_call :: "bool \<Rightarrow> u64 \<times> u64 \<times> u64 \<Rightarrow> u64 \<times> u64 \<times> u64" where
  "epi_loong_128_call BFast (i, j, k) = epi_loong_128 BFast i j k"

section \<open>The keys of the self-test\<close>

text \<open>The buffer that holds the bytes \<open>0, 1, \<dots>, k - 1\<close> and zeros after them.\<close>

definition key_upto :: "nat \<Rightarrow> buffer" where
  "key_upto k = (\<lambda>n. if unat n < k then ucast n else 0)"

text \<open>
  \<open>key_hash h k\<close>: what pass \<open>k\<close> of the loop hashes, the key \<open>0, 1, \<dots>, k - 1\<close> with
  seed \<open>256 - k\<close>. \<open>half b r\<close> is the low half of \<open>r\<close> for \<open>b = 0\<close> and the upper half
  otherwise.
\<close>

definition key_hash :: "(buffer \<Rightarrow> size_t \<Rightarrow> u64 \<Rightarrow> 'a) \<Rightarrow> nat \<Rightarrow> 'a" where
  "key_hash h k = h (key_upto k) (of_nat k) (HASH_INIT (256 - of_nat k))"

definition half :: "nat \<Rightarrow> u64 \<times> u64 \<Rightarrow> u64" where
  "half b r = (if b = 0 then fst r else snd r)"

section \<open>Word facts\<close>

lemma le16_cases:
  fixes len :: u64
  assumes "len \<le> 16"
  shows "len \<in> {0, 1, 2, 3, 4, 5, 6, 7, 8, 9, 10, 11, 12, 13, 14, 15, 16}"
proof -
  from assms have "unat len \<le> 16" by (simp add: word_le_nat_alt)
  then have "unat len = 0 \<or> unat len = 1 \<or> unat len = 2 \<or> unat len = 3 \<or> unat len = 4
    \<or> unat len = 5 \<or> unat len = 6 \<or> unat len = 7 \<or> unat len = 8 \<or> unat len = 9
    \<or> unat len = 10 \<or> unat len = 11 \<or> unat len = 12 \<or> unat len = 13 \<or> unat len = 14
    \<or> unat len = 15 \<or> unat len = 16" by arith
  moreover have "\<And>n. unat len = n \<Longrightarrow> len = of_nat n" by auto
  ultimately show ?thesis by fastforce
qed

text \<open>The expression \<open>(len & 24) >> (len >> 3)\<close> of \<open>_museair_read_short\<close>.\<close>

lemma read_short_off:
  fixes len :: u64
  assumes "4 \<le> len" "len \<le> 16"
  shows "drop_bit (unat (drop_bit 3 len)) (len AND 24) = (if 8 \<le> len then 4 else 0)"
  using le16_cases[OF assms(2)] assms(1) by (auto simp add: word_le_nat_alt)

lemma sub_96_mod:
  fixes q :: u64
  assumes "96 \<le> q"
  shows "(q - 96) mod 96 = q mod 96"
proof -
  from assms have le: "unat (96 :: u64) \<le> unat q" by (simp add: word_le_nat_alt)
  have "unat (q - 96) = unat q - unat (96 :: u64)" using assms by (rule unat_sub)
  then have "unat ((q - 96) mod 96) = unat (q mod 96)"
    using le by (simp add: unat_mod le_mod_geq)
  then show ?thesis by (simp only: word_unat_eq_iff)
qed

section \<open>Rotations\<close>

text \<open>
  \<open>(v << n) | (v >> ((-n) & 63))\<close> is the rotation of \<open>v\<close> by \<open>n\<close> places for every
  \<open>n \<le> 63\<close>, also for \<open>n = 0\<close>, where both shifts are by 0.
\<close>

lemma neg_and_63:
  fixes n :: u8
  assumes "n \<le> 63"
  shows "unat ((- n) AND 63) = (64 - unat n) mod 64"
proof -
  have "\<forall>m \<in> {0..<64::nat}. unat ((- of_nat m) AND 63 :: u8) = (64 - m) mod 64"
    by code_simp
  moreover from assms have "unat n \<in> {0..<64}" by (simp add: word_le_nat_alt)
  ultimately have "unat ((- of_nat (unat n)) AND 63 :: u8) = (64 - unat n) mod 64" by blast
  then show ?thesis by simp
qed

lemma rot_core_l:
  fixes r k :: nat
  assumes b: "\<And>m. P m \<Longrightarrow> m < 64" and r: "r < 64"
  shows "((r \<le> k \<and> k < 64 \<and> P (k - r)) \<or> P ((64 - r) mod 64 + k))
       = (k < 64 \<and> P ((k + (64 - r mod 64)) mod 64))"
proof (cases "k < 64")
  case False
  have "\<not> P ((64 - r) mod 64 + k)"
  proof
    assume "P ((64 - r) mod 64 + k)"
    then have "(64 - r) mod 64 + k < 64" by (rule b)
    with False show False by simp
  qed
  with False show ?thesis by simp
next
  case True
  show ?thesis
  proof (cases "r = 0")
    case r0: True
    with True show ?thesis by simp
  next
    case r0: False
    show ?thesis
    proof (cases "r \<le> k")
      case le: True
      have "\<not> P (64 - r + k)"
      proof
        assume "P (64 - r + k)"
        then have "64 - r + k < 64" by (rule b)
        with le r show False by simp
      qed
      moreover from r r0 have "(64 - r) mod 64 = 64 - r" by simp
      moreover from r r0 le True have "(k + (64 - r mod 64)) mod 64 = k - r"
        by (simp add: mod_if)
      ultimately show ?thesis using le True by simp
    next
      case le: False
      from r r0 have "(64 - r) mod 64 = 64 - r" by simp
      moreover have "(k + (64 - r mod 64)) mod 64 = 64 - r + k"
      proof -
        from r have "r mod 64 = r" by simp
        moreover from le r r0 have "k + (64 - r) < 64" by arith
        ultimately show ?thesis by (simp add: add.commute)
      qed
      ultimately show ?thesis using le True by simp
    qed
  qed
qed

lemma rot_core_r:
  fixes r k :: nat
  assumes b: "\<And>m. P m \<Longrightarrow> m < 64" and r: "r < 64"
  shows "(P (r + k) \<or> ((64 - r) mod 64 \<le> k \<and> k < 64 \<and> P (k - (64 - r) mod 64)))
       = (k < 64 \<and> P ((k + r) mod 64))"
proof (cases "k < 64")
  case False
  have "\<not> P (r + k)"
  proof
    assume "P (r + k)"
    then have "r + k < 64" by (rule b)
    with False show False by simp
  qed
  with False show ?thesis by simp
next
  case True
  show ?thesis
  proof (cases "r = 0")
    case r0: True
    with True show ?thesis by auto
  next
    case r0: False
    from r r0 have s: "(64 - r) mod 64 = 64 - r" by simp
    show ?thesis
    proof (cases "k + r < 64")
      case lt: True
      then have "(k + r) mod 64 = r + k" by simp
      moreover from lt r0 have "\<not> 64 - r \<le> k" by simp
      ultimately show ?thesis using True s by (simp add: add.commute)
    next
      case lt: False
      have "\<not> P (r + k)"
      proof
        assume "P (r + k)"
        then have "r + k < 64" by (rule b)
        with lt show False by simp
      qed
      moreover from lt r True have "(k + r) mod 64 = k - (64 - r)"
        by (simp add: mod_if)
      moreover from lt have "64 - r \<le> k" by simp
      ultimately show ?thesis using True s by simp
    qed
  qed
qed

lemma rotl_word_rotl:
  fixes n :: u8
  assumes "n \<le> 63"
  shows "rotl v n = word_rotl (unat n) v"
proof (rule bit_eqI)
  fix k
  from assms have r: "unat n < 64" by (simp add: word_le_nat_alt)
  have b: "\<And>m. bit v m \<Longrightarrow> m < 64" using bit_imp_le_length[of v] by simp
  have "bit (rotl v n) k =
      ((unat n \<le> k \<and> k < 64 \<and> bit v (k - unat n)) \<or> bit v ((64 - unat n) mod 64 + k))"
    by (simp add: rotl_def neg_and_63[OF assms] bit_or_iff bit_push_bit_iff bit_drop_bit_eq)
  also have "\<dots> = (k < 64 \<and> bit v ((k + (64 - unat n mod 64)) mod 64))"
    using b r by (rule rot_core_l)
  also have "\<dots> = bit (word_rotl (unat n) v) k"
    by (simp add: bit_word_rotl_iff)
  finally show "bit (rotl v n) k = bit (word_rotl (unat n) v) k" .
qed

lemma rotr_word_rotr:
  fixes n :: u8
  assumes "n \<le> 63"
  shows "rotr v n = word_rotr (unat n) v"
proof (rule bit_eqI)
  fix k
  from assms have r: "unat n < 64" by (simp add: word_le_nat_alt)
  have b: "\<And>m. bit v m \<Longrightarrow> m < 64" using bit_imp_le_length[of v] by simp
  have "bit (rotr v n) k = (bit v (unat n + k) \<or>
      ((64 - unat n) mod 64 \<le> k \<and> k < 64 \<and> bit v (k - (64 - unat n) mod 64)))"
    by (simp add: rotr_def neg_and_63[OF assms] bit_or_iff bit_push_bit_iff bit_drop_bit_eq)
  also have "\<dots> = (k < 64 \<and> bit v ((k + unat n) mod 64))"
    using b r by (rule rot_core_r)
  also have "\<dots> = bit (word_rotr (unat n) v) k"
    by (simp add: bit_word_rotr_iff)
  finally show "bit (rotr v n) k = bit (word_rotr (unat n) v) k" .
qed

text \<open>\<open>(uint8_t)len & 63\<close> is the length modulo 64.\<close>

lemma rot_amount:
  fixes len :: u64
  shows "(ucast len :: u8) AND 63 \<le> 63"
    and "unat ((ucast len :: u8) AND 63) = unat len mod 64"
proof -
  show "(ucast len :: u8) AND 63 \<le> 63" by (rule word_and_le1)
  have "(ucast len :: u8) AND 63 = take_bit 6 (ucast len)"
    by (simp add: take_bit_eq_mask mask_eq_exp_minus_1)
  moreover have "unat (take_bit 6 (ucast len :: u8)) = take_bit 6 (take_bit 8 (unat len))"
    by (simp add: unsigned_take_bit_eq unsigned_ucast_eq)
  moreover have "take_bit 6 (take_bit 8 (unat len)) = unat len mod 64"
    by (simp add: take_bit_eq_mod mod_mod_cancel)
  ultimately show "unat ((ucast len :: u8) AND 63) = unat len mod 64"
    by (simp only:)
qed

section \<open>The 12-word loop\<close>

text \<open>
  The loop leaves fewer than 96 bytes, the remainder of the division of \<open>q\<close> by 96, and
  has advanced \<open>p\<close> by what it has taken from \<open>q\<close>.
\<close>

lemma layer_12_loop_exit:
  "layer_12_loop BFast bytes state p q ring_prev = (state', p', q', ring_prev')
   \<Longrightarrow> q' < 96 \<and> q' = q mod 96 \<and> p' + q' = p + q"
proof (induction BFast bytes state p q ring_prev rule: layer_12_loop.induct)
  case (1 BFast bytes state p q ring_prev)
  show ?case
  proof (cases "8 * 12 \<le> q")
    case True
    obtain st1 rp1 where l: "layer_12 BFast state bytes p ring_prev = (st1, rp1)"
      by (cases "layer_12 BFast state bytes p ring_prev")
    from True l "1.prems"
    have "layer_12_loop BFast bytes st1 (p + 8 * 12) (q - 8 * 12) rp1 = (state', p', q', ring_prev')"
      by (simp add: layer_12_loop.simps[of BFast bytes state p q ring_prev])
    note ih = "1.IH"[OF True l[symmetric] refl this]
    have e: "(8 * 12 :: u64) = 96" by simp
    from ih have a: "q' < 96" by (rule conjunct1)
    from ih have b: "q' = (q - 96) mod 96" unfolding e by (rule conjunct1[OF conjunct2])
    from ih have c: "p' + q' = p + 96 + (q - 96)" unfolding e by (rule conjunct2[OF conjunct2])
    from True have "(q - 96) mod 96 = q mod 96" by (simp add: sub_96_mod)
    with b have "q' = q mod 96" by (simp only:)
    moreover from c have "p' + q' = p + q" by simp
    ultimately show ?thesis using a by blast
  next
    case False
    with "1.prems" have eq: "q' = q" "p' = p"
      by (simp_all add: layer_12_loop.simps[of BFast bytes state p q ring_prev])
    from False have lt: "q < 96" by (simp add: not_le)
    then have "q mod 96 = q"
      by (simp add: word_less_nat_alt unat_mod word_unat_eq_iff)
    with eq lt show ?thesis by simp
  qed
qed

section \<open>ChiMix\<close>

lemma chixx_twice: "(case chixx t u v of (a, b, c) \<Rightarrow> chixx a b c) = (t, u, v)"
  unfolding chixx_def Let_def prod.case
  by (intro prod_eqI bit_eqI; simp add: bit_simps; blast)

text \<open>
  C8, as stated, fails: ChiMix is an involution on every triple of 64-bit words, so no
  triple exists at which applying it twice gives another triple.
\<close>

theorem chixx_not_involution_counterexample:
  "\<not> (\<exists>t u v. (case chixx t u v of (a, b, c) \<Rightarrow> chixx a b c) \<noteq> (t, u, v))"
  by (simp add: chixx_twice)

text \<open>
  C8, amended: ChiMix maps every triple of 64-bit words \<open>(t, u, v)\<close> to exactly
  \<open>(t ^ (~u & v), u ^ (~v & t), v ^ (~t & u))\<close>, and it is an involution: applying it
  twice returns \<open>(t, u, v)\<close>.
\<close>

theorem chixx_formula_involution:
  "chixx t u v = (t XOR (NOT u AND v), u XOR (NOT v AND t), v XOR (NOT t AND u))
   \<and> (case chixx t u v of (a, b, c) \<Rightarrow> chixx a b c) = (t, u, v)"
  using chixx_twice[of t u v] by (simp add: chixx_def)

section \<open>Short packing\<close>

text \<open>
  C7: for every buffer and length \<open>len\<close> in 0..16 the short packing gives: for
  \<open>len = 0\<close>, \<open>i = 0\<close> and \<open>j = 0\<close>; for \<open>1 \<le> len \<le> 3\<close>, \<open>j = 0\<close> and
  \<open>i = (bytes[0] << 48) | (bytes[len >> 1] << 24) | bytes[len - 1]\<close>, so that
  \<open>len = 1\<close> repeats byte 0 three times and \<open>len = 2\<close> repeats its last byte twice; for
  \<open>4 \<le> len \<le> 16\<close> both words are made of the little-endian 32-bit reads at the
  offsets 0, \<open>len - 4\<close>, \<open>off\<close> and \<open>len - 4 - off\<close>, where \<open>off\<close> is 4 exactly when
  \<open>len \<ge> 8\<close> and 0 otherwise.
\<close>

theorem read_short_packing:
  "(len = 0 \<longrightarrow> read_short bytes p len = (0, 0))
 \<and> (1 \<le> len \<and> len \<le> 3 \<longrightarrow>
      read_short bytes p len =
        (push_bit 48 (ucast (bytes p)) OR push_bit 24 (ucast (bytes (p + drop_bit 1 len)))
           OR ucast (bytes (p + (len - 1))), 0))
 \<and> read_short bytes p 1 =
        (push_bit 48 (ucast (bytes p)) OR push_bit 24 (ucast (bytes p)) OR ucast (bytes p), 0)
 \<and> read_short bytes p 2 =
        (push_bit 48 (ucast (bytes p)) OR push_bit 24 (ucast (bytes (p + 1)))
           OR ucast (bytes (p + 1)), 0)
 \<and> read_short bytes p 3 =
        (push_bit 48 (ucast (bytes p)) OR push_bit 24 (ucast (bytes (p + 1)))
           OR ucast (bytes (p + 2)), 0)
 \<and> (4 \<le> len \<and> len \<le> 16 \<longrightarrow>
      read_short bytes p len =
        (let off = (if 8 \<le> len then 4 else 0) in
         (push_bit 32 (read_u32 bytes p) OR read_u32 bytes (p + len - 4),
          push_bit 32 (read_u32 bytes (p + off)) OR read_u32 bytes (p + len - 4 - off))))"
proof (intro conjI impI)
  show "len = 0 \<Longrightarrow> read_short bytes p len = (0, 0)"
    by (simp add: read_short_def)
  show "1 \<le> len \<and> len \<le> 3 \<Longrightarrow> read_short bytes p len =
        (push_bit 48 (ucast (bytes p)) OR push_bit 24 (ucast (bytes (p + drop_bit 1 len)))
           OR ucast (bytes (p + (len - 1))), 0)"
    by (auto simp add: read_short_def word_le_nat_alt word_less_nat_alt)
  show "read_short bytes p 1 =
        (push_bit 48 (ucast (bytes p)) OR push_bit 24 (ucast (bytes p)) OR ucast (bytes p), 0)"
    by (simp add: read_short_def word_le_nat_alt word_less_nat_alt)
  show "read_short bytes p 2 =
        (push_bit 48 (ucast (bytes p)) OR push_bit 24 (ucast (bytes (p + 1)))
           OR ucast (bytes (p + 1)), 0)"
    by (simp add: read_short_def)
  show "read_short bytes p 3 =
        (push_bit 48 (ucast (bytes p)) OR push_bit 24 (ucast (bytes (p + 1)))
           OR ucast (bytes (p + 2)), 0)"
    by (simp add: read_short_def)
  show "4 \<le> len \<and> len \<le> 16 \<Longrightarrow> read_short bytes p len =
        (let off = (if 8 \<le> len then 4 else 0) in
         (push_bit 32 (read_u32 bytes p) OR read_u32 bytes (p + len - 4),
          push_bit 32 (read_u32 bytes (p + off)) OR read_u32 bytes (p + len - 4 - off)))"
    using read_short_off[of len] by (simp add: read_short_def Let_def)
qed

text \<open>
  The packing of the buffer 1, 2, 3, ... at the lengths 0, 2 and 9.
\<close>

theorem read_short_packing_witness:
  "read_short (\<lambda>n. ucast n + 1) 0 0 = (0, 0)
 \<and> (1::u64) \<le> 2 \<and> (2::u64) \<le> 3
 \<and> read_short (\<lambda>n. ucast n + 1) 0 2 = (0x0001000002000002, 0)
 \<and> (4::u64) \<le> 9 \<and> (9::u64) \<le> 16
 \<and> read_short (\<lambda>n. ucast n + 1) 0 9 = (0x0403020109080706, 0x0807060505040302)"
proof -
  have h1: "(1::u64) \<le> 2 \<and> (2::u64) \<le> 3" by (simp add: word_le_nat_alt)
  have h2: "(4::u64) \<le> 9 \<and> (9::u64) \<le> 16" by simp
  from read_short_packing[of 0 "\<lambda>n. ucast n + 1" 0]
  have "read_short (\<lambda>n. ucast n + 1) 0 0 = (0, 0)" by simp
  moreover from h1 read_short_packing[of 2 "\<lambda>n. ucast n + 1" 0]
  have "read_short (\<lambda>n. ucast n + 1) 0 2 = (0x0001000002000002, 0)" by simp
  moreover from h2 read_short_packing[of 9 "\<lambda>n. ucast n + 1" 0]
  have "read_short (\<lambda>n. ucast n + 1) 0 9 = (0x0403020109080706, 0x0807060505040302)"
    by (simp add: read_u32_def)
  ultimately show ?thesis using h1 h2 by simp
qed

text \<open>
  C9: for every buffer and every length \<open>len\<close> with \<open>4 \<le> len \<le> 7\<close> the short packing
  gives two equal words, \<open>i = j\<close>: the offset of word \<open>j\<close> is 0 below length 8.
\<close>

theorem read_short_equal_words:
  "4 \<le> len \<Longrightarrow> len \<le> 7 \<Longrightarrow> fst (read_short bytes p len) = snd (read_short bytes p len)"
proof -
  assume a: "4 \<le> len" "len \<le> 7"
  then have le: "len \<le> 16" and n8: "\<not> 8 \<le> len"
    by (simp_all add: word_le_nat_alt)
  have off: "drop_bit (unat (drop_bit 3 len)) (len AND 24) = 0"
    by (simp only: read_short_off[OF a(1) le] n8 if_False)
  show ?thesis
    by (simp only: read_short_def Let_def off a(1) if_True fst_conv snd_conv add_0_right diff_zero)
qed

theorem read_short_equal_words_witness:
  "(4::u64) \<le> 5 \<and> (5::u64) \<le> 7
 \<and> fst (read_short (\<lambda>n. ucast n + 1) 0 5) = snd (read_short (\<lambda>n. ucast n + 1) 0 5)"
proof -
  have h1: "(4::u64) \<le> 5" by simp
  have h2: "(5::u64) \<le> 7" by simp
  from read_short_equal_words[OF h1 h2, of "\<lambda>n. ucast n + 1" 0] h1 h2
  show ?thesis by blast
qed

section \<open>Entry points\<close>

text \<open>
  C2: for every buffer, length and seed, each of the four public entry points runs the
  short path (\<open>tower_short\<close> followed by the short epilogue) if and only if the length is
  at most 16, and otherwise the block compressor followed by the long epilogue; lengths
  16 and 17 take different pipelines.
\<close>

theorem entry_points_short_iff_len_le_16:
  "museair_hash bytes len seed =
     (if len \<le> 16 then (case tower_short bytes len seed of (i, j) \<Rightarrow> fst (epi_short i j))
      else (case tower_loong False bytes len seed of (i, j, k) \<Rightarrow> fst (epi_loong False i j k)))
 \<and> museair_bfast_hash bytes len seed =
     (if len \<le> 16 then (case tower_short bytes len seed of (i, j) \<Rightarrow> fst (epi_short i j))
      else (case tower_loong True bytes len seed of (i, j, k) \<Rightarrow> fst (epi_loong True i j k)))
 \<and> museair_hash_128 bytes len seed =
     (if len \<le> 16 then (case tower_short bytes len seed of (i, j) \<Rightarrow> epi_short_128 False i j)
      else (case tower_loong False bytes len seed of (i, j, k) \<Rightarrow>
              (case epi_loong_128 False i j k of (i, j, k) \<Rightarrow> (i, j))))
 \<and> museair_bfast_hash_128 bytes len seed =
     (if len \<le> 16 then (case tower_short bytes len seed of (i, j) \<Rightarrow> epi_short_128 True i j)
      else (case tower_loong True bytes len seed of (i, j, k) \<Rightarrow>
              (case epi_loong_128 True i j k of (i, j, k) \<Rightarrow> (i, j))))
 \<and> museair_hash bytes 16 seed =
       (case tower_short bytes 16 seed of (i, j) \<Rightarrow> fst (epi_short i j))
 \<and> museair_hash bytes 17 seed =
       (case tower_loong False bytes 17 seed of (i, j, k) \<Rightarrow> fst (epi_loong False i j k))
 \<and> museair_bfast_hash bytes 16 seed =
       (case tower_short bytes 16 seed of (i, j) \<Rightarrow> fst (epi_short i j))
 \<and> museair_bfast_hash bytes 17 seed =
       (case tower_loong True bytes 17 seed of (i, j, k) \<Rightarrow> fst (epi_loong True i j k))
 \<and> museair_hash_128 bytes 16 seed =
       (case tower_short bytes 16 seed of (i, j) \<Rightarrow> epi_short_128 False i j)
 \<and> museair_hash_128 bytes 17 seed =
       (case tower_loong False bytes 17 seed of (i, j, k) \<Rightarrow>
          (case epi_loong_128 False i j k of (i, j, k) \<Rightarrow> (i, j)))
 \<and> museair_bfast_hash_128 bytes 16 seed =
       (case tower_short bytes 16 seed of (i, j) \<Rightarrow> epi_short_128 True i j)
 \<and> museair_bfast_hash_128 bytes 17 seed =
       (case tower_loong True bytes 17 seed of (i, j, k) \<Rightarrow>
          (case epi_loong_128 True i j k of (i, j, k) \<Rightarrow> (i, j)))"
  by (simp add: museair_hash_def museair_hash_128_def museair_bfast_hash_def
      museair_bfast_hash_128_def museair_hash_impl_def museair_hash_128_impl_def
      hash_short_def hash_short_128_def hash_loong_def hash_loong_128_def split: prod.splits)

text \<open>
  C10: for length 0 the digest of every public entry point depends on the seed only: for
  every seed and every two buffers \<open>b1\<close> and \<open>b2\<close>, hashing \<open>(b1, 0, seed)\<close> and
  \<open>(b2, 0, seed)\<close> through the same entry point gives the same output.
\<close>

theorem empty_input_ignores_buffer:
  "museair_hash b1 0 seed = museair_hash b2 0 seed
 \<and> museair_hash_128 b1 0 seed = museair_hash_128 b2 0 seed
 \<and> museair_bfast_hash b1 0 seed = museair_bfast_hash b2 0 seed
 \<and> museair_bfast_hash_128 b1 0 seed = museair_bfast_hash_128 b2 0 seed"
  by (simp add: museair_hash_def museair_hash_128_def museair_bfast_hash_def
      museair_bfast_hash_128_def museair_hash_impl_def museair_hash_128_impl_def
      hash_short_def hash_short_128_def tower_short_def read_short_def)

section \<open>Block compressor\<close>

text \<open>
  C6, as stated, fails: for a length from 17 to 95 the state words 3, 4 and 5 are the
  bare secret words, not combined with the seed. Length 17, seed 1.
\<close>

theorem state_seeding_counterexample:
  "tower_loong_ring False (\<lambda>_. 0) 17 1 \<noteq> tower_loong_ring_claimed False (\<lambda>_. 0) 17 1"
  by (simp add: tower_loong_ring_def tower_loong_ring_claimed_def MUSEAIR_SECRET_3_def)

text \<open>
  C6, amended: at entry to the block compressor the state is
  \<open>(secret[0] + seed, secret[1] - seed, secret[2] ^ seed, secret[3], secret[4], secret[5])\<close>.
  For a length below 96 that is the state the later blocks receive, no input consumed.
  For a length of 96 or more the words 3, 4 and 5 are combined with the seed as well
  (\<open>+\<close>, \<open>-\<close>, \<open>^\<close>), the 12-word loop runs from the fixed first ring-carry, and after
  the loop the last ring-carry is XORed into state word 0, once. In both cases fewer
  than 96 bytes remain: the length modulo 96.
\<close>

theorem tower_loong_state_seeding:
  "tower_loong_ring BFast bytes len seed =
    (if len < 96 then
       ((MUSEAIR_SECRET_0 + seed, MUSEAIR_SECRET_1 - seed, MUSEAIR_SECRET_2 XOR seed,
         MUSEAIR_SECRET_3, MUSEAIR_SECRET_4, MUSEAIR_SECRET_5), 0, len)
     else
       (case layer_12_loop BFast bytes
               (MUSEAIR_SECRET_0 + seed, MUSEAIR_SECRET_1 - seed, MUSEAIR_SECRET_2 XOR seed,
                MUSEAIR_SECRET_3 + seed, MUSEAIR_SECRET_4 - seed, MUSEAIR_SECRET_5 XOR seed)
               0 len MUSEAIR_RING_PREV of
          ((s0, s1, s2, s3, s4, s5), p, q, ring_prev) \<Rightarrow>
            ((s0 XOR ring_prev, s1, s2, s3, s4, s5), p, q)))
  \<and> (case tower_loong_ring BFast bytes len seed of
        (state, p, q) \<Rightarrow> q < 96 \<and> q = len mod 96 \<and> p + q = len)"
proof
  show "tower_loong_ring BFast bytes len seed =
    (if len < 96 then
       ((MUSEAIR_SECRET_0 + seed, MUSEAIR_SECRET_1 - seed, MUSEAIR_SECRET_2 XOR seed,
         MUSEAIR_SECRET_3, MUSEAIR_SECRET_4, MUSEAIR_SECRET_5), 0, len)
     else
       (case layer_12_loop BFast bytes
               (MUSEAIR_SECRET_0 + seed, MUSEAIR_SECRET_1 - seed, MUSEAIR_SECRET_2 XOR seed,
                MUSEAIR_SECRET_3 + seed, MUSEAIR_SECRET_4 - seed, MUSEAIR_SECRET_5 XOR seed)
               0 len MUSEAIR_RING_PREV of
          ((s0, s1, s2, s3, s4, s5), p, q, ring_prev) \<Rightarrow>
            ((s0 XOR ring_prev, s1, s2, s3, s4, s5), p, q)))"
  proof (cases "len < 96")
    case True
    then have "\<not> 8 * 12 \<le> len" by (simp add: not_le)
    with True show ?thesis by (simp add: tower_loong_ring_def)
  next
    case False
    then have "8 * 12 \<le> len" by (simp add: not_less)
    with False show ?thesis
      by (simp add: tower_loong_ring_def Let_def split: prod.splits)
  qed
next
  obtain state p q where t: "tower_loong_ring BFast bytes len seed = (state, p, q)"
    by (cases "tower_loong_ring BFast bytes len seed")
  have main: "q < 96 \<and> q = len mod 96 \<and> p + q = len"
  proof (cases "len < 96")
    case True
    then have "len mod 96 = len"
      by (simp add: word_unat_eq_iff unat_mod word_less_nat_alt)
    with True t show ?thesis
      by (simp add: tower_loong_ring_def not_le[symmetric])
  next
    case False
    then have ge: "8 * 12 \<le> len" by (simp add: not_less)
    obtain st p' q' rp where l: "layer_12_loop BFast bytes
               (MUSEAIR_SECRET_0 + seed, MUSEAIR_SECRET_1 - seed, MUSEAIR_SECRET_2 XOR seed,
                MUSEAIR_SECRET_3 + seed, MUSEAIR_SECRET_4 - seed, MUSEAIR_SECRET_5 XOR seed)
               0 len MUSEAIR_RING_PREV = (st, p', q', rp)"
      by (metis prod_cases4)
    from ge t l have pq: "p = p'" "q = q'"
      by (simp_all add: tower_loong_ring_def Let_def split: prod.splits)
    note ex = layer_12_loop_exit[OF l, unfolded add_0_left]
    from ex pq show ?thesis by blast
  qed
  show "case tower_loong_ring BFast bytes len seed of
        (state, p, q) \<Rightarrow> q < 96 \<and> q = len mod 96 \<and> p + q = len"
    unfolding t prod.case by (rule main)
qed

text \<open>
  C5, as stated, fails: in the fast variant the first word of a pair becomes the incoming
  ring-carry XOR the high half of the product, not the low half. A zero state, zero
  input and ring-carry 1: the code leaves 1 in state word 0, the claim 0.
\<close>

theorem layer_12_fast_low_half_counterexample:
  "layer_12 True (0, 0, 0, 0, 0, 0) (\<lambda>_. 0) 0 1
   \<noteq> ring_block ring_pair_claimed True (0, 0, 0, 0, 0, 0) (\<lambda>_. 0) 0 1"
  by (simp add: layer_12_def ring_block_def ring_pair_claimed_def read_u64_def wmul_def)

text \<open>
  C5, amended: in the 12-word block update, for each of the six cyclic state pairs, after
  XORing the two new input words into the pair and wide-multiplying the pair, the full
  variant sets the first state word of the pair to its value plus (incoming ring-carry
  XOR high half of the product), and the fast variant sets it to (incoming ring-carry
  XOR high half of the product); in both variants the low half of the product is the
  ring-carry of the next pair, and the low half of the last pair is the ring-carry of
  the next block.
\<close>

theorem layer_12_ring_pairs:
  "layer_12 BFast state bytes p ring_prev = ring_block ring_pair BFast state bytes p ring_prev"
  by (cases state)
    (simp add: layer_12_def ring_block_def ring_pair_def Let_def split: prod.splits)

text \<open>
  C3: in the tail fold, for every input of total length 24 or more, ChiMix is applied
  once to \<open>(state[0], state[2], state[4])\<close> and once to \<open>(state[1], state[3], state[5])\<close>,
  and then \<open>i ^= state[0] + state[1]\<close>, \<open>j ^= state[2] + state[3]\<close>,
  \<open>k ^= state[4] + state[5]\<close>; for every input of total length 17 to 23 no ChiMix is
  applied and only \<open>i ^= state[0]\<close>, \<open>j ^= state[1]\<close>, \<open>k ^= state[2]\<close> are done, on the
  state the compressor starts from and the three 8-byte reads of the input.
\<close>

theorem tail_fold_by_length:
  "(24 \<le> len \<longrightarrow>
      tower_loong_fold BFast bytes len seed =
        (case tower_loong_blocks BFast bytes len seed of
           ((s0, s1, s2, s3, s4, s5), p, q) \<Rightarrow>
             (case (if q \<le> 16 then (case read_short bytes p q of (i, j) \<Rightarrow> (i, j, 0))
                    else (read_u64 bytes p, read_u64 bytes (p + 8), read_u64 bytes (p + q - 8))) of
                (i, j, k) \<Rightarrow>
                  (case chixx s0 s2 s4 of
                     (t0, t2, t4) \<Rightarrow>
                       (case chixx s1 s3 s5 of
                          (t1, t3, t5) \<Rightarrow>
                            (i XOR (t0 + t1), j XOR (t2 + t3), k XOR (t4 + t5)))))))
 \<and> (17 \<le> len \<and> len \<le> 23 \<longrightarrow>
      tower_loong_fold BFast bytes len seed =
        (read_u64 bytes 0 XOR (MUSEAIR_SECRET_0 + seed),
         read_u64 bytes 8 XOR (MUSEAIR_SECRET_1 - seed),
         read_u64 bytes (len - 8) XOR (MUSEAIR_SECRET_2 XOR seed)))"
proof (intro conjI impI)
  assume "24 \<le> len"
  then have "8 * 3 \<le> len" by simp
  then show "tower_loong_fold BFast bytes len seed =
        (case tower_loong_blocks BFast bytes len seed of
           ((s0, s1, s2, s3, s4, s5), p, q) \<Rightarrow>
             (case (if q \<le> 16 then (case read_short bytes p q of (i, j) \<Rightarrow> (i, j, 0))
                    else (read_u64 bytes p, read_u64 bytes (p + 8), read_u64 bytes (p + q - 8))) of
                (i, j, k) \<Rightarrow>
                  (case chixx s0 s2 s4 of
                     (t0, t2, t4) \<Rightarrow>
                       (case chixx s1 s3 s5 of
                          (t1, t3, t5) \<Rightarrow>
                            (i XOR (t0 + t1), j XOR (t2 + t3), k XOR (t4 + t5))))))"
    by (simp add: tower_loong_fold_def layer_0_def Let_def split: prod.splits)
next
  assume a: "17 \<le> len \<and> len \<le> 23"
  then have n: "\<not> 8 * 12 \<le> len" "\<not> 8 * 6 \<le> len" "\<not> 8 * 3 \<le> len" "\<not> len \<le> 8 * 2"
    by (simp_all add: word_le_nat_alt)
  have ring: "tower_loong_ring BFast bytes len seed =
      ((MUSEAIR_SECRET_0 + seed, MUSEAIR_SECRET_1 - seed, MUSEAIR_SECRET_2 XOR seed,
         MUSEAIR_SECRET_3, MUSEAIR_SECRET_4, MUSEAIR_SECRET_5), 0, len)"
    using n(1) by (simp add: tower_loong_ring_def)
  have blocks: "tower_loong_blocks BFast bytes len seed =
      ((MUSEAIR_SECRET_0 + seed, MUSEAIR_SECRET_1 - seed, MUSEAIR_SECRET_2 XOR seed,
         MUSEAIR_SECRET_3, MUSEAIR_SECRET_4, MUSEAIR_SECRET_5), 0, len)"
    using n(2,3) by (simp add: tower_loong_blocks_def ring)
  show "tower_loong_fold BFast bytes len seed =
        (read_u64 bytes 0 XOR (MUSEAIR_SECRET_0 + seed),
         read_u64 bytes 8 XOR (MUSEAIR_SECRET_1 - seed),
         read_u64 bytes (len - 8) XOR (MUSEAIR_SECRET_2 XOR seed))"
    using n(3,4) by (simp add: tower_loong_fold_def blocks layer_0_def)
qed

text \<open>The tail fold of 24 and of 17 zero bytes with seed 0.\<close>

theorem tail_fold_by_length_witness:
  "(24::u64) \<le> 24
 \<and> tower_loong_fold False (\<lambda>_. 0) 24 0 =
        (case tower_loong_blocks False (\<lambda>_. 0) 24 0 of
           ((s0, s1, s2, s3, s4, s5), p, q) \<Rightarrow>
             (case (if q \<le> 16 then (case read_short (\<lambda>_. 0) p q of (i, j) \<Rightarrow> (i, j, 0))
                    else (read_u64 (\<lambda>_. 0) p, read_u64 (\<lambda>_. 0) (p + 8),
                          read_u64 (\<lambda>_. 0) (p + q - 8))) of
                (i, j, k) \<Rightarrow>
                  (case chixx s0 s2 s4 of
                     (t0, t2, t4) \<Rightarrow>
                       (case chixx s1 s3 s5 of
                          (t1, t3, t5) \<Rightarrow>
                            (i XOR (t0 + t1), j XOR (t2 + t3), k XOR (t4 + t5))))))
 \<and> (17::u64) \<le> 17 \<and> (17::u64) \<le> 23
 \<and> tower_loong_fold False (\<lambda>_. 0) 17 0 =
        (0x5ae31e589c56e17a, 0x96d7bb04e64f6da9, 0x7ab1006b26f9eb64)"
proof -
  have h1: "(24::u64) \<le> 24" by simp
  have h2: "(17::u64) \<le> 17 \<and> (17::u64) \<le> 23" by simp
  note a = tail_fold_by_length[of 24 False "\<lambda>_. 0" 0, THEN conjunct1, rule_format, OF h1]
  note b = tail_fold_by_length[of 17 False "\<lambda>_. 0" 0, THEN conjunct2, rule_format, OF h2]
  have c: "tower_loong_fold False (\<lambda>_. 0) 17 0 =
        (0x5ae31e589c56e17a, 0x96d7bb04e64f6da9, 0x7ab1006b26f9eb64)"
    unfolding b
    by (simp add: read_u64_def MUSEAIR_SECRET_0_def MUSEAIR_SECRET_1_def MUSEAIR_SECRET_2_def)
  from h1 h2 a c show ?thesis by blast
qed

text \<open>
  C4, as stated, fails. The code applies ChiMix and the rotations before it XORs the
  length into \<open>k\<close> (full variant, length 17, zero accumulators), and the fast variant
  replaces the accumulators by the folded halves instead of XORing them in (fast
  variant, length 64, accumulators 0, 64, 0, where the place of the XOR of the length
  makes no difference).
\<close>

theorem final_twist_claimed_order_counterexample:
  "layer_f False 17 0 0 0 \<noteq> layer_f_claimed False 17 0 0 0
 \<and> layer_f True 64 0 64 0 \<noteq> layer_f_claimed True 64 0 64 0"
  by (simp add: layer_f_def layer_f_claimed_def chixx_def wmul_def rotl_def rotr_def
      MUSEAIR_SECRET_3_def MUSEAIR_SECRET_4_def MUSEAIR_SECRET_5_def)

text \<open>
  C4, amended: for every input that reaches the block compressor the final twist does,
  in this order: one ChiMix of \<open>(i, j, k)\<close>; the rotation of \<open>i\<close> to the left and of \<open>j\<close> to
  the right by \<open>length & 63\<close> places; the XOR of the length into \<open>k\<close>; then the three
  wide multiplications on the pairs \<open>(i, j)\<close>, \<open>(j, k)\<close>, \<open>(k, i)\<close>, the first operand of
  each XORed with the secret word 3, 4, 5 in the full variant and both operands
  unchanged in the fast variant; the halves are folded crosswise, XORed into the
  accumulators in the full variant (\<open>i ^= lo0 ^ hi2\<close>, \<open>j ^= lo1 ^ hi0\<close>,
  \<open>k ^= lo2 ^ hi1\<close>) and replacing them in the fast variant (\<open>i = lo0 ^ hi2\<close>, ...).
  The twist has no condition.
\<close>

theorem final_twist_order:
  "tower_loong BFast bytes len seed =
     (case tower_loong_fold BFast bytes len seed of
        (i, j, k) \<Rightarrow>
          (case chixx i j k of
             (i, j, k) \<Rightarrow>
               (let i = word_rotl (unat len mod 64) i;
                    j = word_rotr (unat len mod 64) j;
                    k = k XOR len
                in
                if BFast then
                  (fst (wmul i j) XOR snd (wmul k i),
                   fst (wmul j k) XOR snd (wmul i j),
                   fst (wmul k i) XOR snd (wmul j k))
                else
                  (i XOR (fst (wmul (i XOR MUSEAIR_SECRET_3) j)
                            XOR snd (wmul (k XOR MUSEAIR_SECRET_5) i)),
                   j XOR (fst (wmul (j XOR MUSEAIR_SECRET_4) k)
                            XOR snd (wmul (i XOR MUSEAIR_SECRET_3) j)),
                   k XOR (fst (wmul (k XOR MUSEAIR_SECRET_5) i)
                            XOR snd (wmul (j XOR MUSEAIR_SECRET_4) k))))))"
  by (simp add: tower_loong_def layer_f_def Let_def rotl_word_rotl rotr_word_rotr rot_amount
      split: prod.splits)


section \<open>The verification values\<close>

text \<open>
  The rest of the development computes the four values that \<open>main\<close> of \<open>selftests.c\<close>
  compares \<open>ComputedVerifyImpl\<close> with. All of it is rewriting with proved equations: the
  arithmetic of literal words first, then the equations of the hash functions in a form
  that evaluates arguments before calls, then the 256 short hashes of each entry point
  and the hash of their digests.
\<close>

section \<open>Evaluation of the arithmetic on literals\<close>

lemma c3: "C3 = 3" by simp
lemma c4: "C4 = 4" by simp
lemma c8: "C8 = 8" by simp
lemma c11: "C11 = 11" by simp
lemma c12: "C12 = 12" by simp
lemma c16: "C16 = 16" by simp
lemma c24: "C24 = 24" by simp
lemma c40: "C40 = 40" by simp
lemma c48: "C48 = 48" by simp
lemma c56: "C56 = 56" by simp
lemma c32: "C32 = 32" by simp
lemma c64: "C64 = 64" by simp

lemma d_eval:
  "d0 0 = 0" "d0 (numeral k) = numeral (num.Bit0 k)"
  "d1 0 = numeral num.One" "d1 (numeral k) = numeral (num.Bit1 k)"
  by (simp_all add: d0_def d1_def numeral_Bit0 numeral_Bit1 mult_2)

lemma tk_sem: "tk n k = take_bit n (numeral k)"
  by (induction n k rule: tk.induct)
    (simp_all add: d0_def d1_def take_bit_Suc_bit0 take_bit_Suc_bit1)

lemma dr_sem: "dr n k = drop_bit n (numeral k)"
  by (induction n k rule: dr.induct)
    (simp_all add: drop_bit_Suc_bit0 drop_bit_Suc_bit1 drop_bit_Suc)

lemma fits_sem: "fits n k \<longleftrightarrow> numeral k < (2 :: nat) ^ n"
proof (induction n k rule: fits.induct)
  case (1 k)
  have "(1::nat) \<le> numeral k" by (rule one_le_numeral)
  then show ?case by simp
next
  case (2 n)
  have "(1::nat) \<le> 2 ^ n" by simp
  then have "(1::nat) < 2 * 2 ^ n" by arith
  then show ?case by simp
next
  case (3 n k)
  have "(numeral (num.Bit0 k) :: nat) = 2 * numeral k" by (simp add: numeral_Bit0)
  then have "(numeral (num.Bit0 k) :: nat) < 2 * 2 ^ n \<longleftrightarrow> numeral k < (2 :: nat)
      ^ n"
    by arith
  with 3 show ?case by (simp only: fits.simps power_Suc)
next
  case (4 n k)
  have "(numeral (num.Bit1 k) :: nat) = 2 * numeral k + 1" by (simp add: numeral_Bit1)
  then have "(numeral (num.Bit1 k) :: nat) < 2 * 2 ^ n \<longleftrightarrow> numeral k < (2 :: nat)
      ^ n"
    by arith
  with 4 show ?case by (simp only: fits.simps power_Suc)
qed

lemma xn_sem: "xn m n = numeral m XOR numeral n"
  by (induction m n rule: xn.induct) (simp_all add: d0_def d1_def)

lemma an_sem: "an m n = numeral m AND numeral n"
  by (induction m n rule: an.induct) (simp_all add: d0_def d1_def)

lemma on_sem: "on m n = numeral m OR numeral n"
  by (induction m n rule: on.induct) (simp_all add: d0_def d1_def)

lemma ann_sem: "int (ann m n) = numeral n AND NOT (numeral m)"
  by (induction m n rule: ann.induct)
    (simp_all del: not_numeral_eq not_one_eq add: and_not_numerals d0_def d1_def)

lemma word_of_nat_take_bit:
  "(of_nat (take_bit LENGTH('a) n) :: 'a::len word) = of_nat n"
  by (simp add: word_of_nat_eq_iff)

lemma unat_of_nat_take_bit:
  "unat (of_nat n :: 'a::len word) = take_bit LENGTH('a) n"
  by (simp add: unsigned_of_nat)

lemma of_nat_tk_len:
  "n = LENGTH('a) \<Longrightarrow> (of_nat (tk n k) :: 'a::len word) = numeral k"
  using word_of_nat_take_bit [of "numeral k", where ?'a = 'a]
  by (simp only: tk_sem of_nat_numeral)

lemma unat_numeral_tk:
  "n = LENGTH('a) \<Longrightarrow> unat (numeral k :: 'a::len word) = tk n k"
  using unat_of_nat_take_bit [of "numeral k", where ?'a = 'a]
  by (simp only: tk_sem of_nat_numeral)

lemma add_eval: "(numeral a :: u64) + numeral b = of_nat (tk C64 (a + b))"
proof -
  have "C64 = LENGTH(64)" by simp
  then show ?thesis by (simp only: of_nat_tk_len numeral_plus_numeral)
qed

lemma mul_eval: "(numeral a :: u64) * numeral b = of_nat (tk C64 (a * b))"
proof -
  have "C64 = LENGTH(64)" by simp
  then show ?thesis by (simp only: of_nat_tk_len numeral_times_numeral)
qed

lemma sub_eval: "(numeral a :: u64) - numeral b = word_of_int (Num.sub a b)"
proof -
  have "(word_of_int (Num.sub a b) :: u64) = word_of_int (numeral a - numeral b)"
    by (simp only: diff_numeral_simps)
  also have "\<dots> = word_of_int (numeral a) - word_of_int (numeral b)"
    by (rule of_int_diff)
  finally show ?thesis by (simp only: of_int_numeral)
qed

lemma xor_eval: "(numeral a :: 'a::len word) XOR numeral b = of_nat (xn a b)"
proof -
  have "(of_nat (xn a b) :: 'a word) = of_nat (numeral a) XOR of_nat (numeral b)"
    by (simp only: xn_sem of_nat_xor_eq)
  then show ?thesis by (simp only: of_nat_numeral)
qed

lemma and_eval: "(numeral a :: 'a::len word) AND numeral b = of_nat (an a b)"
proof -
  have "(of_nat (an a b) :: 'a word) = of_nat (numeral a) AND of_nat (numeral b)"
    by (simp only: an_sem of_nat_and_eq)
  then show ?thesis by (simp only: of_nat_numeral)
qed

lemma or_eval: "(numeral a :: 'a::len word) OR numeral b = of_nat (on a b)"
proof -
  have "(of_nat (on a b) :: 'a word) = of_nat (numeral a) OR of_nat (numeral b)"
    by (simp only: on_sem of_nat_or_eq)
  then show ?thesis by (simp only: of_nat_numeral)
qed

lemma andnot_eval:
  "NOT (numeral a :: 'a::len word) AND numeral b = of_nat (ann a b)"
  "NOT (0 :: 'a::len word) AND x = x"
  "NOT y AND (0 :: 'a::len word) = 0"
proof -
  have "(of_nat (ann a b) :: 'a word) = of_int (int (ann a b))"
    by (simp only: of_int_of_nat_eq)
  also have "\<dots> = of_int (numeral b AND NOT (numeral a))" by (simp only: ann_sem)
  also have "\<dots> = numeral b AND NOT (numeral a)"
    by (simp only: of_int_and_eq of_int_not_eq of_int_numeral)
  finally show "NOT (numeral a :: 'a::len word) AND numeral b = of_nat (ann a b)"
    by (simp only: and.commute)
  show "NOT (0 :: 'a::len word) AND x = x" by simp
  show "NOT y AND (0 :: 'a::len word) = 0" by simp
qed

lemma unat_eval:
  "unat (numeral a :: u64) = tk C64 a" "unat (0 :: u64) = 0"
  "unat (numeral a :: u8) = tk C8 a" "unat (0 :: u8) = 0"
proof -
  have "C64 = LENGTH(64)" by simp
  then show "unat (numeral a :: u64) = tk C64 a" by (rule unat_numeral_tk)
  have "C8 = LENGTH(8)" by simp
  then show "unat (numeral a :: u8) = tk C8 a" by (rule unat_numeral_tk)
qed simp_all

lemma ucast_of_nat_up:
  "LENGTH('a) \<le> LENGTH('b) \<Longrightarrow>
     (ucast (of_nat n :: 'a::len word) :: 'b::len word) = of_nat (take_bit LENGTH('a) n)"
  by (simp add: word_eq_iff_unsigned [where ?'a = nat] unsigned_ucast_eq unsigned_of_nat
      take_bit_take_bit min_def)

lemma ucast_of_nat_down:
  "LENGTH('b) \<le> LENGTH('a) \<Longrightarrow>
     (ucast (of_nat n :: 'a::len word) :: 'b::len word) = of_nat n"
  by (simp add: word_eq_iff_unsigned [where ?'a = nat] unsigned_ucast_eq unsigned_of_nat
      take_bit_take_bit min_def)

lemma ucast_eval:
  "(ucast (numeral a :: u64) :: u8) = numeral a" "(ucast (0 :: u64) :: u8) = 0"
  "(ucast (numeral a :: u8) :: u64) = of_nat (tk C8 a)" "(ucast (0 :: u8) :: u64) = 0"
  "(ucast (numeral a :: u8) :: u32) = of_nat (tk C8 a)" "(ucast (0 :: u8) :: u32) = 0"
  "(ucast (numeral a :: u32) :: u64) = of_nat (tk C32 a)" "(ucast (0 :: u32) :: u64) = 0"
proof -
  have l8: "C8 = LENGTH(8)" and l32: "C32 = LENGTH(32)" by simp_all
  have "LENGTH(8) \<le> LENGTH(64)" by simp
  from ucast_of_nat_down [OF this, of "numeral a"]
  show "(ucast (numeral a :: u64) :: u8) = numeral a" by (simp only: of_nat_numeral)
  have "LENGTH(8) \<le> LENGTH(64)" by simp
  from ucast_of_nat_up [OF this, of "numeral a"]
  show "(ucast (numeral a :: u8) :: u64) = of_nat (tk C8 a)"
    by (simp only: of_nat_numeral tk_sem l8)
  have "LENGTH(8) \<le> LENGTH(32)" by simp
  from ucast_of_nat_up [OF this, of "numeral a"]
  show "(ucast (numeral a :: u8) :: u32) = of_nat (tk C8 a)"
    by (simp only: of_nat_numeral tk_sem l8)
  have "LENGTH(32) \<le> LENGTH(64)" by simp
  from ucast_of_nat_up [OF this, of "numeral a"]
  show "(ucast (numeral a :: u32) :: u64) = of_nat (tk C32 a)"
    by (simp only: of_nat_numeral tk_sem l32)
qed simp_all

lemma push_Suc: "push_bit (Suc n) (numeral k :: 'a::len word) = push_bit n (numeral (num.Bit0 k))"
proof -
  have "numeral (num.Bit0 k) = (numeral k :: 'a word) + numeral k"
    by (rule numeral_Bit0)
  also have "\<dots> = numeral k * 2"
    by (rule mult_2_right [symmetric])
  finally have "numeral (num.Bit0 k) = (numeral k :: 'a word) * 2" .
  then show ?thesis by (simp only: push_bit_Suc)
qed

lemma du_sem: "du n = 2 * n"
  by (induction n) simp_all

lemma un_sem: "un k = numeral k"
  by (induction k) (simp_all add: du_sem numeral_Bit0 numeral_Bit1 mult_2)

lemma shl_sem: "numeral (shl n k) = push_bit n (numeral k :: 'a::len word)"
  by (induction n arbitrary: k) (simp_all only: shl.simps push_Suc push_bit_0_id id_apply)

lemma push_eval:
  "push_bit n (0 :: 'a::len word) = 0"
  "push_bit (numeral r) (numeral k :: 'a::len word) = numeral (shl (un r) k)"
proof -
  show "push_bit n (0 :: 'a::len word) = 0" by simp
  show "push_bit (numeral r) (numeral k :: 'a::len word) = numeral (shl (un r) k)"
    by (simp only: shl_sem un_sem)
qed

lemma split64_eval: "split64 k = (of_nat (tk C64 k), of_nat (dr C64 k))"
  by (simp only: c64 split64_def)


lemma wmul_nat:
  "wmul (of_nat x) (of_nat y) =
     (of_nat (take_bit 64 x * take_bit 64 y),
      of_nat (drop_bit 64 (take_bit 64 x * take_bit 64 y)))"
proof -
  let ?p = "take_bit 64 x * take_bit 64 y"
  have x: "take_bit 64 x < (2::nat) ^ 64" and y: "take_bit 64 y < (2::nat) ^ 64"
    by (rule take_bit_nat_less_exp)+
  have "?p < 2 ^ 64 * 2 ^ 64"
    using x y by (intro mult_strict_mono) simp_all
  also have "(2::nat) ^ 64 * 2 ^ 64 = 2 ^ 128" by (simp only: power_add [symmetric], simp)
  finally have p: "?p < 2 ^ 128" .
  have u: "(ucast (of_nat x :: u64) :: u128) = of_nat (take_bit 64 x)"
    "(ucast (of_nat y :: u64) :: u128) = of_nat (take_bit 64 y)"
    using ucast_of_nat_up [where ?'a = 64 and ?'b = 128] by simp_all
  have v: "(ucast (of_nat x :: u64) :: u128) * ucast (of_nat y :: u64) = of_nat ?p"
    by (simp only: u of_nat_mult)
  have un: "unat (of_nat ?p :: u128) = ?p"
  proof -
    have "take_bit 128 ?p = ?p" using p by (rule take_bit_nat_eq_self)
    then show ?thesis using unat_of_nat_take_bit [of ?p, where ?'a = 128] by simp
  qed
  have lo: "(ucast (of_nat ?p :: u128) :: u64) = of_nat ?p"
    by (rule ucast_of_nat_down) simp
  have "unat (drop_bit 64 (of_nat ?p :: u128)) = drop_bit 64 ?p"
    by (simp only: unat_drop_bit_eq un)
  then have "(ucast (drop_bit 64 (of_nat ?p :: u128)) :: u64) = of_nat (drop_bit 64 ?p)"
    by (simp add: word_eq_iff_unsigned [where ?'a = nat] unsigned_ucast_eq unsigned_of_nat
        take_bit_take_bit min_def)
  with lo show ?thesis by (simp only: wmul_def Let_def v)
qed

lemma wmul_eval:
  "fits C64 a \<Longrightarrow> fits C64 b \<Longrightarrow> wmul (numeral a) (numeral b) = split64
      (a * b)"
  "wmul 0 y = (0, 0)" "wmul x 0 = (0, 0)"
proof -
  assume "fits C64 a" "fits C64 b"
  then have a: "numeral a < (2::nat) ^ 64" and b: "numeral b < (2::nat) ^ 64"
    by (simp_all only: c64 fits_sem)
  have ta: "take_bit 64 (numeral a :: nat) = numeral a"
    using a by (rule take_bit_nat_eq_self)
  have tb: "take_bit 64 (numeral b :: nat) = numeral b"
    using b by (rule take_bit_nat_eq_self)
  from wmul_nat [of "numeral a" "numeral b"]
  show "wmul (numeral a) (numeral b) = split64 (a * b)"
    by (simp only: ta tb of_nat_numeral split64_def tk_sem dr_sem numeral_times_numeral
        word_of_nat_take_bit [where ?'a = 64, simplified])
next
  show "wmul 0 y = (0, 0)" by (simp add: wmul_def)
  show "wmul x 0 = (0, 0)" by (simp add: wmul_def)
qed

lemma c6: "C6 = 6" by simp

lemma tkn_eval: "tkn n 0 = 0" "tkn n (numeral k) = tk n k"
  by (simp_all only: tkn_def tk_sem take_bit_eq_mod mod_0)

lemma drn_eval: "drn n 0 = 0" "drn n (numeral k) = dr n k"
  by (simp_all only: drn_def dr_sem drop_bit_eq_div div_0)

lemma pushn_sem: "pushn n x = push_bit n x"
  by (induction n arbitrary: x) (simp_all add: d0_def push_bit_Suc mult.commute)

lemma small_amount_nat:
  fixes m :: nat
  assumes m: "m < 64" "0 < m"
  shows "unat (of_nat m :: u8) = m" "(of_nat m :: u8) \<le> 63"
    "unat (- (of_nat m :: u8) AND 63) = 64 - m"
proof -
  from m have "take_bit 8 m = m" by (intro take_bit_nat_eq_self) simp
  with unat_of_nat_take_bit [of m, where ?'a = 8]
  show u: "unat (of_nat m :: u8) = m" by simp
  have "unat (of_nat m :: u8) \<le> unat (63 :: u8)" using m u by simp
  then show le: "(of_nat m :: u8) \<le> 63" by (simp only: word_le_nat_alt)
  from m have "(64 - m) mod 64 = 64 - m" by simp
  with neg_and_63 [OF le] u show "unat (- (of_nat m :: u8) AND 63) = 64 - m"
    by (simp only:)
qed

lemma small_amount:
  assumes "fits C6 n"
  shows "unat (numeral n :: u8) = numeral n"
    "unat (- (numeral n :: u8) AND 63) = 64 - numeral n"
proof -
  have "numeral n < (2 :: nat) ^ 6" using assms by (simp only: c6 fits_sem)
  also have "(2 :: nat) ^ 6 = 64" by simp
  finally have n: "numeral n < (64 :: nat)" .
  have p: "(0 :: nat) < numeral n" by (rule zero_less_numeral)
  from small_amount_nat(1) [OF n p]
  show "unat (numeral n :: u8) = numeral n" by (simp only: of_nat_numeral)
  from small_amount_nat(3) [OF n p]
  show "unat (- (numeral n :: u8) AND 63) = 64 - numeral n" by (simp only: of_nat_numeral)
qed

lemma word_push_nat: "push_bit r (x :: u64) = of_nat (tkn 64 (pushn r (unat x)))"
proof -
  have "(of_nat (tkn 64 (pushn r (unat x))) :: u64) = of_nat (push_bit r (unat x))"
    using word_of_nat_take_bit [of "push_bit r (unat x)", where ?'a = 64]
    by (simp add: tkn_def pushn_sem take_bit_eq_mod)
  also have "\<dots> = push_bit r (of_nat (unat x))" by (rule of_nat_push_bit)
  finally show ?thesis by simp
qed

lemma word_drop_nat: "drop_bit r (x :: u64) = of_nat (drn r (unat x))"
proof -
  have "unat (drop_bit r x) = drop_bit r (unat x)" by (rule unat_drop_bit_eq)
  then have "of_nat (unat (drop_bit r x)) = (of_nat (drop_bit r (unat x)) :: u64)"
    by (simp only:)
  then show ?thesis by (simp add: drn_def drop_bit_eq_div)
qed

lemma rotl_eval:
  "rotl x 0 = x"
  "fits C6 n \<Longrightarrow> rotl x (numeral n) =
     of_nat (tkn C64 (pushn (un n) (unat x))) OR of_nat (drn (C64 - un n) (unat x))"
proof -
  show "rotl x 0 = x" by (simp add: rotl_def)
  assume "fits C6 n"
  note s = small_amount [OF this]
  show "rotl x (numeral n) =
     of_nat (tkn C64 (pushn (un n) (unat x))) OR of_nat (drn (C64 - un n) (unat x))"
    by (simp only: rotl_def s c64 un_sem word_push_nat [symmetric] word_drop_nat [symmetric])
qed

lemma rotr_eval:
  "rotr x 0 = x"
  "fits C6 n \<Longrightarrow> rotr x (numeral n) =
     of_nat (drn (un n) (unat x)) OR of_nat (tkn C64 (pushn (C64 - un n) (unat x)))"
proof -
  show "rotr x 0 = x" by (simp add: rotr_def)
  assume "fits C6 n"
  note s = small_amount [OF this]
  show "rotr x (numeral n) =
     of_nat (drn (un n) (unat x)) OR of_nat (tkn C64 (pushn (C64 - un n) (unat x)))"
    by (simp only: rotr_def s c64 un_sem word_push_nat [symmetric] word_drop_nat [symmetric])
qed

lemma drop_eval: "drop_bit r (x :: u64) = of_nat (drn r (unat x))"
  by (rule word_drop_nat)

lemma drn_amount:
  "drn (numeral r) x = drn (un r) x" "drn 1 x = drn (Suc 0) x"
  "dr (numeral r) k = dr (un r) k" "dr 1 k = dr (Suc 0) k"
  by (simp_all only: un_sem One_nat_def)

lemma key_upto_eval: "key_upto k n = (if unat n < k then ucast n else 0)"
  by (simp only: key_upto_def)

lemma word_of_nat_0: "(of_nat 0 :: 'a::len word) = 0"
  by simp

lemma one_u64: "(1::u64) = numeral num.One" by simp

lemma one_u8: "(1::u8) = numeral num.One" by simp

lemma mul_sa:
  "m * num.One = m" "m * num.Bit0 n = num.Bit0 (m * n)" "m * num.Bit1 n = m + num.Bit0 (m * n)"
  by (simp_all add: num_eq_iff nat_of_num_mult nat_of_num_add nat_of_num.simps distrib_left)

section \<open>Evaluation equations of the hash\<close>

lemma chixx_run:
  "chixx t u v = (t XOR (NOT u AND v), u XOR (NOT v AND t), v XOR (NOT t AND u))"
  by (simp add: chixx_def)

lemma frac_6_run:
  "frac_6 False state_p state_q input_p input_q = (let sp = state_p XOR input_p; sq = state_q XOR
      input_q; m = wmul sp sq in (sp XOR fst m, sq XOR snd m))"
  "frac_6 True state_p state_q input_p input_q = wmul (state_p XOR input_p) (state_q XOR input_q)"
  by (simp_all add: frac_6_def Let_def split_def)

lemma frac_3_run:
  "frac_3 False state_p state_q input = (let sq = state_q XOR input; m = wmul state_p sq in
      (state_p XOR fst m, sq XOR snd m))"
  "frac_3 True state_p state_q input = wmul state_p (state_q XOR input)"
  by (simp_all add: frac_3_def Let_def split_def)

lemma ring_pair_run:
  "ring_pair False state_p state_q input_p input_q carry = (let sp = state_p XOR input_p; sq =
      state_q XOR input_q; m = wmul sp sq in (sp + (carry XOR snd m), sq, fst m))"
  "ring_pair True state_p state_q input_p input_q carry = (let sp = state_p XOR input_p; sq =
      state_q XOR input_q; m = wmul sp sq in (carry XOR snd m, sq, fst m))"
  by (simp_all add: ring_pair_def Let_def split_def)

lemma layer_12_run:
  "layer_12 BFast (s0, s1, s2, s3, s4, s5) bytes p ring_prev =
     (let r0 = ring_pair BFast s0 s1 (read_u64 bytes p) (read_u64 bytes (p + 8)) ring_prev;
          r1 = ring_pair BFast (fst (snd r0)) s2 (read_u64 bytes (p + 16)) (read_u64 bytes (p +
              24)) (snd (snd r0));
          r2 = ring_pair BFast (fst (snd r1)) s3 (read_u64 bytes (p + 32)) (read_u64 bytes (p +
              40)) (snd (snd r1));
          r3 = ring_pair BFast (fst (snd r2)) s4 (read_u64 bytes (p + 48)) (read_u64 bytes (p +
              56)) (snd (snd r2));
          r4 = ring_pair BFast (fst (snd r3)) s5 (read_u64 bytes (p + 64)) (read_u64 bytes (p +
              72)) (snd (snd r3));
          r5 = ring_pair BFast (fst (snd r4)) (fst r0) (read_u64 bytes (p + 80)) (read_u64 bytes (p
              + 88)) (snd (snd r4))
      in ((fst (snd r5), fst r1, fst r2, fst r3, fst r4, fst r5), snd (snd r5)))"
  by (cases BFast) (simp_all add: layer_12_def ring_pair_def Let_def split_def)

lemma layer_6_run:
  "layer_6 BFast (s0, s1, s2, s3, s4, s5) bytes p =
     (let r0 = frac_6 BFast s0 s1 (read_u64 bytes p) (read_u64 bytes (p + 8));
          r1 = frac_6 BFast s2 s3 (read_u64 bytes (p + 16)) (read_u64 bytes (p + 24));
          r2 = frac_6 BFast s4 s5 (read_u64 bytes (p + 32)) (read_u64 bytes (p + 40))
      in (fst r0, snd r0, fst r1, snd r1, fst r2, snd r2))"
  by (simp add: layer_6_def Let_def split_def)

lemma layer_3_run:
  "layer_3 BFast (s0, s1, s2, s3, s4, s5) bytes p =
     (let r0 = frac_3 BFast s0 s3 (read_u64 bytes p);
          r1 = frac_3 BFast s1 s4 (read_u64 bytes (p + 8));
          r2 = frac_3 BFast s2 s5 (read_u64 bytes (p + 16))
      in (fst r0, fst r1, fst r2, snd r0, snd r1, snd r2))"
  by (simp add: layer_3_def Let_def split_def)

lemma layer_12_loop_run:
  "layer_12_loop BFast bytes state p q ring_prev =
     (if 96 \<le> q then
        (let r = layer_12 BFast state bytes p ring_prev
         in layer_12_loop BFast bytes (fst r) (p + 96) (q - 96) (snd r))
      else (state, p, q, ring_prev))"
  by (simp add: layer_12_loop.simps [of BFast bytes state p q ring_prev] Let_def split_def)

lemma ring_close_run:
  "ring_close ((s0, s1, s2, s3, s4, s5), p, q, ring_prev) = ((s0 XOR ring_prev, s1, s2, s3, s4,
      s5), p, q)"
  by simp

lemma tower_loong_ring_run:
  "tower_loong_ring BFast bytes len seed =
     (if 96 \<le> len then
        ring_close (layer_12_loop BFast bytes
          (MUSEAIR_SECRET_0 + seed, MUSEAIR_SECRET_1 - seed, MUSEAIR_SECRET_2 XOR seed,
              MUSEAIR_SECRET_3 + seed, MUSEAIR_SECRET_4 - seed, MUSEAIR_SECRET_5 XOR seed) 0 len
              MUSEAIR_RING_PREV)
      else ((MUSEAIR_SECRET_0 + seed, MUSEAIR_SECRET_1 - seed, MUSEAIR_SECRET_2 XOR seed,
          MUSEAIR_SECRET_3, MUSEAIR_SECRET_4, MUSEAIR_SECRET_5), 0, len))"
proof -
  have c: "ring_close r = ((fst (fst r) XOR snd (snd (snd r)), snd (fst r)), fst (snd r), fst (snd
      (snd r)))" for r
    by (induction r rule: ring_close.induct) simp
  show ?thesis by (simp add: tower_loong_ring_def c Let_def split_def)
qed

lemma block_6_run:
  "block_6 BFast bytes (state, p, q) = (if 48 \<le> q then (layer_6 BFast state bytes p, p + 48, q
      - 48) else (state, p, q))"
  by simp

lemma block_3_run:
  "block_3 BFast bytes (state, p, q) = (if 24 \<le> q then (layer_3 BFast state bytes p, p + 24, q
      - 24) else (state, p, q))"
  by simp

lemma tower_loong_blocks_run:
  "tower_loong_blocks BFast bytes len seed = block_3 BFast bytes (block_6 BFast bytes
      (tower_loong_ring BFast bytes len seed))"
  by (cases "tower_loong_ring BFast bytes len seed")
    (simp add: tower_loong_blocks_def Let_def split_def)

lemma tail_read_run:
  "tail_read bytes p q =
     (if q \<le> 16 then (let r = read_short bytes p q in (fst r, snd r, 0))
      else (read_u64 bytes p, read_u64 bytes (p + 8), read_u64 bytes (p + q - 8)))"
  by (simp add: tail_read_def Let_def split_def)

lemma tail_fold_run:
  "tail_fold True (s0, s1, s2, s3, s4, s5) (i, j, k) =
     (let a = chixx s0 s2 s4; b = chixx s1 s3 s5
      in (i XOR (fst a + fst b), j XOR (fst (snd a) + fst (snd b)), k XOR (snd (snd a) + snd (snd
          b))))"
  "tail_fold False (s0, s1, s2, s3, s4, s5) (i, j, k) = (i XOR s0, j XOR s1, k XOR s2)"
  by (simp_all add: Let_def split_def)

lemma layer_0_run:
  "layer_0 state bytes p q len = tail_fold (24 \<le> len) state (tail_read bytes p q)"
  by (cases state) (simp add: layer_0_def tail_read_def Let_def split_def)

lemma fold_call_run:
  "fold_call bytes len (state, p, q) = layer_0 state bytes p q len"
  by simp

lemma tower_loong_fold_run:
  "tower_loong_fold BFast bytes len seed = fold_call bytes len (tower_loong_blocks BFast bytes len
      seed)"
  by (cases "tower_loong_blocks BFast bytes len seed") (simp add: tower_loong_fold_def)

lemma twist_mul_run:
  "twist_mul False (i, j, k) =
     (let m0 = wmul (i XOR MUSEAIR_SECRET_3) j; m1 = wmul (j XOR MUSEAIR_SECRET_4) k; m2 = wmul (k
         XOR MUSEAIR_SECRET_5) i
      in (i XOR (fst m0 XOR snd m2), j XOR (fst m1 XOR snd m0), k XOR (fst m2 XOR snd m1)))"
  "twist_mul True (i, j, k) =
     (let m0 = wmul i j; m1 = wmul j k; m2 = wmul k i
      in (fst m0 XOR snd m2, fst m1 XOR snd m0, fst m2 XOR snd m1))"
  by (simp_all add: Let_def split_def)

lemma twist_rot_run:
  "twist_rot len rot (i, j, k) = (rotl i rot, rotr j rot, k XOR len)"
  by simp

lemma layer_f_run:
  "layer_f BFast len i j k = twist_mul BFast (twist_rot len ((ucast len :: u8) AND 63) (chixx i j
      k))"
  by (cases "chixx i j k") (simp add: layer_f_def Let_def split_def)

lemma twist_call_run:
  "twist_call BFast len (i, j, k) = layer_f BFast len i j k"
  by simp

lemma tower_loong_run:
  "tower_loong BFast bytes len seed = twist_call BFast len (tower_loong_fold BFast bytes len seed)"
  by (cases "tower_loong_fold BFast bytes len seed") (simp add: tower_loong_def)

lemma tower_short_run:
  "tower_short bytes len seed =
     (let r = read_short bytes 0 len; m = wmul (seed XOR MUSEAIR_SECRET_0) (len XOR
         MUSEAIR_SECRET_1)
      in (fst r XOR (fst m XOR len), snd r XOR (snd m XOR seed)))"
  by (simp add: tower_short_def Let_def split_def)

lemma epi_short_run:
  "epi_short i j =
     (let i = i XOR MUSEAIR_SECRET_2; j = j XOR MUSEAIR_SECRET_3; m = wmul i j;
          i = i XOR (fst m XOR MUSEAIR_SECRET_4); j = j XOR (snd m XOR MUSEAIR_SECRET_5); m = wmul
              i j
      in (i XOR (j XOR fst m XOR snd m), j))"
  by (simp add: epi_short_def Let_def split_def)

lemma epi_short_128_run:
  "epi_short_128 False i j =
     (let m0 = wmul (i XOR MUSEAIR_SECRET_2) j; m1 = wmul i (j XOR MUSEAIR_SECRET_3);
          i = i XOR (fst m0 XOR snd m1); j = j XOR (fst m1 XOR snd m0);
          m0 = wmul (i XOR MUSEAIR_SECRET_4) j; m1 = wmul i (j XOR MUSEAIR_SECRET_5)
      in (i XOR (fst m0 XOR snd m1), j XOR (fst m1 XOR snd m0)))"
  "epi_short_128 True i j =
     (let m0 = wmul i j; m1 = wmul (i XOR MUSEAIR_SECRET_2) (j XOR MUSEAIR_SECRET_3);
          i = fst m0 XOR snd m1; j = fst m1 XOR snd m0;
          m0 = wmul i j; m1 = wmul (i XOR MUSEAIR_SECRET_4) (j XOR MUSEAIR_SECRET_5)
      in (fst m0 XOR snd m1, fst m1 XOR snd m0))"
  by (simp_all add: epi_short_128_def Let_def split_def)

lemma epi_loong_run:
  "epi_loong False i j k =
     (let m0 = wmul (i XOR MUSEAIR_SECRET_0) j; m1 = wmul (j XOR MUSEAIR_SECRET_1) k; m2 = wmul (k
         XOR MUSEAIR_SECRET_2) i;
          i = i XOR (fst m0 XOR snd m2); j = j XOR (fst m1 XOR snd m0); k = k XOR (fst m2 XOR snd
              m1)
      in (i + (j + k), j, k))"
  "epi_loong True i j k =
     (let m0 = wmul i j; m1 = wmul j k; m2 = wmul k i;
          i = fst m0 XOR snd m2; j = fst m1 XOR snd m0; k = fst m2 XOR snd m1
      in (i + (j + k), j, k))"
  by (simp_all add: epi_loong_def Let_def split_def)

lemma epi_loong_128_run:
  "epi_loong_128 False i j k =
     (let m0 = wmul (i XOR MUSEAIR_SECRET_0) j; m1 = wmul (j XOR MUSEAIR_SECRET_1) k; m2 = wmul (k
         XOR MUSEAIR_SECRET_2) i
      in (i XOR (fst m0 XOR fst m1 XOR snd m2), j XOR (snd m0 XOR snd m1 XOR fst m2), k))"
  "epi_loong_128 True i j k =
     (let m0 = wmul i j; m1 = wmul j k; m2 = wmul k i
      in (fst m0 XOR fst m1 XOR snd m2, snd m0 XOR snd m1 XOR fst m2, k))"
  by (simp_all add: epi_loong_128_def Let_def split_def)

lemma epi_call_run:
  "epi_short_call (i, j) = epi_short i j"
  "epi_short_128_call BFast (i, j) = epi_short_128 BFast i j"
  "epi_loong_call BFast (i, j, k) = epi_loong BFast i j k"
  "epi_loong_128_call BFast (i, j, k) = epi_loong_128 BFast i j k"
  by simp_all

lemma hash_run:
  "hash_short bytes len seed = epi_short_call (tower_short bytes len seed)"
  "hash_short_128 BFast bytes len seed = epi_short_128_call BFast (tower_short bytes len seed)"
  "hash_loong BFast bytes len seed = epi_loong_call BFast (tower_loong BFast bytes len seed)"
  "hash_loong_128 BFast bytes len seed = epi_loong_128_call BFast (tower_loong BFast bytes len
      seed)"
proof -
  show "hash_short bytes len seed = epi_short_call (tower_short bytes len seed)"
    by (cases "tower_short bytes len seed") (simp add: hash_short_def)
  show "hash_short_128 BFast bytes len seed = epi_short_128_call BFast (tower_short bytes len seed)"
    by (cases "tower_short bytes len seed") (simp add: hash_short_128_def)
  show "hash_loong BFast bytes len seed = epi_loong_call BFast (tower_loong BFast bytes len seed)"
    by (cases "tower_loong BFast bytes len seed") (simp add: hash_loong_def)
  show "hash_loong_128 BFast bytes len seed = epi_loong_128_call BFast (tower_loong BFast bytes len
      seed)"
    by (cases "tower_loong BFast bytes len seed") (simp add: hash_loong_128_def)
qed

lemma museair_hash_impl_run:
  "museair_hash_impl BFast bytes len seed = (if len \<le> 16 then fst (hash_short bytes len seed)
      else fst (hash_loong BFast bytes len seed))"
  "museair_hash_128_impl BFast bytes len seed =
     (if len \<le> 16 then hash_short_128 BFast bytes len seed
      else (let r = hash_loong_128 BFast bytes len seed in (fst r, fst (snd r))))"
  by (simp_all add: museair_hash_impl_def museair_hash_128_impl_def Let_def split_def)

lemma read_short_run:
  "read_short bytes p len =
     (if 4 \<le> len then
        (let off = drop_bit (unat (drop_bit 3 len)) (len AND 24) in
         (push_bit 32 (read_u32 bytes p) OR read_u32 bytes (p + len - 4),
          push_bit 32 (read_u32 bytes (p + off)) OR read_u32 bytes (p + len - 4 - off)))
      else if 0 < len then
        (push_bit 48 (ucast (bytes p)) OR push_bit 24 (ucast (bytes (p + drop_bit 1 len)))
           OR ucast (bytes (p + (len - 1))), 0)
      else (0, 0))"
  by (simp add: read_short_def Let_def)


lemmas secret_run = MUSEAIR_SECRET_0_def MUSEAIR_SECRET_1_def MUSEAIR_SECRET_2_def
  MUSEAIR_SECRET_3_def MUSEAIR_SECRET_4_def MUSEAIR_SECRET_5_def MUSEAIR_RING_PREV_def

lemmas lib_run =
  Let_def if_True if_False fst_conv snd_conv
  of_nat_numeral word_of_nat_0 of_int_numeral of_int_0 of_int_1
  add_0_left add_0_right diff_zero mult_zero_left mult_zero_right
  bit.xor_self xor.left_neutral xor.right_neutral or.left_neutral or.right_neutral
  and_zero_eq zero_and_eq
  numeral_plus_numeral [where ?'a = nat] numeral_times_numeral [where ?'a = nat]
  add_num_simps
  Num.sub_num_simps Num.dbl_simps Num.dbl_inc_simps Num.dbl_dec_simps BitM.simps
  word_le_nat_alt [where ?'a = 64] word_less_nat_alt [where ?'a = 64]
  numeral_le_iff [where ?'a = nat] numeral_less_iff [where ?'a = nat] le_num_simps less_num_simps
  le0 zero_less_numeral [where ?'a = nat] not_numeral_le_zero [where ?'a = nat] not_less_zero
  less_irrefl [where ?'a = nat]
  diff_Suc_Suc diff_0_eq_0 minus_nat.diff_0

lemmas prim_run = d_eval mul_sa one_u64 one_u8 wmul_eval split64_eval fits.simps add_eval sub_eval
  xor_eval and_eval or_eval andnot_eval unat_eval ucast_eval push_eval tkn_eval drn_eval
  drn_amount rotl_eval rotr_eval drop_eval key_upto_eval
  shl.simps tk.simps dr.simps xn.simps an.simps on.simps ann.simps pushn.simps du.simps un.simps
  read_u64_def read_u32_def

lemmas model_run = chixx_run frac_6_run frac_3_run ring_pair_run layer_12_run layer_6_run
  layer_3_run layer_12_loop_run ring_close_run tower_loong_ring_run block_6_run block_3_run
  tower_loong_blocks_run tail_read_run tail_fold_run layer_0_run fold_call_run
  tower_loong_fold_run twist_mul_run twist_rot_run layer_f_run twist_call_run tower_loong_run
  tower_short_run epi_short_run epi_short_128_run epi_loong_run epi_loong_128_run epi_call_run
  hash_run museair_hash_impl_run read_short_run

lemmas run = lib_run secret_run prim_run model_run

section \<open>The loop of the self-test\<close>

lemma key_upto_Suc:
  assumes "n < 256"
  shows "(key_upto n)(of_nat n := of_nat n) = key_upto (Suc n)"
proof (rule ext)
  fix a :: size_t
  from assms have n: "unat (of_nat n :: size_t) = n"
    by (simp add: unat_of_nat_take_bit take_bit_nat_eq_self)
  show "((key_upto n)(of_nat n := of_nat n)) a = key_upto (Suc n) a"
  proof (cases "a = of_nat n")
    case True
    then show ?thesis using n by (simp add: key_upto_def ucast_of_nat_down)
  next
    case False
    have "unat a \<noteq> n"
    proof
      assume "unat a = n"
      then have "of_nat (unat a) = (of_nat n :: size_t)" by (simp only:)
      then have "a = of_nat n" by simp
      with False show False by simp
    qed
    then show ?thesis using False by (simp add: key_upto_def less_Suc_eq)
  qed
qed

lemma key_upto_0: "key_upto 0 = (\<lambda>_. 0)"
  by (simp add: key_upto_def)

lemma store_at:
  fixes a at :: size_t
  assumes "unat at + length bs \<le> 2 ^ 64"
  shows "store mem at bs a =
    (if unat at \<le> unat a \<and> unat a < unat at + length bs then bs ! (unat a - unat at)
     else mem a)"
proof (cases "unat at \<le> unat a")
  case True
  then have "unat (a - at) = unat a - unat at" by (simp add: unat_sub word_le_nat_alt)
  with True show ?thesis by (auto simp add: store_def)
next
  case False
  then have lt: "unat a < unat at" by simp
  have "unat (a - at) = 2 ^ 64 + unat a - unat at"
    using lt by (simp add: unat_sub_if' word_less_nat_alt)
  moreover have "unat at < 2 ^ 64" using unsigned_less [of at] by simp
  ultimately have "\<not> unat (a - at) < length bs" using assms lt by simp
  with False show ?thesis by (simp add: store_def)
qed

lemma verify_fold:
  fixes hb :: u32
  assumes len: "\<And>k l s. length (H k l s) = unat hb"
    and hb: "0 < unat hb" "unat hb \<le> 16"
    and n: "n \<le> 256"
  shows "fold (verify_pass hb H) [0..<n] (\<lambda>_. 0, \<lambda>_. 0) =
    (key_upto n,
     \<lambda>a. if unat a < n * unat hb
          then H (key_upto (unat a div unat hb)) (of_nat (unat a div unat hb))
                 (HASH_INIT (256 - of_nat (unat a div unat hb))) ! (unat a mod unat hb)
          else 0)"
  using n
proof (induction n)
  case 0
  show ?case by (simp add: key_upto_0)
next
  case (Suc n)
  from Suc.prems have n: "n < 256" by simp
  let ?b = "unat hb"
  have at: "unat (ucast (of_nat n * hb) :: size_t) = n * ?b"
  proof -
    have "n * ?b \<le> 256 * 16" by (intro mult_mono) (use n hb in simp_all)
    then have lt: "n * ?b < 2 ^ 32" by simp
    then have "unat (of_nat n * hb) = n * ?b"
      using n by (simp add: unat_word_ariths unat_of_nat_take_bit take_bit_nat_eq_self
          take_bit_eq_mod [symmetric])
    moreover have "take_bit 64 (n * ?b) = n * ?b"
      using lt by (intro take_bit_nat_eq_self) simp
    ultimately show ?thesis by (simp add: unsigned_ucast_eq)
  qed
  have fit: "n * ?b + ?b \<le> 2 ^ 64"
  proof -
    have "n * ?b \<le> 256 * 16" by (intro mult_mono) (use n hb in simp_all)
    with hb have "n * ?b + ?b \<le> 256 * 16 + 16" by simp
    then show ?thesis by simp
  qed
  have st: "store mem (ucast (of_nat n * hb)) (H k l s) a =
      (if n * ?b \<le> unat a \<and> unat a < n * ?b + ?b then H k l s ! (unat a - n * ?b) else mem
          a)"
    for mem k l s and a :: size_t
    using store_at [of "ucast (of_nat n * hb)" "H k l s" mem a] fit by (simp only: at len)
  have step: "fold (verify_pass hb H) [0..<Suc n] z = verify_pass hb H n (fold (verify_pass hb H)
      [0..<n] z)" for z
    by simp
  show ?case
    unfolding step Suc.IH [OF less_imp_le [OF n]]
  proof (simp only: verify_pass_def Let_def fst_conv snd_conv key_upto_Suc [OF n] prod.inject,
      intro conjI refl ext)
    fix a :: size_t
    show "store (\<lambda>a. if unat a < n * ?b
          then H (key_upto (unat a div ?b)) (of_nat (unat a div ?b))
                 (HASH_INIT (256 - of_nat (unat a div ?b))) ! (unat a mod ?b)
          else 0) (ucast (of_nat n * hb)) (H (key_upto n) (of_nat n) (HASH_INIT (256 - of_nat n)))
              a =
      (if unat a < Suc n * ?b
          then H (key_upto (unat a div ?b)) (of_nat (unat a div ?b))
                 (HASH_INIT (256 - of_nat (unat a div ?b))) ! (unat a mod ?b)
          else 0)"
    proof (cases "n * ?b \<le> unat a \<and> unat a < n * ?b + ?b")
      case True
      then have d: "unat a div ?b = n"
        using hb by (metis add.commute div_nat_eqI mult.commute mult_Suc_right)
      have m: "unat a mod ?b = unat a - n * ?b"
        using d by (metis minus_mult_div_eq_mod mult.commute)
      from True show ?thesis by (simp add: st d m)
    next
      case False
      then show ?thesis by (auto simp add: st)
    qed
  qed
qed

lemma le_bytes_nth: "j < 8 \<Longrightarrow> le_bytes w ! j = of_nat (tkn 8 (drn (8 * j) (unat w)))"
proof -
  assume j: "j < 8"
  have "(of_nat (tkn 8 (drn (8 * j) (unat w))) :: u8) = of_nat (drn (8 * j) (unat w))"
    using word_of_nat_take_bit [of "drn (8 * j) (unat w)", where ?'a = 8]
    by (simp add: tkn_def take_bit_eq_mod)
  also have "\<dots> = ucast (of_nat (drn (8 * j) (unat w)) :: u64)"
    by (rule ucast_of_nat_down [symmetric]) simp
  also have "\<dots> = ucast (drop_bit (8 * j) w)"
    by (simp only: word_drop_nat)
  finally show ?thesis using j by (simp add: le_bytes_def)
qed

lemma length_le_bytes: "length (le_bytes w) = 8"
  by (simp add: le_bytes_def)

lemma sweep_bytes:
  fixes hb :: u32
  assumes len: "\<And>k l s. length (H k l s) = unat hb"
    and hb: "0 < unat hb" "unat hb \<le> 16"
    and x: "x < 256 * unat hb"
  shows "snd (verify_sweep hb H) (of_nat x) =
    H (key_upto (x div unat hb)) (of_nat (x div unat hb))
      (HASH_INIT (256 - of_nat (x div unat hb))) ! (x mod unat hb)"
proof -
  have "x < 256 * 16" using x hb by (simp add: less_le_trans [of x "256 * unat hb"])
  then have "take_bit 64 x = x" by (intro take_bit_nat_eq_self) simp
  then have u: "unat (of_nat x :: size_t) = x" by (simp add: unat_of_nat_take_bit)
  show ?thesis
    using x by (simp add: verify_sweep_def verify_fold [OF len hb] u)
qed

lemma sweep_byte_64_nat:
  assumes "x < 2048"
  shows "snd (verify_sweep 8 (digest_64 h)) (of_nat x) =
    of_nat (tkn 8 (drn (pushn 3 (tkn 3 x)) (unat (key_hash h (drn 3 x)))))"
proof -
  have l: "\<And>k l s. length (digest_64 h k l s) = unat (8 :: u32)"
    by (simp add: digest_64_def length_le_bytes)
  have "snd (verify_sweep 8 (digest_64 h)) (of_nat x) =
      digest_64 h (key_upto (x div 8)) (of_nat (x div 8)) (HASH_INIT (256 - of_nat (x div 8))) ! (x
          mod 8)"
    using sweep_bytes [OF l, of x] assms by simp
  also have "\<dots> = le_bytes (key_hash h (x div 8)) ! (x mod 8)"
    by (simp only: digest_64_def key_hash_def)
  also have "\<dots> = of_nat (tkn 8 (drn (8 * (x mod 8)) (unat (key_hash h (x div 8)))))"
    by (rule le_bytes_nth) simp
  finally show ?thesis
    by (simp add: tkn_def drn_def pushn_sem push_bit_eq_mult mult.commute)
qed

lemma sweep_byte_128_nat:
  assumes "x < 4096"
  shows "snd (verify_sweep 16 (digest_128 h)) (of_nat x) =
    of_nat (tkn 8 (drn (pushn 3 (tkn 3 x))
      (unat (half (tkn 1 (drn 3 x)) (key_hash h (drn 4 x))))))"
proof -
  let ?r = "key_hash h (x div 16)"
  have l: "\<And>k l s. length (digest_128 h k l s) = unat (16 :: u32)"
    by (simp add: digest_128_def length_le_bytes Let_def)
  have "snd (verify_sweep 16 (digest_128 h)) (of_nat x) =
      digest_128 h (key_upto (x div 16)) (of_nat (x div 16)) (HASH_INIT (256 - of_nat (x div 16)))
          ! (x mod 16)"
    using sweep_bytes [OF l, of x] assms by simp
  also have "\<dots> = (le_bytes (fst ?r) @ le_bytes (snd ?r)) ! (x mod 16)"
    by (simp only: digest_128_def key_hash_def Let_def)
  also have "\<dots> = le_bytes (half (x div 8 mod 2) ?r) ! (x mod 8)"
  proof (cases "x mod 16 < 8")
    case True
    then have "x div 8 mod 2 = 0" "x mod 8 = x mod 16" by presburger+
    with True show ?thesis by (simp add: nth_append length_le_bytes half_def)
  next
    case False
    then have "x div 8 mod 2 = 1" "x mod 8 = x mod 16 - 8" by presburger+
    with False show ?thesis by (simp add: nth_append length_le_bytes half_def)
  qed
  also have "\<dots> = of_nat (tkn 8 (drn (8 * (x mod 8)) (unat (half (x div 8 mod 2) ?r))))"
    by (rule le_bytes_nth) simp
  finally show ?thesis
    by (simp add: tkn_def drn_def pushn_sem push_bit_eq_mult mult.commute)
qed

lemma first_four_bytes:
  "ucast (le_bytes w ! 0) OR push_bit 8 (ucast (le_bytes w ! 1))
     OR push_bit 16 (ucast (le_bytes w ! 2)) OR push_bit 24 (ucast (le_bytes w ! 3)) =
   (ucast w :: u32)"
proof (rule bit_word_eqI)
  fix n
  assume "n < LENGTH(32)"
  then have n: "n < 32" by simp
  let ?l = "ucast (le_bytes w ! 0) OR push_bit 8 (ucast (le_bytes w ! 1))
     OR push_bit 16 (ucast (le_bytes w ! 2)) OR push_bit 24 (ucast (le_bytes w ! 3)) :: u32"
  consider "n < 8" | "8 \<le> n" "n < 16" | "16 \<le> n" "n < 24" | "24 \<le> n"
    by linarith
  then show "bit ?l n = bit (ucast w :: u32) n"
  proof cases
    case 1
    then show ?thesis using n by (auto simp add: le_bytes_def bit_simps)
  next
    case 2
    then have "8 + (n - 8) = n" by simp
    with 2 show ?thesis using n by (auto simp add: le_bytes_def bit_simps)
  next
    case 3
    then have "16 + (n - 16) = n" by simp
    with 3 show ?thesis using n by (auto simp add: le_bytes_def bit_simps)
  next
    case 4
    then have "24 + (n - 24) = n" by simp
    with 4 show ?thesis using n by (auto simp add: le_bytes_def bit_simps)
  qed
qed

lemma store_0: "store mem 0 bs a = (if unat a < length bs then bs ! unat a else mem a)"
  by (simp add: store_def)

lemma verify_64:
  "ComputedVerifyImpl 64 (digest_64 h) = ucast (h (snd (verify_sweep 8 (digest_64 h))) 2048 0)"
  using first_four_bytes [of "h (snd (verify_sweep 8 (digest_64 h))) 2048 0"]
  by (simp add: ComputedVerifyImpl_def HASH_INIT_def store_0 digest_64_def length_le_bytes)

lemma verify_128:
  "ComputedVerifyImpl 128 (digest_128 h) =
     ucast (fst (h (snd (verify_sweep 16 (digest_128 h))) 4096 0))"
  using first_four_bytes [of "fst (h (snd (verify_sweep 16 (digest_128 h))) 4096 0)"]
  by (simp add: ComputedVerifyImpl_def HASH_INIT_def store_0 digest_128_def length_le_bytes
      nth_append Let_def)

lemma sweep_byte_64:
  "fits C11 p \<Longrightarrow> snd (verify_sweep 8 (digest_64 h)) (numeral p) =
     of_nat (tkn C8 (drn (pushn C3 (tk C3 p)) (unat (key_hash h (dr C3 p)))))"
  "snd (verify_sweep 8 (digest_64 h)) 0 = of_nat (tkn C8 (unat (key_hash h 0)))"
proof -
  have e: "(3::nat) = C3" "(8::nat) = C8" by simp_all
  show "snd (verify_sweep 8 (digest_64 h)) 0 = of_nat (tkn C8 (unat (key_hash h 0)))"
    using sweep_byte_64_nat [of 0 h] by (simp add: tkn_def drn_def pushn_sem)
  assume "fits C11 p"
  then have "numeral p < (2 :: nat) ^ 11" by (simp only: c11 fits_sem)
  also have "(2 :: nat) ^ 11 = 2048" by simp
  finally have "numeral p < (2048 :: nat)" .
  from sweep_byte_64_nat [OF this, of h]
  show "snd (verify_sweep 8 (digest_64 h)) (numeral p) =
     of_nat (tkn C8 (drn (pushn C3 (tk C3 p)) (unat (key_hash h (dr C3 p)))))"
    by (simp only: of_nat_numeral tkn_eval drn_eval e)
qed

lemma sweep_byte_128:
  "fits C12 p \<Longrightarrow> snd (verify_sweep 16 (digest_128 h)) (numeral p) =
     of_nat (tkn C8 (drn (pushn C3 (tk C3 p))
       (unat (half (tkn (Suc 0) (dr C3 p)) (key_hash h (dr C4 p))))))"
  "snd (verify_sweep 16 (digest_128 h)) 0 = of_nat (tkn C8 (unat (fst (key_hash h 0))))"
proof -
  have e: "(3::nat) = C3" "(8::nat) = C8" "(4::nat) = C4" "(1::nat) = Suc 0" by simp_all
  show "snd (verify_sweep 16 (digest_128 h)) 0 = of_nat (tkn C8 (unat (fst (key_hash h 0))))"
    using sweep_byte_128_nat [of 0 h] by (simp add: tkn_def drn_def half_def pushn_sem)
  assume "fits C12 p"
  then have "numeral p < (2 :: nat) ^ 12" by (simp only: c12 fits_sem)
  also have "(2 :: nat) ^ 12 = 4096" by simp
  finally have "numeral p < (4096 :: nat)" .
  from sweep_byte_128_nat [OF this, of h]
  show "snd (verify_sweep 16 (digest_128 h)) (numeral p) =
     of_nat (tkn C8 (drn (pushn C3 (tk C3 p))
       (unat (half (tkn (Suc 0) (dr C3 p)) (key_hash h (dr C4 p))))))"
    by (simp only: of_nat_numeral tkn_eval drn_eval e)
qed

lemma half_eval: "half 0 r = fst r" "half (numeral k) r = snd r"
  by (simp_all add: half_def)

lemma ucast_low: "(ucast (numeral a :: u64) :: u32) = of_nat (tk C32 a)" "(ucast (0 :: u64) :: u32)
    = 0"
proof -
  have "LENGTH(32) \<le> LENGTH(64)" by simp
  from ucast_of_nat_down [OF this, of "numeral a"]
  have "(ucast (numeral a :: u64) :: u32) = numeral a" by (simp only: of_nat_numeral)
  moreover have "C32 = LENGTH(32)" by simp
  ultimately show "(ucast (numeral a :: u64) :: u32) = of_nat (tk C32 a)"
    by (simp only: of_nat_tk_len)
qed simp

lemma key_hash_eval:
  "key_hash h 0 = h (key_upto 0) 0 256"
  "key_hash h (numeral k) = h (key_upto (numeral k)) (numeral k) (256 - numeral k)"
  by (simp_all add: key_hash_def HASH_INIT_def)

lemmas entry_run = museair_hash_def museair_hash_128_def museair_bfast_hash_def
  museair_bfast_hash_128_def

lemmas sweep_run = sweep_byte_64 sweep_byte_128 half_eval ucast_low

section \<open>The hashes of the 256 keys\<close>

lemma museair_hash_keys_000:
  "key_hash museair_hash 0 = 0xF1EA5DDC5B0C18CD"
  "key_hash museair_hash Numeral1 = 0x8764C2E336A6ED03"
  "key_hash museair_hash 2 = 0xF8EDD6981EF6BE74"
  "key_hash museair_hash 3 = 0xA114385FE5CDCD6B"
  "key_hash museair_hash 4 = 0xD816CFC60F49E48C"
  "key_hash museair_hash 5 = 0x156E295E98C2D48B"
  "key_hash museair_hash 6 = 0x3F8F34189AA5A28E"
  "key_hash museair_hash 7 = 0x8700E42BE3EA1295"
  by (simp_all only: key_hash_eval entry_run run cong: let_weak_cong if_weak_cong)

lemma museair_hash_keys_008:
  "key_hash museair_hash 8 = 0x2DD3E6A24356ECBD"
  "key_hash museair_hash 9 = 0x4613DD5B2957F01B"
  "key_hash museair_hash 10 = 0x74B3FB0BE2A4C533"
  "key_hash museair_hash 11 = 0xD8CAA73A83C70246"
  "key_hash museair_hash 12 = 0x93E5A5879093A7D6"
  "key_hash museair_hash 13 = 0x80DAA12DB96DC9D1"
  "key_hash museair_hash 14 = 0xC9703B146B2E507B"
  "key_hash museair_hash 15 = 0x7975868E8E0ABC99"
  by (simp_all only: key_hash_eval entry_run run cong: let_weak_cong if_weak_cong)

lemma museair_hash_keys_016:
  "key_hash museair_hash 16 = 0x48391E9198AA1211"
  "key_hash museair_hash 17 = 0xD07C933A9D3D506A"
  "key_hash museair_hash 18 = 0xD6D90228D1C12814"
  "key_hash museair_hash 19 = 0xE1D4515276459D3F"
  "key_hash museair_hash 20 = 0xBE1E106560D6B448"
  "key_hash museair_hash 21 = 0xBF88DDA65539518E"
  "key_hash museair_hash 22 = 0x5D97CD957BEF99D5"
  "key_hash museair_hash 23 = 0x55CBF0A4CE4C90E5"
  by (simp_all only: key_hash_eval entry_run run cong: let_weak_cong if_weak_cong)

lemma museair_hash_keys_024:
  "key_hash museair_hash 24 = 0x6318D31AB4A72FD4"
  "key_hash museair_hash 25 = 0x87C1EEF97B83B686"
  "key_hash museair_hash 26 = 0x2F2D1451D44F2692"
  "key_hash museair_hash 27 = 0x7B720A4E3A89FE27"
  "key_hash museair_hash 28 = 0x92F82645560EA8B6"
  "key_hash museair_hash 29 = 0x8410D0215A2CB939"
  "key_hash museair_hash 30 = 0x33EC28F0D0BE4074"
  "key_hash museair_hash 31 = 0xB416A61B185AF7A0"
  by (simp_all only: key_hash_eval entry_run run cong: let_weak_cong if_weak_cong)

lemma museair_hash_keys_032:
  "key_hash museair_hash 32 = 0xBDB1F329FF2EAE24"
  "key_hash museair_hash 33 = 0x8FEFDCC2469CA38D"
  "key_hash museair_hash 34 = 0xCBCBB9B04D8CC270"
  "key_hash museair_hash 35 = 0x09708B9050B431D6"
  "key_hash museair_hash 36 = 0x68B1260EE6318442"
  "key_hash museair_hash 37 = 0xD30B94FB15C1A83D"
  "key_hash museair_hash 38 = 0x93F447E07923FF5E"
  "key_hash museair_hash 39 = 0x49D462D30E76A9A9"
  by (simp_all only: key_hash_eval entry_run run cong: let_weak_cong if_weak_cong)

lemma museair_hash_keys_040:
  "key_hash museair_hash 40 = 0xF78525BE628E1536"
  "key_hash museair_hash 41 = 0xE57E665C77E306A0"
  "key_hash museair_hash 42 = 0x45074A6D3ABF8835"
  "key_hash museair_hash 43 = 0xAD20C4A53824553E"
  "key_hash museair_hash 44 = 0x46A3365B9D5ABF6A"
  "key_hash museair_hash 45 = 0xF85459A82399AAB3"
  "key_hash museair_hash 46 = 0x453E5FF47794F902"
  "key_hash museair_hash 47 = 0xE0A3BB70CEDA5502"
  by (simp_all only: key_hash_eval entry_run run cong: let_weak_cong if_weak_cong)

lemma museair_hash_keys_048:
  "key_hash museair_hash 48 = 0x55406E103C667E54"
  "key_hash museair_hash 49 = 0x2433EC0C7BDDE988"
  "key_hash museair_hash 50 = 0x5865AB0ED845F754"
  "key_hash museair_hash 51 = 0x7A9E7072244AC831"
  "key_hash museair_hash 52 = 0x4BEF03D0DDCCC6EA"
  "key_hash museair_hash 53 = 0x6A428FB3C22D1312"
  "key_hash museair_hash 54 = 0xF64B92E68585F867"
  "key_hash museair_hash 55 = 0xDDC24B023CA1505B"
  by (simp_all only: key_hash_eval entry_run run cong: let_weak_cong if_weak_cong)

lemma museair_hash_keys_056:
  "key_hash museair_hash 56 = 0x243859289561933A"
  "key_hash museair_hash 57 = 0x96D0929A8207885C"
  "key_hash museair_hash 58 = 0xADE413D58722F4B1"
  "key_hash museair_hash 59 = 0x2C0262776DE10474"
  "key_hash museair_hash 60 = 0xCCB3359F48DCC7CA"
  "key_hash museair_hash 61 = 0xFAE53824A7660615"
  "key_hash museair_hash 62 = 0x1334913F8CAFBD5F"
  "key_hash museair_hash 63 = 0x3B8B9B4310A8C659"
  by (simp_all only: key_hash_eval entry_run run cong: let_weak_cong if_weak_cong)

lemma museair_hash_keys_064:
  "key_hash museair_hash 64 = 0xED9140531A485CE4"
  "key_hash museair_hash 65 = 0x1C5BDFF5ED9E494D"
  "key_hash museair_hash 66 = 0x223FF70F2365990D"
  "key_hash museair_hash 67 = 0x0A3B79F4432978A6"
  "key_hash museair_hash 68 = 0x3BE3FC9A85DCFB8A"
  "key_hash museair_hash 69 = 0x43DC92A297F43B62"
  "key_hash museair_hash 70 = 0x7EFD1E3856B71E62"
  "key_hash museair_hash 71 = 0x1EC1DBA56A523885"
  by (simp_all only: key_hash_eval entry_run run cong: let_weak_cong if_weak_cong)

lemma museair_hash_keys_072:
  "key_hash museair_hash 72 = 0x92CE5D4FC35F0D8C"
  "key_hash museair_hash 73 = 0xD8124277182E000E"
  "key_hash museair_hash 74 = 0xBE4278C04EA84E1E"
  "key_hash museair_hash 75 = 0xD2A9116AB93AF351"
  "key_hash museair_hash 76 = 0xECCA62A110961B15"
  "key_hash museair_hash 77 = 0x805507053BA3B68B"
  "key_hash museair_hash 78 = 0x2AAEF2400A8F2DF7"
  "key_hash museair_hash 79 = 0xA899EBD778695BD3"
  by (simp_all only: key_hash_eval entry_run run cong: let_weak_cong if_weak_cong)

lemma museair_hash_keys_080:
  "key_hash museair_hash 80 = 0xFA539F9565E1584F"
  "key_hash museair_hash 81 = 0x4E0EA7EE001891DA"
  "key_hash museair_hash 82 = 0x003B96AB1560AEE9"
  "key_hash museair_hash 83 = 0xF878FD184C1A07FA"
  "key_hash museair_hash 84 = 0x9610AADFD5471F6B"
  "key_hash museair_hash 85 = 0x8DDB5CC616428A73"
  "key_hash museair_hash 86 = 0x7386B61B22499B2A"
  "key_hash museair_hash 87 = 0x5A4E58B3773F9D85"
  by (simp_all only: key_hash_eval entry_run run cong: let_weak_cong if_weak_cong)

lemma museair_hash_keys_088:
  "key_hash museair_hash 88 = 0x00668CC5CF0D5AE6"
  "key_hash museair_hash 89 = 0x4F261084749EA0E6"
  "key_hash museair_hash 90 = 0x1D4F8BD3827B2F2C"
  "key_hash museair_hash 91 = 0x9E346A539145351A"
  "key_hash museair_hash 92 = 0x931C7C3BCC853E19"
  "key_hash museair_hash 93 = 0x2F48AC0DB022CA01"
  "key_hash museair_hash 94 = 0x88C225F591B21A9C"
  "key_hash museair_hash 95 = 0x885855EB5DCFEF70"
  by (simp_all only: key_hash_eval entry_run run cong: let_weak_cong if_weak_cong)

lemma museair_hash_keys_096:
  "key_hash museair_hash 96 = 0xE73582609B383478"
  "key_hash museair_hash 97 = 0xF884C9676B8DB667"
  "key_hash museair_hash 98 = 0xF4E3CEC8C79811A5"
  "key_hash museair_hash 99 = 0x4DDB9656B6B465A1"
  "key_hash museair_hash 100 = 0x3817BA8D5C817E4A"
  "key_hash museair_hash 101 = 0x421CEB1D99B52E75"
  "key_hash museair_hash 102 = 0x782391A1F8A7C43B"
  "key_hash museair_hash 103 = 0xD98B6BBB04B96025"
  by (simp_all only: key_hash_eval entry_run run cong: let_weak_cong if_weak_cong)

lemma museair_hash_keys_104:
  "key_hash museair_hash 104 = 0xEDE418FBABCE6CAE"
  "key_hash museair_hash 105 = 0x49ECA95AB51E8245"
  "key_hash museair_hash 106 = 0xA7A4B3F85777D45E"
  "key_hash museair_hash 107 = 0x529AC03BB9DAA377"
  "key_hash museair_hash 108 = 0xE9C2C12E6153243B"
  "key_hash museair_hash 109 = 0xBA373E53C887672F"
  "key_hash museair_hash 110 = 0xCBA3DAB835ADD16B"
  "key_hash museair_hash 111 = 0x40E07303EB163112"
  by (simp_all only: key_hash_eval entry_run run cong: let_weak_cong if_weak_cong)

lemma museair_hash_keys_112:
  "key_hash museair_hash 112 = 0x3454C7B6F9B9867B"
  "key_hash museair_hash 113 = 0xC4A74133E10823E8"
  "key_hash museair_hash 114 = 0xAE3E1F3633DB43CC"
  "key_hash museair_hash 115 = 0xEB6EFE15340167D7"
  "key_hash museair_hash 116 = 0x80B3915814CF3526"
  "key_hash museair_hash 117 = 0xD265C7985256EAB7"
  "key_hash museair_hash 118 = 0x524B8D789B795F6D"
  "key_hash museair_hash 119 = 0x94C0EDAC415EA2FE"
  by (simp_all only: key_hash_eval entry_run run cong: let_weak_cong if_weak_cong)

lemma museair_hash_keys_120:
  "key_hash museair_hash 120 = 0x8ADBFF1A29C3D4A8"
  "key_hash museair_hash 121 = 0x6B6AC4BFDFA3B80C"
  "key_hash museair_hash 122 = 0x1687D1C032BBD1BA"
  "key_hash museair_hash 123 = 0xA73E4B799D6F3C14"
  "key_hash museair_hash 124 = 0x77206D9E134B18C9"
  "key_hash museair_hash 125 = 0x67489A6C912742D4"
  "key_hash museair_hash 126 = 0x458BF229D5F80B0C"
  "key_hash museair_hash 127 = 0x03177B753C97B6BE"
  by (simp_all only: key_hash_eval entry_run run cong: let_weak_cong if_weak_cong)

lemma museair_hash_keys_128:
  "key_hash museair_hash 128 = 0x96B9824033FA8B7A"
  "key_hash museair_hash 129 = 0xAE92DA3A94604A3A"
  "key_hash museair_hash 130 = 0xFE4AA74E77192C0D"
  "key_hash museair_hash 131 = 0xD12C47C34A37CA94"
  "key_hash museair_hash 132 = 0xE4C5F59CD6F47365"
  "key_hash museair_hash 133 = 0x170605F255CFB659"
  "key_hash museair_hash 134 = 0x26B9ED4CDF997C73"
  "key_hash museair_hash 135 = 0xF4830BE4D3C8D67F"
  by (simp_all only: key_hash_eval entry_run run cong: let_weak_cong if_weak_cong)

lemma museair_hash_keys_136:
  "key_hash museair_hash 136 = 0xA910D343B9E11853"
  "key_hash museair_hash 137 = 0x6059A670BCC5A4AA"
  "key_hash museair_hash 138 = 0xB53BFFD7BE5EBFF8"
  "key_hash museair_hash 139 = 0xDCE154DD7FB25D77"
  "key_hash museair_hash 140 = 0x8979F0E8DAAB4662"
  "key_hash museair_hash 141 = 0xA27993E3DDF03F6B"
  "key_hash museair_hash 142 = 0x91E685D76E3BCA44"
  "key_hash museair_hash 143 = 0x3CAA8B99B862BA83"
  by (simp_all only: key_hash_eval entry_run run cong: let_weak_cong if_weak_cong)

lemma museair_hash_keys_144:
  "key_hash museair_hash 144 = 0x02DB78E9D587B7BE"
  "key_hash museair_hash 145 = 0x418D38D56DA4E3D3"
  "key_hash museair_hash 146 = 0x9A98CD37F2228443"
  "key_hash museair_hash 147 = 0xA81289C43EE96D84"
  "key_hash museair_hash 148 = 0x19F412DABEC9B2FE"
  "key_hash museair_hash 149 = 0xBC1DA70FD603604C"
  "key_hash museair_hash 150 = 0xF02329139B0FBE23"
  "key_hash museair_hash 151 = 0x8E8ABC3E5F0C77D1"
  by (simp_all only: key_hash_eval entry_run run cong: let_weak_cong if_weak_cong)

lemma museair_hash_keys_152:
  "key_hash museair_hash 152 = 0x21F758A575B3E660"
  "key_hash museair_hash 153 = 0xC6C98E101A4D00F4"
  "key_hash museair_hash 154 = 0x3A8DAF725D320573"
  "key_hash museair_hash 155 = 0x58E68786D46BC24D"
  "key_hash museair_hash 156 = 0xD819B029620B6FFD"
  "key_hash museair_hash 157 = 0xACDFE00F5CAE373E"
  "key_hash museair_hash 158 = 0x1A4AF64431E392F5"
  "key_hash museair_hash 159 = 0xFC21B7BA76579B7B"
  by (simp_all only: key_hash_eval entry_run run cong: let_weak_cong if_weak_cong)

lemma museair_hash_keys_160:
  "key_hash museair_hash 160 = 0x46965B19B8D5D50F"
  "key_hash museair_hash 161 = 0x1E74BEE064862880"
  "key_hash museair_hash 162 = 0xE6A762C6CD7617B9"
  "key_hash museair_hash 163 = 0x49C26936C9E4397C"
  "key_hash museair_hash 164 = 0xB809035694235F69"
  "key_hash museair_hash 165 = 0x18CC446C9561D18B"
  "key_hash museair_hash 166 = 0x9EA09F3B75C14F32"
  "key_hash museair_hash 167 = 0xF24BFC5A1C2B7B95"
  by (simp_all only: key_hash_eval entry_run run cong: let_weak_cong if_weak_cong)

lemma museair_hash_keys_168:
  "key_hash museair_hash 168 = 0x2C871AE97AA2804F"
  "key_hash museair_hash 169 = 0x9DB65B28F9F03570"
  "key_hash museair_hash 170 = 0xF5261DDC47412356"
  "key_hash museair_hash 171 = 0x1E9D6949247C6D13"
  "key_hash museair_hash 172 = 0x126E01CA12B166A1"
  "key_hash museair_hash 173 = 0x27D0C79BCDAF6F9E"
  "key_hash museair_hash 174 = 0x0F309F4F3718AF32"
  "key_hash museair_hash 175 = 0x5F0CAFBA76CA8345"
  by (simp_all only: key_hash_eval entry_run run cong: let_weak_cong if_weak_cong)

lemma museair_hash_keys_176:
  "key_hash museair_hash 176 = 0x3BD2E8076194B528"
  "key_hash museair_hash 177 = 0xDBF287EA1675E495"
  "key_hash museair_hash 178 = 0x1D3D4C48FE36CACB"
  "key_hash museair_hash 179 = 0x846F8A37A3B7419C"
  "key_hash museair_hash 180 = 0x3E2E8936EB8166BE"
  "key_hash museair_hash 181 = 0xA84839EB925D8130"
  "key_hash museair_hash 182 = 0x4F4322BC56010712"
  "key_hash museair_hash 183 = 0x2026728E27FF4058"
  by (simp_all only: key_hash_eval entry_run run cong: let_weak_cong if_weak_cong)

lemma museair_hash_keys_184:
  "key_hash museair_hash 184 = 0x0D9F8B3194A8BE87"
  "key_hash museair_hash 185 = 0x47E8CD330C58BAA4"
  "key_hash museair_hash 186 = 0x6EA27A76DD60291B"
  "key_hash museair_hash 187 = 0xE3F6A1A97634C2E5"
  "key_hash museair_hash 188 = 0xB38D203F340E9C10"
  "key_hash museair_hash 189 = 0x799234D5B3B07285"
  "key_hash museair_hash 190 = 0xD36D319FA03EF793"
  "key_hash museair_hash 191 = 0x41102EDC3F084C83"
  by (simp_all only: key_hash_eval entry_run run cong: let_weak_cong if_weak_cong)

lemma museair_hash_keys_192:
  "key_hash museair_hash 192 = 0x65AB6DBCAEFCB35F"
  "key_hash museair_hash 193 = 0x53AFB8D82290CC6E"
  "key_hash museair_hash 194 = 0x5D5A969CA7257CFE"
  "key_hash museair_hash 195 = 0xF515687E2706D00A"
  "key_hash museair_hash 196 = 0xAB7280CDD502633F"
  "key_hash museair_hash 197 = 0x1A6538BD9C7A2BE0"
  "key_hash museair_hash 198 = 0x6170EB3EBF73D2B3"
  "key_hash museair_hash 199 = 0xE688EA9FD07A0F3E"
  by (simp_all only: key_hash_eval entry_run run cong: let_weak_cong if_weak_cong)

lemma museair_hash_keys_200:
  "key_hash museair_hash 200 = 0xDC71CD3EF4AE0868"
  "key_hash museair_hash 201 = 0xE81DAF95D2451759"
  "key_hash museair_hash 202 = 0xA3B9E8AFB4B543EA"
  "key_hash museair_hash 203 = 0xF5630DCE7BC7B40C"
  "key_hash museair_hash 204 = 0x7B055420285A5D30"
  "key_hash museair_hash 205 = 0x259F4C9A1679CE94"
  "key_hash museair_hash 206 = 0x19E7DDAC306C4880"
  "key_hash museair_hash 207 = 0xB4C1C20F3A13CAAD"
  by (simp_all only: key_hash_eval entry_run run cong: let_weak_cong if_weak_cong)

lemma museair_hash_keys_208:
  "key_hash museair_hash 208 = 0xFDDB5A3E87241184"
  "key_hash museair_hash 209 = 0x58F0A2DF24315BDF"
  "key_hash museair_hash 210 = 0x3973943F556BA71C"
  "key_hash museair_hash 211 = 0x888607204028FA81"
  "key_hash museair_hash 212 = 0x85702B710F82D28A"
  "key_hash museair_hash 213 = 0xADF9DB5BD9494CDC"
  "key_hash museair_hash 214 = 0x76A69121A98C2C90"
  "key_hash museair_hash 215 = 0xC10DDF1F037CC70F"
  by (simp_all only: key_hash_eval entry_run run cong: let_weak_cong if_weak_cong)

lemma museair_hash_keys_216:
  "key_hash museair_hash 216 = 0xA3A1201B6AC40EF9"
  "key_hash museair_hash 217 = 0x0230ACCAADBBCDC6"
  "key_hash museair_hash 218 = 0x09B262FA558DD532"
  "key_hash museair_hash 219 = 0x9B2AC9DDF536E39D"
  "key_hash museair_hash 220 = 0x49164FB169FB4E32"
  "key_hash museair_hash 221 = 0x7C64CC5B92E1D8FD"
  "key_hash museair_hash 222 = 0xE3D7BC01851A8CBA"
  "key_hash museair_hash 223 = 0xC102D49A10310C34"
  by (simp_all only: key_hash_eval entry_run run cong: let_weak_cong if_weak_cong)

lemma museair_hash_keys_224:
  "key_hash museair_hash 224 = 0x6882F2438105D82E"
  "key_hash museair_hash 225 = 0x5A461758DED85439"
  "key_hash museair_hash 226 = 0xED66A543A917F82E"
  "key_hash museair_hash 227 = 0x878020B8E112C400"
  "key_hash museair_hash 228 = 0xD1A1501086EAAA41"
  "key_hash museair_hash 229 = 0x8C251FBF9461A822"
  "key_hash museair_hash 230 = 0xFE12A72180F64052"
  "key_hash museair_hash 231 = 0xA0B60041F0818229"
  by (simp_all only: key_hash_eval entry_run run cong: let_weak_cong if_weak_cong)

lemma museair_hash_keys_232:
  "key_hash museair_hash 232 = 0x972F95F433D8186F"
  "key_hash museair_hash 233 = 0x753ECD815C6D0E36"
  "key_hash museair_hash 234 = 0xA15579DBC0DBA88B"
  "key_hash museair_hash 235 = 0xE31A315D9F7BDFC9"
  "key_hash museair_hash 236 = 0xB746A7CDE35C7EBD"
  "key_hash museair_hash 237 = 0x5020D5D7BC05D08E"
  "key_hash museair_hash 238 = 0xBEDD468190948E8E"
  "key_hash museair_hash 239 = 0x8F9131CDF39AAC5D"
  by (simp_all only: key_hash_eval entry_run run cong: let_weak_cong if_weak_cong)

lemma museair_hash_keys_240:
  "key_hash museair_hash 240 = 0xE62A4B29A19A1645"
  "key_hash museair_hash 241 = 0x332D690C735050C9"
  "key_hash museair_hash 242 = 0xAB771AF8B96CA17E"
  "key_hash museair_hash 243 = 0xC196B07CF2F7C11D"
  "key_hash museair_hash 244 = 0xD22596EB74759C58"
  "key_hash museair_hash 245 = 0x3D63C3513A6C4C7B"
  "key_hash museair_hash 246 = 0xF4E396410CA791C1"
  "key_hash museair_hash 247 = 0x989E53BBAC1ED181"
  by (simp_all only: key_hash_eval entry_run run cong: let_weak_cong if_weak_cong)

lemma museair_hash_keys_248:
  "key_hash museair_hash 248 = 0xE5A081F0D76A2EC3"
  "key_hash museair_hash 249 = 0x60C11A468B82FD16"
  "key_hash museair_hash 250 = 0x3DA8CD0D6E9FBE20"
  "key_hash museair_hash 251 = 0x05F710A5AFE69CCD"
  "key_hash museair_hash 252 = 0xE1ADE4ED1DA521E3"
  "key_hash museair_hash 253 = 0x0348B015CAADC94D"
  "key_hash museair_hash 254 = 0xE8F54051101AA67F"
  "key_hash museair_hash 255 = 0x89D734160DB42FFC"
  by (simp_all only: key_hash_eval entry_run run cong: let_weak_cong if_weak_cong)

lemmas museair_hash_keys =
  museair_hash_keys_000 museair_hash_keys_008 museair_hash_keys_016 museair_hash_keys_024
  museair_hash_keys_032 museair_hash_keys_040 museair_hash_keys_048 museair_hash_keys_056
  museair_hash_keys_064 museair_hash_keys_072 museair_hash_keys_080 museair_hash_keys_088
  museair_hash_keys_096 museair_hash_keys_104 museair_hash_keys_112 museair_hash_keys_120
  museair_hash_keys_128 museair_hash_keys_136 museair_hash_keys_144 museair_hash_keys_152
  museair_hash_keys_160 museair_hash_keys_168 museair_hash_keys_176 museair_hash_keys_184
  museair_hash_keys_192 museair_hash_keys_200 museair_hash_keys_208 museair_hash_keys_216
  museair_hash_keys_224 museair_hash_keys_232 museair_hash_keys_240 museair_hash_keys_248

lemma museair_hash_128_keys_000:
  "key_hash museair_hash_128 0 = (0x99F0C040A10E2A0F, 0x4886032BDB5EA30D)"
  "key_hash museair_hash_128 Numeral1 = (0x1DD9E24AE05E3497, 0x6B2C8D80464AC353)"
  "key_hash museair_hash_128 2 = (0x750004DC3891FDA8, 0x51DB9077F2B53E97)"
  "key_hash museair_hash_128 3 = (0xB9F0544A27A2B42C, 0x6964045D98A49E10)"
  "key_hash museair_hash_128 4 = (0x98176931E96D3F0C, 0x6AF6DD4F8364EAC3)"
  "key_hash museair_hash_128 5 = (0xF293E3AEC9802409, 0x8001D2241B6306E3)"
  "key_hash museair_hash_128 6 = (0xE087A14A63384AE6, 0x4D8AB6C9241AC3FF)"
  "key_hash museair_hash_128 7 = (0x9E211C6FFADAFFBF, 0x5E4DD864D73DF242)"
  by (simp_all only: key_hash_eval entry_run run cong: let_weak_cong if_weak_cong)

lemma museair_hash_128_keys_008:
  "key_hash museair_hash_128 8 = (0x524F1B3EECCD94AB, 0xE8B2DF19D591BEAC)"
  "key_hash museair_hash_128 9 = (0x2024E9490F434B8C, 0xFC9337C050DD7B40)"
  "key_hash museair_hash_128 10 = (0x130FD715CFA25865, 0x1C6FD7FCC763E67D)"
  "key_hash museair_hash_128 11 = (0x9F027CA377B33BCF, 0xA77D53188F836040)"
  "key_hash museair_hash_128 12 = (0xA62BD2EF1F18EFC2, 0x53D961C963CF81FD)"
  "key_hash museair_hash_128 13 = (0x6381C25C3BF20EA6, 0x84C2C123D7B4DC73)"
  "key_hash museair_hash_128 14 = (0x0454E2FA487A1D37, 0xDB00FA9EC0849B6B)"
  "key_hash museair_hash_128 15 = (0x96A2DEDA792687DB, 0x7C57D12787BE6A04)"
  by (simp_all only: key_hash_eval entry_run run cong: let_weak_cong if_weak_cong)

lemma museair_hash_128_keys_016:
  "key_hash museair_hash_128 16 = (0xE39B81CB61F42D37, 0x35C0E4D39488F167)"
  "key_hash museair_hash_128 17 = (0x2F73054E92C6C46B, 0x8B3D7D9197FB45A0)"
  "key_hash museair_hash_128 18 = (0xC38FA65ABB621489, 0xEB757842CA8FC025)"
  "key_hash museair_hash_128 19 = (0x5AF0C03FB454ECD6, 0xD2EF50BDC8F3A81B)"
  "key_hash museair_hash_128 20 = (0x0AD4583133896E2E, 0x345117E18822DC57)"
  "key_hash museair_hash_128 21 = (0xE977F0FE9E6C8ADF, 0x7F53C85A2F1CE92F)"
  "key_hash museair_hash_128 22 = (0x1464661F061D6AA4, 0x5B6513DDFF406832)"
  "key_hash museair_hash_128 23 = (0xFEEEAF563497F3D0, 0xBF13FF781791704F)"
  by (simp_all only: key_hash_eval entry_run run cong: let_weak_cong if_weak_cong)

lemma museair_hash_128_keys_024:
  "key_hash museair_hash_128 24 = (0xC16B0EA0BD234B51, 0x916B5398D3A17632)"
  "key_hash museair_hash_128 25 = (0xC8622DDC564CD8B4, 0xF79644C2D3505FFF)"
  "key_hash museair_hash_128 26 = (0x4BD0607914FC72D8, 0xDE78A957905EE5CB)"
  "key_hash museair_hash_128 27 = (0xA2FE1DA2131B04E1, 0xC8E2EA69CB2315E5)"
  "key_hash museair_hash_128 28 = (0x70CBAC322DD41561, 0x2F67D317888A639F)"
  "key_hash museair_hash_128 29 = (0x6E6E6DF6D40732DF, 0xFDB48CF05C21441D)"
  "key_hash museair_hash_128 30 = (0x675E910CE537AE38, 0x6E2C423AD7E57250)"
  "key_hash museair_hash_128 31 = (0x83929F24E47E495D, 0x42CE9984B86EF5D5)"
  by (simp_all only: key_hash_eval entry_run run cong: let_weak_cong if_weak_cong)

lemma museair_hash_128_keys_032:
  "key_hash museair_hash_128 32 = (0xDE44F009772A30EE, 0x3BC35A988897776E)"
  "key_hash museair_hash_128 33 = (0x9F366CF3A87D5CCF, 0x21ECDF37F927A70F)"
  "key_hash museair_hash_128 34 = (0x44016656CD0422AE, 0xF83DC00979CBF861)"
  "key_hash museair_hash_128 35 = (0xF2AAB78DA9F1F885, 0x4C661E1531CCE166)"
  "key_hash museair_hash_128 36 = (0xB66F4778F084AAB9, 0x1D34F50FCFEB3B2D)"
  "key_hash museair_hash_128 37 = (0xF1F8427ED8CC32D5, 0x159A003707A1EFDA)"
  "key_hash museair_hash_128 38 = (0xB7CA36E81C0F0B6F, 0x3D2646CAFBD50EE3)"
  "key_hash museair_hash_128 39 = (0xA161E8FBAA446CED, 0x0937EFC08DEC8F28)"
  by (simp_all only: key_hash_eval entry_run run cong: let_weak_cong if_weak_cong)

lemma museair_hash_128_keys_040:
  "key_hash museair_hash_128 40 = (0xE51B8B1BC0A9211D, 0x1017C02719DE233E)"
  "key_hash museair_hash_128 41 = (0x98726FDDB9AA327F, 0xEB2A306F27E7D9FE)"
  "key_hash museair_hash_128 42 = (0xB346F2AD1DFCB3BF, 0x3354867C0DE25024)"
  "key_hash museair_hash_128 43 = (0x77739D4C8021CD7C, 0x5B8BD891B84DEFB5)"
  "key_hash museair_hash_128 44 = (0x63DCB021D70F9A4D, 0x46F3EEFBFE5AF864)"
  "key_hash museair_hash_128 45 = (0x22BE36DB65B94BED, 0x277B12A022BE601A)"
  "key_hash museair_hash_128 46 = (0x7D3D05CC7431B8BD, 0xDD3F0F5A9182A2E4)"
  "key_hash museair_hash_128 47 = (0xC4069ECBF8D0263E, 0x34036D81D41C186E)"
  by (simp_all only: key_hash_eval entry_run run cong: let_weak_cong if_weak_cong)

lemma museair_hash_128_keys_048:
  "key_hash museair_hash_128 48 = (0xB515F9BD82770175, 0x10AFA22F5A48E98D)"
  "key_hash museair_hash_128 49 = (0x7437F169567D5DD9, 0xD9AFB3A4F38D6568)"
  "key_hash museair_hash_128 50 = (0x7DA75472504CA8D8, 0x8043A60D62892B32)"
  "key_hash museair_hash_128 51 = (0x63C058D355E9D1EB, 0xB530EF0634ACC110)"
  "key_hash museair_hash_128 52 = (0x865FD759FF70B54A, 0xC05435A8F2A6CE2D)"
  "key_hash museair_hash_128 53 = (0x6A360A6A2AB3AA46, 0x00D83A0B1955A61B)"
  "key_hash museair_hash_128 54 = (0x40AA1C20A9BFCBC7, 0x70BCDF05DEF8E30E)"
  "key_hash museair_hash_128 55 = (0x87E743C919DCC56A, 0xED0D4F2B4E057273)"
  by (simp_all only: key_hash_eval entry_run run cong: let_weak_cong if_weak_cong)

lemma museair_hash_128_keys_056:
  "key_hash museair_hash_128 56 = (0x6B0126D56A3F25CB, 0x106208C146BAC18F)"
  "key_hash museair_hash_128 57 = (0x2D44445528004211, 0xFC4516F8424E1697)"
  "key_hash museair_hash_128 58 = (0xCCEB14E4F2823F4C, 0x14CF74FD9C00271E)"
  "key_hash museair_hash_128 59 = (0xA1107A6DB60B686F, 0x7A26A3D9A1DF0E77)"
  "key_hash museair_hash_128 60 = (0x93A73FF0B3D738E9, 0x929D8E6F23D1E9E1)"
  "key_hash museair_hash_128 61 = (0xA871F1CD7B133B6D, 0x5CDD5873922B26A8)"
  "key_hash museair_hash_128 62 = (0xE43622DA1C209A7C, 0x2A1505B3AC7CFBCC)"
  "key_hash museair_hash_128 63 = (0x7C4295681DB29FB8, 0xCA27528C43AC3B2D)"
  by (simp_all only: key_hash_eval entry_run run cong: let_weak_cong if_weak_cong)

lemma museair_hash_128_keys_064:
  "key_hash museair_hash_128 64 = (0x1E421F9CFCD6AA10, 0x7076F0C227E9157E)"
  "key_hash museair_hash_128 65 = (0x3672189B7121BA65, 0x73FD5CE90457561A)"
  "key_hash museair_hash_128 66 = (0x985346B7A25F80F1, 0x0A887CB115349440)"
  "key_hash museair_hash_128 67 = (0x15676D50FD7E2F4D, 0x92640DC63BF3E18A)"
  "key_hash museair_hash_128 68 = (0x33A992F3C1F8A80F, 0xC636A32DA7752CAE)"
  "key_hash museair_hash_128 69 = (0x22F8D8B3BCDD8FEA, 0x23594BEA2DB321C3)"
  "key_hash museair_hash_128 70 = (0xF5CC4AB9F2E691F6, 0x1492E0BA494CA4D9)"
  "key_hash museair_hash_128 71 = (0x00B3B38D0ED53CAE, 0x362BC5C3F4466D74)"
  by (simp_all only: key_hash_eval entry_run run cong: let_weak_cong if_weak_cong)

lemma museair_hash_128_keys_072:
  "key_hash museair_hash_128 72 = (0xC368513669FD757C, 0xAB2E3838435DE7C0)"
  "key_hash museair_hash_128 73 = (0xD8B04928DC42A6F5, 0xB28F7B42D3278E2B)"
  "key_hash museair_hash_128 74 = (0x297C1A78C00C9261, 0xD179ED7A19144782)"
  "key_hash museair_hash_128 75 = (0x2594CBCC395FF90F, 0xA5C2B24CF909C3B3)"
  "key_hash museair_hash_128 76 = (0x22E8BBAD3166FE71, 0xF563A468B106E11B)"
  "key_hash museair_hash_128 77 = (0x41157299B277ED09, 0xD94EFC8A446ECC5A)"
  "key_hash museair_hash_128 78 = (0xA528471E2D3E45DA, 0xFE6C46C404F19408)"
  "key_hash museair_hash_128 79 = (0x3FA12B2668696FD9, 0xD2051B8210050ABE)"
  by (simp_all only: key_hash_eval entry_run run cong: let_weak_cong if_weak_cong)

lemma museair_hash_128_keys_080:
  "key_hash museair_hash_128 80 = (0xC742411DAC1F17D0, 0x619BB037BA438855)"
  "key_hash museair_hash_128 81 = (0x01F5A6C145C590F6, 0x81DB8BD0CF3E39E5)"
  "key_hash museair_hash_128 82 = (0x68883F04EF065FF4, 0xF6EA385187712857)"
  "key_hash museair_hash_128 83 = (0x3A112070ABB879C6, 0x7C3C36EFA03B5AFC)"
  "key_hash museair_hash_128 84 = (0x298507CDCE29E428, 0x2FBAEF4238AF501F)"
  "key_hash museair_hash_128 85 = (0x3F061F56A555D7BA, 0xF921878CE88D7A0D)"
  "key_hash museair_hash_128 86 = (0xFE9D11740DD717ED, 0xEAA08CBA2014EB49)"
  "key_hash museair_hash_128 87 = (0xB959A1416BA06978, 0xCABD3F8B71043F41)"
  by (simp_all only: key_hash_eval entry_run run cong: let_weak_cong if_weak_cong)

lemma museair_hash_128_keys_088:
  "key_hash museair_hash_128 88 = (0x17A21BC7EC4C961F, 0xAE617365F83E9048)"
  "key_hash museair_hash_128 89 = (0x812F8ABB8F382E78, 0x29FF07504F94945E)"
  "key_hash museair_hash_128 90 = (0x40FFF8A150464190, 0x6E713E12F4BEC368)"
  "key_hash museair_hash_128 91 = (0x49B020FD7B24AE9E, 0xA84792BD92C74EAE)"
  "key_hash museair_hash_128 92 = (0xFF116978C4C72EC7, 0xE282B8E30560D1DF)"
  "key_hash museair_hash_128 93 = (0xFD632E1FC38F9E2A, 0xE5F71C0D5F306E40)"
  "key_hash museair_hash_128 94 = (0x4789D235AAB6A54F, 0x96EF18BAC6B39D86)"
  "key_hash museair_hash_128 95 = (0x0BD057C0195D74C5, 0xC50118E267ED736D)"
  by (simp_all only: key_hash_eval entry_run run cong: let_weak_cong if_weak_cong)

lemma museair_hash_128_keys_096:
  "key_hash museair_hash_128 96 = (0x21CE1042E93AB1A1, 0x53A0A93785DDDA91)"
  "key_hash museair_hash_128 97 = (0x0A7E4475EDE1B752, 0x2CAA788665473D9E)"
  "key_hash museair_hash_128 98 = (0xD6BFEC2298AD3A6A, 0x8856BBBE6DE67FE9)"
  "key_hash museair_hash_128 99 = (0x219F88C8D34CCD47, 0xBA3F38D75AFB55E8)"
  "key_hash museair_hash_128 100 = (0x98BDD6B519B43189, 0x99B885D82DD74A67)"
  "key_hash museair_hash_128 101 = (0x120796B232696B98, 0x7CD8867FF02B197F)"
  "key_hash museair_hash_128 102 = (0x568CAE2120550651, 0xBF21CE586812DEFB)"
  "key_hash museair_hash_128 103 = (0xEA1389C415D44D6A, 0x5BB2B607152D1E4F)"
  by (simp_all only: key_hash_eval entry_run run cong: let_weak_cong if_weak_cong)

lemma museair_hash_128_keys_104:
  "key_hash museair_hash_128 104 = (0x86FEA3B39E251770, 0x34FBC69DF2F5B959)"
  "key_hash museair_hash_128 105 = (0xB839D3821C61FD39, 0xA51FE9FE6DB6720F)"
  "key_hash museair_hash_128 106 = (0x875496F21DDABCF7, 0x06E2DF28B2AC556E)"
  "key_hash museair_hash_128 107 = (0x571E781856F0C571, 0x7136E129F1D8081D)"
  "key_hash museair_hash_128 108 = (0xF46EA0EDBDCCC298, 0xC92B9395C8CE99E3)"
  "key_hash museair_hash_128 109 = (0x713C1A5BD002B0D0, 0x2CE524BA5331AC15)"
  "key_hash museair_hash_128 110 = (0x2650CDB6AACBBF1E, 0x7253C57F8AD76D70)"
  "key_hash museair_hash_128 111 = (0xE07666235FDFA31C, 0xB7E3625774E0CC85)"
  by (simp_all only: key_hash_eval entry_run run cong: let_weak_cong if_weak_cong)

lemma museair_hash_128_keys_112:
  "key_hash museair_hash_128 112 = (0x035F0BE8C502123D, 0x2FAB91208C4F9C0B)"
  "key_hash museair_hash_128 113 = (0x433F38EDB733C240, 0xD37B1B532954D5F4)"
  "key_hash museair_hash_128 114 = (0xB250FA6345CD83E3, 0x58CF54A363C87556)"
  "key_hash museair_hash_128 115 = (0x1840F5A3E40CC102, 0xF4EC3DCEB71CEA0D)"
  "key_hash museair_hash_128 116 = (0xC771A6BC01BF27DF, 0x93CABE915614FE5E)"
  "key_hash museair_hash_128 117 = (0x7C9DDE39A1860485, 0x54E19B6541C47B1C)"
  "key_hash museair_hash_128 118 = (0xE18CA98A578E0635, 0xA9400B0491D54E5F)"
  "key_hash museair_hash_128 119 = (0x346A50ABE4E0C2BC, 0x70610B9F35B1BB0F)"
  by (simp_all only: key_hash_eval entry_run run cong: let_weak_cong if_weak_cong)

lemma museair_hash_128_keys_120:
  "key_hash museair_hash_128 120 = (0x1271C85A7D04EEB0, 0x70969CD11B547C44)"
  "key_hash museair_hash_128 121 = (0x9AFA0BE20D137332, 0xC02672E8665CEBC8)"
  "key_hash museair_hash_128 122 = (0x5F2054B5250398FA, 0xFB9D23EE147777F0)"
  "key_hash museair_hash_128 123 = (0x4A790F432F592A02, 0x49FE3A0F871BD4C3)"
  "key_hash museair_hash_128 124 = (0xE0273D16850F8C56, 0x2C3857EEFF950203)"
  "key_hash museair_hash_128 125 = (0x82B0A51CD46259C5, 0xE0F199F8FE71780E)"
  "key_hash museair_hash_128 126 = (0xC39812FBCE41F4A8, 0x3901A8A4E3168388)"
  "key_hash museair_hash_128 127 = (0x4AC11DD3BEC18392, 0xA824200785648377)"
  by (simp_all only: key_hash_eval entry_run run cong: let_weak_cong if_weak_cong)

lemma museair_hash_128_keys_128:
  "key_hash museair_hash_128 128 = (0xFBF999AD468B1198, 0x7A9BC9AA06AE5B41)"
  "key_hash museair_hash_128 129 = (0x4CE377B42A12352E, 0x2DF46FFEE74B85BF)"
  "key_hash museair_hash_128 130 = (0x58E854C446A15773, 0x9F98652CE8D10DC8)"
  "key_hash museair_hash_128 131 = (0x724B666BDF062BA8, 0x683509636837CE28)"
  "key_hash museair_hash_128 132 = (0x1ED0C7BCCD579E36, 0xD62742910AC1D8D3)"
  "key_hash museair_hash_128 133 = (0x288AC7D20759E4A1, 0xE8222508768E05F3)"
  "key_hash museair_hash_128 134 = (0xAAAEADF491B93150, 0xBBF62974F465DE46)"
  "key_hash museair_hash_128 135 = (0x53750DD731223343, 0xC9849B57C240A676)"
  by (simp_all only: key_hash_eval entry_run run cong: let_weak_cong if_weak_cong)

lemma museair_hash_128_keys_136:
  "key_hash museair_hash_128 136 = (0x5CE868424F025561, 0x09E51352F7DA4704)"
  "key_hash museair_hash_128 137 = (0x9EC6FE4D2370E48A, 0x2D52242B4AE3E42F)"
  "key_hash museair_hash_128 138 = (0xB824F8BE7C4704A6, 0x9CA37924729FFFF4)"
  "key_hash museair_hash_128 139 = (0xFFA3182659DD5EB3, 0xA89B9B95AC67B82B)"
  "key_hash museair_hash_128 140 = (0x5E2F5ADEA80FB107, 0x0EEA5C29AD7C9C76)"
  "key_hash museair_hash_128 141 = (0xBB6660DAA689C1B6, 0xA97E7F5FBA9741F4)"
  "key_hash museair_hash_128 142 = (0xF4977A90304BA8E0, 0x32C15DF565C8C6C7)"
  "key_hash museair_hash_128 143 = (0xF1A2B573DEC43143, 0x23778F49B1C38BA8)"
  by (simp_all only: key_hash_eval entry_run run cong: let_weak_cong if_weak_cong)

lemma museair_hash_128_keys_144:
  "key_hash museair_hash_128 144 = (0x6B594A9A75E001AD, 0x9567DA2E1F5FD10B)"
  "key_hash museair_hash_128 145 = (0xCC8849CEFECCB03F, 0x2513A8071C0E165D)"
  "key_hash museair_hash_128 146 = (0x3F1A78D6DE8B7745, 0x24C373D6BE4BE0FF)"
  "key_hash museair_hash_128 147 = (0x0B5B202807B938D2, 0x35E44DE7916DE423)"
  "key_hash museair_hash_128 148 = (0xE1BB523FA31859A4, 0x2A3F38312EB8B2A1)"
  "key_hash museair_hash_128 149 = (0x3C761A963AAB792F, 0x02F4B9B139895651)"
  "key_hash museair_hash_128 150 = (0x86A1B39A161EA0E4, 0x586AA85373CFF4E1)"
  "key_hash museair_hash_128 151 = (0x87C91FC7F69C3111, 0x9DD08BC712F80BEB)"
  by (simp_all only: key_hash_eval entry_run run cong: let_weak_cong if_weak_cong)

lemma museair_hash_128_keys_152:
  "key_hash museair_hash_128 152 = (0x497915B0DCBBCF4E, 0xF262D1CA84456815)"
  "key_hash museair_hash_128 153 = (0x33D58B1D5655063E, 0x0E74D8A357597F91)"
  "key_hash museair_hash_128 154 = (0xAC6028CF45C63BD1, 0x2A8494B33E100211)"
  "key_hash museair_hash_128 155 = (0xDF1BE6FA32DADE83, 0x80B2D868234E77B9)"
  "key_hash museair_hash_128 156 = (0xAC5A7DE0BFBF00AA, 0x6F782B865B9D8287)"
  "key_hash museair_hash_128 157 = (0x64F6E56AEBA6A97A, 0x709E9D9F1580A23B)"
  "key_hash museair_hash_128 158 = (0xFE117E4F5088BCF8, 0x138A9A8349C982BA)"
  "key_hash museair_hash_128 159 = (0xC32C00206F5C15C4, 0xFCFC81824B955795)"
  by (simp_all only: key_hash_eval entry_run run cong: let_weak_cong if_weak_cong)

lemma museair_hash_128_keys_160:
  "key_hash museair_hash_128 160 = (0x8486DE86E03FCD6D, 0xBE9788D1B964FE02)"
  "key_hash museair_hash_128 161 = (0x3567B6FE6356476F, 0xCD71E3E50CDC4C52)"
  "key_hash museair_hash_128 162 = (0xACB24D7DA97CA00E, 0x8952E96B309FD8D1)"
  "key_hash museair_hash_128 163 = (0xC704DFF4494764C4, 0x6985F918C5555C28)"
  "key_hash museair_hash_128 164 = (0x97B9FD6D0910A610, 0xEF2A4357E198F508)"
  "key_hash museair_hash_128 165 = (0x8EF182D449FD685F, 0xDC1FB239961F5711)"
  "key_hash museair_hash_128 166 = (0x5488470A772D40EF, 0xE2590BA87F8D463C)"
  "key_hash museair_hash_128 167 = (0x49228A563A4C36F6, 0xA2B837CC22A3D378)"
  by (simp_all only: key_hash_eval entry_run run cong: let_weak_cong if_weak_cong)

lemma museair_hash_128_keys_168:
  "key_hash museair_hash_128 168 = (0xCC909A008FD0296D, 0x16828BCE2122128C)"
  "key_hash museair_hash_128 169 = (0x60C1AAFCD9A9B553, 0x9F076FEC09EE022C)"
  "key_hash museair_hash_128 170 = (0x138431197ACDBBC3, 0xB260CE57C7B40F60)"
  "key_hash museair_hash_128 171 = (0x60C8FBE71ED5321D, 0x9790547FC65E0C40)"
  "key_hash museair_hash_128 172 = (0x99F026316524BF1D, 0x44D1D12B509CCB37)"
  "key_hash museair_hash_128 173 = (0x928BB98392052CB3, 0xF28D9F1B2CF8AFF0)"
  "key_hash museair_hash_128 174 = (0x10C7DF040FE773C3, 0x87EE800FCF88994C)"
  "key_hash museair_hash_128 175 = (0x0EEBFBC54C2585F9, 0xC89EFDE0FC4ADDE5)"
  by (simp_all only: key_hash_eval entry_run run cong: let_weak_cong if_weak_cong)

lemma museair_hash_128_keys_176:
  "key_hash museair_hash_128 176 = (0x7FA13975DA4B3B03, 0x55927026E7C7B0F4)"
  "key_hash museair_hash_128 177 = (0xFA6EEDFAB9666A53, 0x06D3E20CA00E49C0)"
  "key_hash museair_hash_128 178 = (0xFC5FBE2D8903A057, 0x44B5444BEB7AF5B8)"
  "key_hash museair_hash_128 179 = (0xF68D4D763E8EC004, 0x4D49DF527F5BF724)"
  "key_hash museair_hash_128 180 = (0x7DC305FD4C02723A, 0x577286971BE22173)"
  "key_hash museair_hash_128 181 = (0xD0EFEC8651C8C9A0, 0x561E49341E81DFB9)"
  "key_hash museair_hash_128 182 = (0x8699301CCE51209B, 0xCB61AD98A2DB71B9)"
  "key_hash museair_hash_128 183 = (0x646A7D8D79FB6694, 0x80C6620E9DDB580B)"
  by (simp_all only: key_hash_eval entry_run run cong: let_weak_cong if_weak_cong)

lemma museair_hash_128_keys_184:
  "key_hash museair_hash_128 184 = (0x95CB00C105879394, 0x03D102BED5AA82F4)"
  "key_hash museair_hash_128 185 = (0x120B4C277736F08D, 0x3AF3D740C4954770)"
  "key_hash museair_hash_128 186 = (0x2D8D91AE820B7A54, 0x29B103DDBCE3E6B1)"
  "key_hash museair_hash_128 187 = (0xFAE7171588039023, 0x33BBE77292E11E75)"
  "key_hash museair_hash_128 188 = (0xB8D2B00B373AA545, 0xB0444229411C1F73)"
  "key_hash museair_hash_128 189 = (0xC84C01F7D954DED7, 0x692986FFD9A5F222)"
  "key_hash museair_hash_128 190 = (0x798B7BD8AD11F06C, 0xC9076144C061ADC3)"
  "key_hash museair_hash_128 191 = (0xEC1A99BA70465B7F, 0xC75F851C2E417759)"
  by (simp_all only: key_hash_eval entry_run run cong: let_weak_cong if_weak_cong)

lemma museair_hash_128_keys_192:
  "key_hash museair_hash_128 192 = (0xF86591F6604AF086, 0x7CD31BEF37961946)"
  "key_hash museair_hash_128 193 = (0xEBAFDEE42C137D8B, 0x8995A310F0BB81AB)"
  "key_hash museair_hash_128 194 = (0xA276955B73917F86, 0x327CE806EDBCBD55)"
  "key_hash museair_hash_128 195 = (0x176FB974ACF8AA59, 0x0C91C41900938EC2)"
  "key_hash museair_hash_128 196 = (0x463E2EEFB592155A, 0x6DC9BF246B434568)"
  "key_hash museair_hash_128 197 = (0x4E3B8218373941CC, 0x632BC882D22A4B21)"
  "key_hash museair_hash_128 198 = (0x2E5620DDAC9B22B6, 0xCE964F6E85C703DE)"
  "key_hash museair_hash_128 199 = (0xA64F41D2A0DF3A1B, 0xD6EEC792EE0E8E2A)"
  by (simp_all only: key_hash_eval entry_run run cong: let_weak_cong if_weak_cong)

lemma museair_hash_128_keys_200:
  "key_hash museair_hash_128 200 = (0x33C882304BCB1801, 0x5FACFF620ACEBCE7)"
  "key_hash museair_hash_128 201 = (0xDB22623A1B7F1593, 0x821FDBF71BC4AAC6)"
  "key_hash museair_hash_128 202 = (0x95605FDCD6019D4F, 0x52214AB5BFB14AD5)"
  "key_hash museair_hash_128 203 = (0x6CEFD7AB0860B05A, 0xB4A148BB2437F883)"
  "key_hash museair_hash_128 204 = (0x0A8BC96EAAED0098, 0x43E88C17882755FA)"
  "key_hash museair_hash_128 205 = (0xECD5131699A42B39, 0x8F2E914FA2A443FA)"
  "key_hash museair_hash_128 206 = (0xC7347760AA3CC814, 0xB63144E419952C53)"
  "key_hash museair_hash_128 207 = (0x97D04E734ED4F167, 0xE5608FE8F1DA8FE3)"
  by (simp_all only: key_hash_eval entry_run run cong: let_weak_cong if_weak_cong)

lemma museair_hash_128_keys_208:
  "key_hash museair_hash_128 208 = (0xFA5A2618FFF97B82, 0xD16B2C43E20F3B95)"
  "key_hash museair_hash_128 209 = (0xC60AC249F38309DA, 0x11BCC424FD6875E4)"
  "key_hash museair_hash_128 210 = (0x5BC525393998D3A6, 0x2D25F545C63F6967)"
  "key_hash museair_hash_128 211 = (0xFFB6F5909F242CBB, 0x1F47DAA8941A7391)"
  "key_hash museair_hash_128 212 = (0xDDD2FC62C9BD6AE5, 0x1563E8A38C69EDE4)"
  "key_hash museair_hash_128 213 = (0xB4A7F9A9A1FD4B08, 0x56D0647B15115E7D)"
  "key_hash museair_hash_128 214 = (0x8059DC15CFC2B0CD, 0xA092137F72A3FF72)"
  "key_hash museair_hash_128 215 = (0x132B53985B4F40CC, 0x472AE18C62BFE14A)"
  by (simp_all only: key_hash_eval entry_run run cong: let_weak_cong if_weak_cong)

lemma museair_hash_128_keys_216:
  "key_hash museair_hash_128 216 = (0x9AAC263FBEBB9B26, 0x54C6BFC681F26BF4)"
  "key_hash museair_hash_128 217 = (0x9271C5239E5BB300, 0x53FA3583F54C78BF)"
  "key_hash museair_hash_128 218 = (0x5A1336668BA183B0, 0xC2911247C2ED4932)"
  "key_hash museair_hash_128 219 = (0xC198FB2CF0BA4ECC, 0xA8A3551F07175021)"
  "key_hash museair_hash_128 220 = (0x2F67C6BB2576E951, 0xD4AA9CF263936C91)"
  "key_hash museair_hash_128 221 = (0x963D559110644B35, 0xFFC27D2B65539DF1)"
  "key_hash museair_hash_128 222 = (0x396EB81C33D3A69A, 0x73083E48752A030A)"
  "key_hash museair_hash_128 223 = (0x5EAB6401BD39D71D, 0x70874C405147FC48)"
  by (simp_all only: key_hash_eval entry_run run cong: let_weak_cong if_weak_cong)

lemma museair_hash_128_keys_224:
  "key_hash museair_hash_128 224 = (0xBF372291EACEEE2C, 0x8D3399C05E785502)"
  "key_hash museair_hash_128 225 = (0xAFD767DC32CD81FF, 0x038BBBBBA039082B)"
  "key_hash museair_hash_128 226 = (0xE8D971675F32B535, 0x16AE858065FC812E)"
  "key_hash museair_hash_128 227 = (0xC1296855399C314B, 0x5AF43FAF68EFE24C)"
  "key_hash museair_hash_128 228 = (0x602C7344D12021D7, 0xC403592056FC9D3B)"
  "key_hash museair_hash_128 229 = (0x14A565406A566C50, 0xC4D85DD5FB86C41C)"
  "key_hash museair_hash_128 230 = (0xE2A4EA3DBEE2B2BA, 0x3C85D91EAF4D51A7)"
  "key_hash museair_hash_128 231 = (0x3D10B4EA567E8C60, 0x5F2CA99FC85F9C65)"
  by (simp_all only: key_hash_eval entry_run run cong: let_weak_cong if_weak_cong)

lemma museair_hash_128_keys_232:
  "key_hash museair_hash_128 232 = (0xDAAF9E55BDDE654F, 0x22427F50ABA30B71)"
  "key_hash museair_hash_128 233 = (0xF62FD27E9E798E4B, 0x31C056CE9710FEFC)"
  "key_hash museair_hash_128 234 = (0xDC788DF843D0FB76, 0x1F8EA9EE037BF983)"
  "key_hash museair_hash_128 235 = (0x5B1F5BAE90915B1C, 0x2D15F54C3FC7C7C7)"
  "key_hash museair_hash_128 236 = (0x28E999BCB9B37E19, 0xEC9814DC9E2A0CDD)"
  "key_hash museair_hash_128 237 = (0xD695CD225CA24C45, 0xB3F05C042014D348)"
  "key_hash museair_hash_128 238 = (0xA8C331834C23C575, 0xE8B685D508E97146)"
  "key_hash museair_hash_128 239 = (0xD1DBC7C514DBB150, 0x26284AAD75F20975)"
  by (simp_all only: key_hash_eval entry_run run cong: let_weak_cong if_weak_cong)

lemma museair_hash_128_keys_240:
  "key_hash museair_hash_128 240 = (0xF183EAE244E4FFD3, 0x4C63CF50DAD8F942)"
  "key_hash museair_hash_128 241 = (0x1C5D93BDFA38DDB1, 0x9843AF9505E7737E)"
  "key_hash museair_hash_128 242 = (0x3051B0793F503692, 0xC4905472CE54E9C5)"
  "key_hash museair_hash_128 243 = (0x4EEF826F7EC7AFEC, 0x87E972D507865B93)"
  "key_hash museair_hash_128 244 = (0xC22B350C303EE8CC, 0x3E974C352E70B0A5)"
  "key_hash museair_hash_128 245 = (0xA787E0C6226963E1, 0x0282B820E6A8FC22)"
  "key_hash museair_hash_128 246 = (0xDBE9CFA82ACC3134, 0xB0ED998DA14BE422)"
  "key_hash museair_hash_128 247 = (0xDD66BD2CAABC3D28, 0x72D5DF7C62786E29)"
  by (simp_all only: key_hash_eval entry_run run cong: let_weak_cong if_weak_cong)

lemma museair_hash_128_keys_248:
  "key_hash museair_hash_128 248 = (0xA5FB8F22F13F6EA6, 0x74024AE681250A93)"
  "key_hash museair_hash_128 249 = (0xA293CDBD4EFD493E, 0x74DED7059B88338E)"
  "key_hash museair_hash_128 250 = (0x76C6F537FB0ABA8C, 0xC3704ED991E50D05)"
  "key_hash museair_hash_128 251 = (0x26DF837A2EC46066, 0x18F6D76BC6460C54)"
  "key_hash museair_hash_128 252 = (0xB26D63919A58F638, 0xF207B0589E8A02AB)"
  "key_hash museair_hash_128 253 = (0xFDBE43A7636B1EA8, 0x93E5DDA01595CBA0)"
  "key_hash museair_hash_128 254 = (0x25279B5B26059710, 0x8E967BB76E108538)"
  "key_hash museair_hash_128 255 = (0x93C6AFDE8E341526, 0x6940BBA25B59C899)"
  by (simp_all only: key_hash_eval entry_run run cong: let_weak_cong if_weak_cong)

lemmas museair_hash_128_keys =
  museair_hash_128_keys_000 museair_hash_128_keys_008 museair_hash_128_keys_016
  museair_hash_128_keys_024 museair_hash_128_keys_032 museair_hash_128_keys_040
  museair_hash_128_keys_048 museair_hash_128_keys_056 museair_hash_128_keys_064
  museair_hash_128_keys_072 museair_hash_128_keys_080 museair_hash_128_keys_088
  museair_hash_128_keys_096 museair_hash_128_keys_104 museair_hash_128_keys_112
  museair_hash_128_keys_120 museair_hash_128_keys_128 museair_hash_128_keys_136
  museair_hash_128_keys_144 museair_hash_128_keys_152 museair_hash_128_keys_160
  museair_hash_128_keys_168 museair_hash_128_keys_176 museair_hash_128_keys_184
  museair_hash_128_keys_192 museair_hash_128_keys_200 museair_hash_128_keys_208
  museair_hash_128_keys_216 museair_hash_128_keys_224 museair_hash_128_keys_232
  museair_hash_128_keys_240 museair_hash_128_keys_248

lemma museair_bfast_hash_keys_000:
  "key_hash museair_bfast_hash 0 = 0xF1EA5DDC5B0C18CD"
  "key_hash museair_bfast_hash Numeral1 = 0x8764C2E336A6ED03"
  "key_hash museair_bfast_hash 2 = 0xF8EDD6981EF6BE74"
  "key_hash museair_bfast_hash 3 = 0xA114385FE5CDCD6B"
  "key_hash museair_bfast_hash 4 = 0xD816CFC60F49E48C"
  "key_hash museair_bfast_hash 5 = 0x156E295E98C2D48B"
  "key_hash museair_bfast_hash 6 = 0x3F8F34189AA5A28E"
  "key_hash museair_bfast_hash 7 = 0x8700E42BE3EA1295"
  by (simp_all only: key_hash_eval entry_run run cong: let_weak_cong if_weak_cong)

lemma museair_bfast_hash_keys_008:
  "key_hash museair_bfast_hash 8 = 0x2DD3E6A24356ECBD"
  "key_hash museair_bfast_hash 9 = 0x4613DD5B2957F01B"
  "key_hash museair_bfast_hash 10 = 0x74B3FB0BE2A4C533"
  "key_hash museair_bfast_hash 11 = 0xD8CAA73A83C70246"
  "key_hash museair_bfast_hash 12 = 0x93E5A5879093A7D6"
  "key_hash museair_bfast_hash 13 = 0x80DAA12DB96DC9D1"
  "key_hash museair_bfast_hash 14 = 0xC9703B146B2E507B"
  "key_hash museair_bfast_hash 15 = 0x7975868E8E0ABC99"
  by (simp_all only: key_hash_eval entry_run run cong: let_weak_cong if_weak_cong)

lemma museair_bfast_hash_keys_016:
  "key_hash museair_bfast_hash 16 = 0x48391E9198AA1211"
  "key_hash museair_bfast_hash 17 = 0xA66EB3704D1FFE5B"
  "key_hash museair_bfast_hash 18 = 0x672B75F8AC726A22"
  "key_hash museair_bfast_hash 19 = 0x6ED2CBF5972E0480"
  "key_hash museair_bfast_hash 20 = 0x652B36FE4142E69F"
  "key_hash museair_bfast_hash 21 = 0x0E59A7761F56208B"
  "key_hash museair_bfast_hash 22 = 0x925FD88FFF043D91"
  "key_hash museair_bfast_hash 23 = 0x5F6CCEFFECFE94EC"
  by (simp_all only: key_hash_eval entry_run run cong: let_weak_cong if_weak_cong)

lemma museair_bfast_hash_keys_024:
  "key_hash museair_bfast_hash 24 = 0xCD537BFB6721EA0E"
  "key_hash museair_bfast_hash 25 = 0x16E1D1824D85EE51"
  "key_hash museair_bfast_hash 26 = 0xAE699B3FCCB972B7"
  "key_hash museair_bfast_hash 27 = 0x38B145C034598977"
  "key_hash museair_bfast_hash 28 = 0x40E7AE361A2FE154"
  "key_hash museair_bfast_hash 29 = 0x7C11C74C4AC83E45"
  "key_hash museair_bfast_hash 30 = 0x64C9FCFD3B500BC5"
  "key_hash museair_bfast_hash 31 = 0xE65FC2A59284138F"
  by (simp_all only: key_hash_eval entry_run run cong: let_weak_cong if_weak_cong)

lemma museair_bfast_hash_keys_032:
  "key_hash museair_bfast_hash 32 = 0xEDBAD2CB207343FF"
  "key_hash museair_bfast_hash 33 = 0x95A58A65BB7649CD"
  "key_hash museair_bfast_hash 34 = 0x4F5D0EF92520F47C"
  "key_hash museair_bfast_hash 35 = 0x31BA024DF6339FC9"
  "key_hash museair_bfast_hash 36 = 0x9C5CC096CE2BF61F"
  "key_hash museair_bfast_hash 37 = 0x67331185EF33FF34"
  "key_hash museair_bfast_hash 38 = 0xD585895054874969"
  "key_hash museair_bfast_hash 39 = 0xE06B564E9D3C5D52"
  by (simp_all only: key_hash_eval entry_run run cong: let_weak_cong if_weak_cong)

lemma museair_bfast_hash_keys_040:
  "key_hash museair_bfast_hash 40 = 0xC0877220E94675B5"
  "key_hash museair_bfast_hash 41 = 0x7281372546D6D708"
  "key_hash museair_bfast_hash 42 = 0xCA4C3848FE0BDC37"
  "key_hash museair_bfast_hash 43 = 0xA88AA057AE7C99F4"
  "key_hash museair_bfast_hash 44 = 0x72C1434F3EA8B2AE"
  "key_hash museair_bfast_hash 45 = 0xECA684208BD91335"
  "key_hash museair_bfast_hash 46 = 0xCBF005A3D1C0B239"
  "key_hash museair_bfast_hash 47 = 0x5D44F3953EE87CBB"
  by (simp_all only: key_hash_eval entry_run run cong: let_weak_cong if_weak_cong)

lemma museair_bfast_hash_keys_048:
  "key_hash museair_bfast_hash 48 = 0xCCC3D76D838F881A"
  "key_hash museair_bfast_hash 49 = 0x1FE4FE5D88A08097"
  "key_hash museair_bfast_hash 50 = 0x0D7D4E1EEDC16608"
  "key_hash museair_bfast_hash 51 = 0x1C63308136CEE999"
  "key_hash museair_bfast_hash 52 = 0x6F90A16287B310BC"
  "key_hash museair_bfast_hash 53 = 0x84D9F36E6FAE6352"
  "key_hash museair_bfast_hash 54 = 0x4B606F760C36A843"
  "key_hash museair_bfast_hash 55 = 0xAE8CC040A45EC63E"
  by (simp_all only: key_hash_eval entry_run run cong: let_weak_cong if_weak_cong)

lemma museair_bfast_hash_keys_056:
  "key_hash museair_bfast_hash 56 = 0xAF03F66026E471A6"
  "key_hash museair_bfast_hash 57 = 0x97426A0312622080"
  "key_hash museair_bfast_hash 58 = 0x2C7969796AAAA431"
  "key_hash museair_bfast_hash 59 = 0x8D75D07C7DA1E259"
  "key_hash museair_bfast_hash 60 = 0x9101EBF197CA884C"
  "key_hash museair_bfast_hash 61 = 0xEC34389CE02237CD"
  "key_hash museair_bfast_hash 62 = 0xC4C1816516BA6B3E"
  "key_hash museair_bfast_hash 63 = 0x337BCCB8CD0C51FB"
  by (simp_all only: key_hash_eval entry_run run cong: let_weak_cong if_weak_cong)

lemma museair_bfast_hash_keys_064:
  "key_hash museair_bfast_hash 64 = 0xD7863C8F36A59131"
  "key_hash museair_bfast_hash 65 = 0x8C0CD3299B776D5B"
  "key_hash museair_bfast_hash 66 = 0x7CD42C69B262E850"
  "key_hash museair_bfast_hash 67 = 0xD3FA067360D60DBE"
  "key_hash museair_bfast_hash 68 = 0x51EFC2370F80315E"
  "key_hash museair_bfast_hash 69 = 0x3EE86AA0D341C7A0"
  "key_hash museair_bfast_hash 70 = 0x9579D0C2472EB5AD"
  "key_hash museair_bfast_hash 71 = 0xFE8D0349F6083D15"
  by (simp_all only: key_hash_eval entry_run run cong: let_weak_cong if_weak_cong)

lemma museair_bfast_hash_keys_072:
  "key_hash museair_bfast_hash 72 = 0xA9868AFBA931B61A"
  "key_hash museair_bfast_hash 73 = 0xE30FF6BA63F64C58"
  "key_hash museair_bfast_hash 74 = 0x0E03F30DD225391F"
  "key_hash museair_bfast_hash 75 = 0x3F7A57BDE1B35317"
  "key_hash museair_bfast_hash 76 = 0xAC79C0CB8CC615C7"
  "key_hash museair_bfast_hash 77 = 0x99FE96DCA2689690"
  "key_hash museair_bfast_hash 78 = 0xD98C91A807B26762"
  "key_hash museair_bfast_hash 79 = 0xB9FAE6F72D1DE159"
  by (simp_all only: key_hash_eval entry_run run cong: let_weak_cong if_weak_cong)

lemma museair_bfast_hash_keys_080:
  "key_hash museair_bfast_hash 80 = 0x02FCC3120FB7FF59"
  "key_hash museair_bfast_hash 81 = 0xE635783F696FEAE8"
  "key_hash museair_bfast_hash 82 = 0xF1336F8470DB2A17"
  "key_hash museair_bfast_hash 83 = 0x2EB47F5003AEBBEE"
  "key_hash museair_bfast_hash 84 = 0xEE076230341D01A3"
  "key_hash museair_bfast_hash 85 = 0x582AE462C4F791F6"
  "key_hash museair_bfast_hash 86 = 0x2C756D90B8E389AE"
  "key_hash museair_bfast_hash 87 = 0x6809AE2512BD868C"
  by (simp_all only: key_hash_eval entry_run run cong: let_weak_cong if_weak_cong)

lemma museair_bfast_hash_keys_088:
  "key_hash museair_bfast_hash 88 = 0x8BAD0B1FEEEA32D2"
  "key_hash museair_bfast_hash 89 = 0x85365E6B5C30C39C"
  "key_hash museair_bfast_hash 90 = 0xC8373415C21B99DA"
  "key_hash museair_bfast_hash 91 = 0x2C9AEB6B26140F9E"
  "key_hash museair_bfast_hash 92 = 0x1F19FF988960E90C"
  "key_hash museair_bfast_hash 93 = 0x364DD631ECE2CF75"
  "key_hash museair_bfast_hash 94 = 0x613C327993F51DC3"
  "key_hash museair_bfast_hash 95 = 0x9437773E5B4CB0E3"
  by (simp_all only: key_hash_eval entry_run run cong: let_weak_cong if_weak_cong)

lemma museair_bfast_hash_keys_096:
  "key_hash museair_bfast_hash 96 = 0x56B5CC2FA8788F34"
  "key_hash museair_bfast_hash 97 = 0x94FE125D8AB0282F"
  "key_hash museair_bfast_hash 98 = 0xD4DCB7662B13EE73"
  "key_hash museair_bfast_hash 99 = 0xB1F60C792A9134F0"
  "key_hash museair_bfast_hash 100 = 0xBC341A150EB6BB7A"
  "key_hash museair_bfast_hash 101 = 0x575195AB5A4B28F9"
  "key_hash museair_bfast_hash 102 = 0x1B09EB9C7A977DEC"
  "key_hash museair_bfast_hash 103 = 0x2B364E4B9AD7BC97"
  by (simp_all only: key_hash_eval entry_run run cong: let_weak_cong if_weak_cong)

lemma museair_bfast_hash_keys_104:
  "key_hash museair_bfast_hash 104 = 0x6E441E19D9B4E39C"
  "key_hash museair_bfast_hash 105 = 0xD7F732C4F6A75996"
  "key_hash museair_bfast_hash 106 = 0xE308F1FE0434761D"
  "key_hash museair_bfast_hash 107 = 0xCDE902D18844C23A"
  "key_hash museair_bfast_hash 108 = 0x5D0EFCACBDC16051"
  "key_hash museair_bfast_hash 109 = 0xA5C370AE3F21D406"
  "key_hash museair_bfast_hash 110 = 0xFDBDE84543588612"
  "key_hash museair_bfast_hash 111 = 0x6A8033665E4B28B3"
  by (simp_all only: key_hash_eval entry_run run cong: let_weak_cong if_weak_cong)

lemma museair_bfast_hash_keys_112:
  "key_hash museair_bfast_hash 112 = 0xEE837984677F4BA4"
  "key_hash museair_bfast_hash 113 = 0x60649D4077228306"
  "key_hash museair_bfast_hash 114 = 0x82757BF755881384"
  "key_hash museair_bfast_hash 115 = 0x4D66534FFC8A0A50"
  "key_hash museair_bfast_hash 116 = 0x249C60BAF3CBEA48"
  "key_hash museair_bfast_hash 117 = 0x116E106F1B7EBAD9"
  "key_hash museair_bfast_hash 118 = 0x97F058EFFD6BFBE0"
  "key_hash museair_bfast_hash 119 = 0x76792A571A1C4FE7"
  by (simp_all only: key_hash_eval entry_run run cong: let_weak_cong if_weak_cong)

lemma museair_bfast_hash_keys_120:
  "key_hash museair_bfast_hash 120 = 0x2F95475DF366F00E"
  "key_hash museair_bfast_hash 121 = 0xD61AF04390AA1CE8"
  "key_hash museair_bfast_hash 122 = 0x552EF047B3110BE4"
  "key_hash museair_bfast_hash 123 = 0x35CF9492AC947CD8"
  "key_hash museair_bfast_hash 124 = 0xD5AFA5A795B27408"
  "key_hash museair_bfast_hash 125 = 0xE67356EF5A3831F5"
  "key_hash museair_bfast_hash 126 = 0xA2BE13674F49DEDD"
  "key_hash museair_bfast_hash 127 = 0x6927EEAD807F4CA7"
  by (simp_all only: key_hash_eval entry_run run cong: let_weak_cong if_weak_cong)

lemma museair_bfast_hash_keys_128:
  "key_hash museair_bfast_hash 128 = 0x8E2FDAD68A267221"
  "key_hash museair_bfast_hash 129 = 0xED9509BD55FDAE6B"
  "key_hash museair_bfast_hash 130 = 0xFF6972253B9B799D"
  "key_hash museair_bfast_hash 131 = 0xA8F7A4676F38BD2F"
  "key_hash museair_bfast_hash 132 = 0x61BBD053A459DF87"
  "key_hash museair_bfast_hash 133 = 0x67D9DB41AACA1329"
  "key_hash museair_bfast_hash 134 = 0x1130DCFA0A6BF77A"
  "key_hash museair_bfast_hash 135 = 0xD1E000EC92B558D9"
  by (simp_all only: key_hash_eval entry_run run cong: let_weak_cong if_weak_cong)

lemma museair_bfast_hash_keys_136:
  "key_hash museair_bfast_hash 136 = 0x736ED4FA4C1E62BC"
  "key_hash museair_bfast_hash 137 = 0x8520287977A1AE3F"
  "key_hash museair_bfast_hash 138 = 0x9D69D1D62167BBC7"
  "key_hash museair_bfast_hash 139 = 0x0E4CB101E2323437"
  "key_hash museair_bfast_hash 140 = 0x1CB4B1DE77D41AC7"
  "key_hash museair_bfast_hash 141 = 0xE5F37F156CA348D0"
  "key_hash museair_bfast_hash 142 = 0xE795C9453DF872FD"
  "key_hash museair_bfast_hash 143 = 0x9D8331D60E736C14"
  by (simp_all only: key_hash_eval entry_run run cong: let_weak_cong if_weak_cong)

lemma museair_bfast_hash_keys_144:
  "key_hash museair_bfast_hash 144 = 0x59D75281D40F3E0C"
  "key_hash museair_bfast_hash 145 = 0xC10101B8B3AFF1D9"
  "key_hash museair_bfast_hash 146 = 0xDA5B7A5E6C4DBC3A"
  "key_hash museair_bfast_hash 147 = 0xD5F822FAEA67934C"
  "key_hash museair_bfast_hash 148 = 0x8A7576990EE16FF2"
  "key_hash museair_bfast_hash 149 = 0x87FA3043169EC01B"
  "key_hash museair_bfast_hash 150 = 0x40A2CA39F2E3BC1A"
  "key_hash museair_bfast_hash 151 = 0x927522E9B9367E31"
  by (simp_all only: key_hash_eval entry_run run cong: let_weak_cong if_weak_cong)

lemma museair_bfast_hash_keys_152:
  "key_hash museair_bfast_hash 152 = 0x27F1649B6AF2ECC0"
  "key_hash museair_bfast_hash 153 = 0xAED33DDB2CB6DCFB"
  "key_hash museair_bfast_hash 154 = 0xE9389759B0702D9A"
  "key_hash museair_bfast_hash 155 = 0x4712381D5AB3D0F2"
  "key_hash museair_bfast_hash 156 = 0xE4CEE9F887E98A85"
  "key_hash museair_bfast_hash 157 = 0x422388029510E7D1"
  "key_hash museair_bfast_hash 158 = 0x51A6982081EBEC0C"
  "key_hash museair_bfast_hash 159 = 0x612F48FF2C32A186"
  by (simp_all only: key_hash_eval entry_run run cong: let_weak_cong if_weak_cong)

lemma museair_bfast_hash_keys_160:
  "key_hash museair_bfast_hash 160 = 0x90F1C37F6A66D91B"
  "key_hash museair_bfast_hash 161 = 0xF864C4C32A09BD9B"
  "key_hash museair_bfast_hash 162 = 0x92938AB7F565BB5C"
  "key_hash museair_bfast_hash 163 = 0xCA0806D90A47520E"
  "key_hash museair_bfast_hash 164 = 0x09CD3FA2EC216F0E"
  "key_hash museair_bfast_hash 165 = 0xAC53659A8EA26639"
  "key_hash museair_bfast_hash 166 = 0x3350C0472306AE84"
  "key_hash museair_bfast_hash 167 = 0xAC69007F30C2E6ED"
  by (simp_all only: key_hash_eval entry_run run cong: let_weak_cong if_weak_cong)

lemma museair_bfast_hash_keys_168:
  "key_hash museair_bfast_hash 168 = 0xC66042E24D99B077"
  "key_hash museair_bfast_hash 169 = 0x63B3CF276B6C8AC3"
  "key_hash museair_bfast_hash 170 = 0x2F834189A8EB3452"
  "key_hash museair_bfast_hash 171 = 0x9A0D8A6BA4EF20DC"
  "key_hash museair_bfast_hash 172 = 0xDB098F73385B7BC4"
  "key_hash museair_bfast_hash 173 = 0x1FB19A923C4169DE"
  "key_hash museair_bfast_hash 174 = 0xD3736768BE4AC6D4"
  "key_hash museair_bfast_hash 175 = 0xDE1836D34F003B78"
  by (simp_all only: key_hash_eval entry_run run cong: let_weak_cong if_weak_cong)

lemma museair_bfast_hash_keys_176:
  "key_hash museair_bfast_hash 176 = 0x78AB55F1A33CF17F"
  "key_hash museair_bfast_hash 177 = 0xC3DC9D9B18807D12"
  "key_hash museair_bfast_hash 178 = 0xED0F1CBE0D57A53D"
  "key_hash museair_bfast_hash 179 = 0x63B0E26AC7BDA625"
  "key_hash museair_bfast_hash 180 = 0xE165B467FF00DEBB"
  "key_hash museair_bfast_hash 181 = 0x9C38015622B1314C"
  "key_hash museair_bfast_hash 182 = 0x1E4469D53710F896"
  "key_hash museair_bfast_hash 183 = 0xBE60F19D52D624B7"
  by (simp_all only: key_hash_eval entry_run run cong: let_weak_cong if_weak_cong)

lemma museair_bfast_hash_keys_184:
  "key_hash museair_bfast_hash 184 = 0x3F8E25A036849BC0"
  "key_hash museair_bfast_hash 185 = 0xCBD9523CA7F338EB"
  "key_hash museair_bfast_hash 186 = 0x09F8DDC7835F31A9"
  "key_hash museair_bfast_hash 187 = 0xDF4892E77A8C31B2"
  "key_hash museair_bfast_hash 188 = 0x6E07063C22BABC15"
  "key_hash museair_bfast_hash 189 = 0x006404BF33168D38"
  "key_hash museair_bfast_hash 190 = 0xCCEABA6C77ACE151"
  "key_hash museair_bfast_hash 191 = 0xE5E7193637F2F200"
  by (simp_all only: key_hash_eval entry_run run cong: let_weak_cong if_weak_cong)

lemma museair_bfast_hash_keys_192:
  "key_hash museair_bfast_hash 192 = 0xFDBAA9CC97F5CED1"
  "key_hash museair_bfast_hash 193 = 0x3DB982809F99CAF0"
  "key_hash museair_bfast_hash 194 = 0xD343EBF3FA5FFCB3"
  "key_hash museair_bfast_hash 195 = 0xCA04D2748FD8AD65"
  "key_hash museair_bfast_hash 196 = 0x097BE0423256EDD8"
  "key_hash museair_bfast_hash 197 = 0xE29D441A40FE4E66"
  "key_hash museair_bfast_hash 198 = 0xDC2773677D8892A1"
  "key_hash museair_bfast_hash 199 = 0x9976E91F76FB3377"
  by (simp_all only: key_hash_eval entry_run run cong: let_weak_cong if_weak_cong)

lemma museair_bfast_hash_keys_200:
  "key_hash museair_bfast_hash 200 = 0xB77115C7A810A379"
  "key_hash museair_bfast_hash 201 = 0x6CBFB4BF1B27D64C"
  "key_hash museair_bfast_hash 202 = 0x05422FBA61AA5373"
  "key_hash museair_bfast_hash 203 = 0x599244913D878FF5"
  "key_hash museair_bfast_hash 204 = 0x717979C62ACB7BBB"
  "key_hash museair_bfast_hash 205 = 0x69E1A6E9821B9CB4"
  "key_hash museair_bfast_hash 206 = 0x1AFB82F938C79E84"
  "key_hash museair_bfast_hash 207 = 0xD252EC089028C8E8"
  by (simp_all only: key_hash_eval entry_run run cong: let_weak_cong if_weak_cong)

lemma museair_bfast_hash_keys_208:
  "key_hash museair_bfast_hash 208 = 0xC0AD7138819562DB"
  "key_hash museair_bfast_hash 209 = 0x4815671300261681"
  "key_hash museair_bfast_hash 210 = 0x184496CD4914CCFB"
  "key_hash museair_bfast_hash 211 = 0xEB493B78BBEDC9DF"
  "key_hash museair_bfast_hash 212 = 0xA302BD3EDF182E8C"
  "key_hash museair_bfast_hash 213 = 0x17AB33B1CEC8AF50"
  "key_hash museair_bfast_hash 214 = 0x2F7110B346755EFD"
  "key_hash museair_bfast_hash 215 = 0x1E7CE0B4DE35A748"
  by (simp_all only: key_hash_eval entry_run run cong: let_weak_cong if_weak_cong)

lemma museair_bfast_hash_keys_216:
  "key_hash museair_bfast_hash 216 = 0xADC6410C3B9B553C"
  "key_hash museair_bfast_hash 217 = 0x2468D482F252D313"
  "key_hash museair_bfast_hash 218 = 0x462A53389205C05B"
  "key_hash museair_bfast_hash 219 = 0xC65430A1E187C07C"
  "key_hash museair_bfast_hash 220 = 0xACCF3B78FF420F72"
  "key_hash museair_bfast_hash 221 = 0xC35BBA6991EC921D"
  "key_hash museair_bfast_hash 222 = 0x9B9C1CF4F08E1E05"
  "key_hash museair_bfast_hash 223 = 0xC2FE8AB7984FEC25"
  by (simp_all only: key_hash_eval entry_run run cong: let_weak_cong if_weak_cong)

lemma museair_bfast_hash_keys_224:
  "key_hash museair_bfast_hash 224 = 0xFB9D11B6BBCC3A19"
  "key_hash museair_bfast_hash 225 = 0x10DD1200B1F3395A"
  "key_hash museair_bfast_hash 226 = 0x06F1C95EE4B81E92"
  "key_hash museair_bfast_hash 227 = 0xBE601FA08EBA28E9"
  "key_hash museair_bfast_hash 228 = 0xA212B84786D866B4"
  "key_hash museair_bfast_hash 229 = 0x2BD733F9B2812BE0"
  "key_hash museair_bfast_hash 230 = 0x6B35FF683C91B250"
  "key_hash museair_bfast_hash 231 = 0xF2CB5603F7E1407B"
  by (simp_all only: key_hash_eval entry_run run cong: let_weak_cong if_weak_cong)

lemma museair_bfast_hash_keys_232:
  "key_hash museair_bfast_hash 232 = 0xBEB312FE25320395"
  "key_hash museair_bfast_hash 233 = 0xA685707365BB7A5F"
  "key_hash museair_bfast_hash 234 = 0x6515D8B4A5A1A07F"
  "key_hash museair_bfast_hash 235 = 0x4F5A06BE7A38CC11"
  "key_hash museair_bfast_hash 236 = 0x55BC2C8C60F1874B"
  "key_hash museair_bfast_hash 237 = 0x0AB56D841990DBC0"
  "key_hash museair_bfast_hash 238 = 0x01A78AD295E6C244"
  "key_hash museair_bfast_hash 239 = 0x4AB07CC761E87EA2"
  by (simp_all only: key_hash_eval entry_run run cong: let_weak_cong if_weak_cong)

lemma museair_bfast_hash_keys_240:
  "key_hash museair_bfast_hash 240 = 0xBF506102106F2A93"
  "key_hash museair_bfast_hash 241 = 0x62119F02DD4C7CCA"
  "key_hash museair_bfast_hash 242 = 0x3C8FA47515F3709C"
  "key_hash museair_bfast_hash 243 = 0xAD8CE5DC9A4B1116"
  "key_hash museair_bfast_hash 244 = 0x7A8DF9788F4BEE97"
  "key_hash museair_bfast_hash 245 = 0xC6F1C35CBBD056D4"
  "key_hash museair_bfast_hash 246 = 0xC6AD235613AC0652"
  "key_hash museair_bfast_hash 247 = 0x3AC1C304A2ACC590"
  by (simp_all only: key_hash_eval entry_run run cong: let_weak_cong if_weak_cong)

lemma museair_bfast_hash_keys_248:
  "key_hash museair_bfast_hash 248 = 0xD009EC96683C42BE"
  "key_hash museair_bfast_hash 249 = 0x43718E91538F8F2D"
  "key_hash museair_bfast_hash 250 = 0x621290FF86B2F60F"
  "key_hash museair_bfast_hash 251 = 0xEA36D897E1BE65FC"
  "key_hash museair_bfast_hash 252 = 0xE8E19318703B4BE0"
  "key_hash museair_bfast_hash 253 = 0xD2799DB63D8EF1FF"
  "key_hash museair_bfast_hash 254 = 0xF5D44AEA075250DE"
  "key_hash museair_bfast_hash 255 = 0xD7ED7C8174C9DF56"
  by (simp_all only: key_hash_eval entry_run run cong: let_weak_cong if_weak_cong)

lemmas museair_bfast_hash_keys =
  museair_bfast_hash_keys_000 museair_bfast_hash_keys_008 museair_bfast_hash_keys_016
  museair_bfast_hash_keys_024 museair_bfast_hash_keys_032 museair_bfast_hash_keys_040
  museair_bfast_hash_keys_048 museair_bfast_hash_keys_056 museair_bfast_hash_keys_064
  museair_bfast_hash_keys_072 museair_bfast_hash_keys_080 museair_bfast_hash_keys_088
  museair_bfast_hash_keys_096 museair_bfast_hash_keys_104 museair_bfast_hash_keys_112
  museair_bfast_hash_keys_120 museair_bfast_hash_keys_128 museair_bfast_hash_keys_136
  museair_bfast_hash_keys_144 museair_bfast_hash_keys_152 museair_bfast_hash_keys_160
  museair_bfast_hash_keys_168 museair_bfast_hash_keys_176 museair_bfast_hash_keys_184
  museair_bfast_hash_keys_192 museair_bfast_hash_keys_200 museair_bfast_hash_keys_208
  museair_bfast_hash_keys_216 museair_bfast_hash_keys_224 museair_bfast_hash_keys_232
  museair_bfast_hash_keys_240 museair_bfast_hash_keys_248

lemma museair_bfast_hash_128_keys_000:
  "key_hash museair_bfast_hash_128 0 = (0x965A856B93A67B80, 0x63AC0E09E90A2CF1)"
  "key_hash museair_bfast_hash_128 Numeral1 = (0x9C1142FF7AA74EA9, 0x19531F19D72B8ADE)"
  "key_hash museair_bfast_hash_128 2 = (0x10343B835F859FB0, 0x826EE7150398062C)"
  "key_hash museair_bfast_hash_128 3 = (0xDCD9AB9DD19AB1B1, 0x4D72D069E9B7B0CD)"
  "key_hash museair_bfast_hash_128 4 = (0xE4AFDF9BE6CE320A, 0xEF716F29471D89A5)"
  "key_hash museair_bfast_hash_128 5 = (0x54E696E9DB9F0879, 0x6F26F9DA7B2F1399)"
  "key_hash museair_bfast_hash_128 6 = (0xE6404CD06003145F, 0x426745865AF66AA3)"
  "key_hash museair_bfast_hash_128 7 = (0xEA40AB1940E0B818, 0x418D137082B05745)"
  by (simp_all only: key_hash_eval entry_run run cong: let_weak_cong if_weak_cong)

lemma museair_bfast_hash_128_keys_008:
  "key_hash museair_bfast_hash_128 8 = (0xE6BFA6A137240932, 0x90D27C46CA7DFED3)"
  "key_hash museair_bfast_hash_128 9 = (0x9EEE421DD10FA3BB, 0xE9FF71D520A179F2)"
  "key_hash museair_bfast_hash_128 10 = (0xDD347052B5EFD6B9, 0x67B9ABA570A20E5A)"
  "key_hash museair_bfast_hash_128 11 = (0x71BA63DDAAB75C53, 0xDCF7B8A2E4BF1280)"
  "key_hash museair_bfast_hash_128 12 = (0x1D16AF4D01F2E546, 0x5A924D39E0C7895F)"
  "key_hash museair_bfast_hash_128 13 = (0x8BDC835D230470C3, 0x771A6789D6D8F6A9)"
  "key_hash museair_bfast_hash_128 14 = (0xD6914BA531A9BE7F, 0xDBA2CFF4891E0463)"
  "key_hash museair_bfast_hash_128 15 = (0xC848FBFB521779FA, 0xB872F214B6B85F1A)"
  by (simp_all only: key_hash_eval entry_run run cong: let_weak_cong if_weak_cong)

lemma museair_bfast_hash_128_keys_016:
  "key_hash museair_bfast_hash_128 16 = (0x958D523B80239F98, 0xEEA0CD299377CB9F)"
  "key_hash museair_bfast_hash_128 17 = (0xC66300F874236A79, 0xD9FF28A551C0EFDA)"
  "key_hash museair_bfast_hash_128 18 = (0x5504D6D5639E6D81, 0xABD29F223C93F85D)"
  "key_hash museair_bfast_hash_128 19 = (0xEC21FF8E5BDB5C85, 0x7EEDEF8A3F0AA7C3)"
  "key_hash museair_bfast_hash_128 20 = (0x19C486B1CDC1BFE3, 0x56314F31541D669A)"
  "key_hash museair_bfast_hash_128 21 = (0xF42D934766D58042, 0x0586EBFEBD7E5A2B)"
  "key_hash museair_bfast_hash_128 22 = (0xC7FEB2B93CA54809, 0xAAB6BDB720568B7C)"
  "key_hash museair_bfast_hash_128 23 = (0x8340BCEA02AAF2F8, 0x25D59592A9AB3A32)"
  by (simp_all only: key_hash_eval entry_run run cong: let_weak_cong if_weak_cong)

lemma museair_bfast_hash_128_keys_024:
  "key_hash museair_bfast_hash_128 24 = (0x1A9AF249CCA9B39B, 0x5437764D9877826B)"
  "key_hash museair_bfast_hash_128 25 = (0x920276BB12A61202, 0x33205A35845E006F)"
  "key_hash museair_bfast_hash_128 26 = (0x7A8332C4CB4937A2, 0x2835721EB81BAEB9)"
  "key_hash museair_bfast_hash_128 27 = (0x8226E9FF8E5E085D, 0x45684BDFDBBA7132)"
  "key_hash museair_bfast_hash_128 28 = (0x04A90B8D674C3F64, 0xB5B05BA78ADE3ECC)"
  "key_hash museair_bfast_hash_128 29 = (0xAF8A80CA2827D2A3, 0xDFF8C9B99F10007A)"
  "key_hash museair_bfast_hash_128 30 = (0xDB896CDBFFA66161, 0x84D4EBC77B86353A)"
  "key_hash museair_bfast_hash_128 31 = (0x8C6297AE34108EDB, 0x05326AB8506B7A16)"
  by (simp_all only: key_hash_eval entry_run run cong: let_weak_cong if_weak_cong)

lemma museair_bfast_hash_128_keys_032:
  "key_hash museair_bfast_hash_128 32 = (0x3FEE4037F1CF2B5A, 0x3DAB6DE22E5BD8C5)"
  "key_hash museair_bfast_hash_128 33 = (0x0B8380EAD7DA5948, 0x6BFAF7709343FEE9)"
  "key_hash museair_bfast_hash_128 34 = (0x18F753CACD406C65, 0xB445A0D397DF6717)"
  "key_hash museair_bfast_hash_128 35 = (0xD80E4C59ECA3B59F, 0x1943B1E9E569AD4A)"
  "key_hash museair_bfast_hash_128 36 = (0x1CEACFE15F0E8A21, 0xFD498F2802DD827E)"
  "key_hash museair_bfast_hash_128 37 = (0xD2863B321879F37D, 0xC7CBE43CA4CA2ED7)"
  "key_hash museair_bfast_hash_128 38 = (0x9817C726434BF437, 0xBD75718CF86AA2AC)"
  "key_hash museair_bfast_hash_128 39 = (0x63DCB5200E2F5924, 0x42888CF1D560CDB6)"
  by (simp_all only: key_hash_eval entry_run run cong: let_weak_cong if_weak_cong)

lemma museair_bfast_hash_128_keys_040:
  "key_hash museair_bfast_hash_128 40 = (0xE11C87E0AB7770B5, 0xB6640A47BEBEEAFC)"
  "key_hash museair_bfast_hash_128 41 = (0x412727276F3923B3, 0xC4B8FA65D6018745)"
  "key_hash museair_bfast_hash_128 42 = (0xA4D3EE6E7B7FFB92, 0x555868D29D5CD41B)"
  "key_hash museair_bfast_hash_128 43 = (0xF73DAC9D9058AD6E, 0x80A8C93619DBF484)"
  "key_hash museair_bfast_hash_128 44 = (0xBB20A0B677C51E9A, 0x4E7E5286B7B2D0D4)"
  "key_hash museair_bfast_hash_128 45 = (0x1229F82ACEBEDF3C, 0x307005555AC85015)"
  "key_hash museair_bfast_hash_128 46 = (0x3E3D781E1B355D43, 0x8DFD70B6150A0098)"
  "key_hash museair_bfast_hash_128 47 = (0x7590B239EF30F1E3, 0xDBAA78232CA1B2A0)"
  by (simp_all only: key_hash_eval entry_run run cong: let_weak_cong if_weak_cong)

lemma museair_bfast_hash_128_keys_048:
  "key_hash museair_bfast_hash_128 48 = (0x0B14D1202A14BAFA, 0x73452B72160AC12E)"
  "key_hash museair_bfast_hash_128 49 = (0x7F39E470ED794142, 0x2013E56A5B263F29)"
  "key_hash museair_bfast_hash_128 50 = (0x1D92A6FCAB4752DB, 0xEF2453159900EACD)"
  "key_hash museair_bfast_hash_128 51 = (0x0AB50E041FA885F5, 0xD91E016356849BD2)"
  "key_hash museair_bfast_hash_128 52 = (0xB164D5056BD50898, 0x3F2BB7141361FC1A)"
  "key_hash museair_bfast_hash_128 53 = (0xC58821CA05C11F36, 0x589E2DDCD3E2358A)"
  "key_hash museair_bfast_hash_128 54 = (0xA60E41CA208801C5, 0x760946C3D4C2DE7E)"
  "key_hash museair_bfast_hash_128 55 = (0x0602FE8975B0D481, 0x2BB1BE062E906163)"
  by (simp_all only: key_hash_eval entry_run run cong: let_weak_cong if_weak_cong)

lemma museair_bfast_hash_128_keys_056:
  "key_hash museair_bfast_hash_128 56 = (0x297E9B6AF334295B, 0x64145AD5082B958F)"
  "key_hash museair_bfast_hash_128 57 = (0x917D1822E02BA814, 0x31A1A9E787864F8A)"
  "key_hash museair_bfast_hash_128 58 = (0x3E857E1572908D0B, 0x6E03EB1B34D09584)"
  "key_hash museair_bfast_hash_128 59 = (0xB430881A11057960, 0xD6C54610AB6EB6D3)"
  "key_hash museair_bfast_hash_128 60 = (0xD9AA6183B6FF3ADD, 0xA89773A91D424DEB)"
  "key_hash museair_bfast_hash_128 61 = (0x82004DD5342206AF, 0xD1CC42966BFCCE3C)"
  "key_hash museair_bfast_hash_128 62 = (0x6FE13537F0F2DB6F, 0x9CA389A50DB34757)"
  "key_hash museair_bfast_hash_128 63 = (0xB6338539AA8E9CDE, 0x7AA7BA0E98683E15)"
  by (simp_all only: key_hash_eval entry_run run cong: let_weak_cong if_weak_cong)

lemma museair_bfast_hash_128_keys_064:
  "key_hash museair_bfast_hash_128 64 = (0x0BF5E4E032E51AAF, 0x3265410EF73FE402)"
  "key_hash museair_bfast_hash_128 65 = (0x5E8EBAA0D5581831, 0xEAF9987C32D08810)"
  "key_hash museair_bfast_hash_128 66 = (0x4D6C1C397F143AFB, 0x387FC3AD334EE549)"
  "key_hash museair_bfast_hash_128 67 = (0x71172923D8E347D4, 0x1E56914B862AB5EA)"
  "key_hash museair_bfast_hash_128 68 = (0xBC9DA19EFCE59CDF, 0x0E9198C70065527F)"
  "key_hash museair_bfast_hash_128 69 = (0xBC2C898B22A40BF8, 0x7BB5D4675A9973A6)"
  "key_hash museair_bfast_hash_128 70 = (0xC57EC022B6EC0E89, 0xC5FCBF60037D6CDA)"
  "key_hash museair_bfast_hash_128 71 = (0x2BD7B23BFFD516E8, 0xAAA77EB5DDCDA121)"
  by (simp_all only: key_hash_eval entry_run run cong: let_weak_cong if_weak_cong)

lemma museair_bfast_hash_128_keys_072:
  "key_hash museair_bfast_hash_128 72 = (0xBA4CB5EA9256C60D, 0x44FC0299C4DA8FED)"
  "key_hash museair_bfast_hash_128 73 = (0xAC114308CACC7B84, 0x2FA1AA0FD2C95DE0)"
  "key_hash museair_bfast_hash_128 74 = (0xD2825B54BEDBFA23, 0x23665606EC877DBC)"
  "key_hash museair_bfast_hash_128 75 = (0x92967DACCED983E0, 0xEF33DDE1EB9ABBC7)"
  "key_hash museair_bfast_hash_128 76 = (0x21542D90B0C510DB, 0xFE330AAF17FC916C)"
  "key_hash museair_bfast_hash_128 77 = (0x1CC846124F35F1F6, 0x6ACAEFB116B8A598)"
  "key_hash museair_bfast_hash_128 78 = (0x5D32916336BDE762, 0x88477C38CEF4621E)"
  "key_hash museair_bfast_hash_128 79 = (0x85A14B05C1598B29, 0x5F6562D44BB2B58E)"
  by (simp_all only: key_hash_eval entry_run run cong: let_weak_cong if_weak_cong)

lemma museair_bfast_hash_128_keys_080:
  "key_hash museair_bfast_hash_128 80 = (0x417DFA6141BBBCA9, 0x7D86F77CBD705F04)"
  "key_hash museair_bfast_hash_128 81 = (0xF96ACA0F2D40B7EE, 0x90B049D399A70682)"
  "key_hash museair_bfast_hash_128 82 = (0x49DF438EFB21F1D3, 0x9303C23178432436)"
  "key_hash museair_bfast_hash_128 83 = (0x222B7EE6414E1C0C, 0xA5F6FE69BD1F27C4)"
  "key_hash museair_bfast_hash_128 84 = (0xE3B787008F4A3E44, 0xF24C16EB4B693C0F)"
  "key_hash museair_bfast_hash_128 85 = (0xEA3C5765A0BD58B2, 0x1DFE8CCF9BB237B4)"
  "key_hash museair_bfast_hash_128 86 = (0xC9146340D33EDB8C, 0x369E4EB113022D4A)"
  "key_hash museair_bfast_hash_128 87 = (0xA4A4F5ACAE0323E6, 0x7B44275E46399A96)"
  by (simp_all only: key_hash_eval entry_run run cong: let_weak_cong if_weak_cong)

lemma museair_bfast_hash_128_keys_088:
  "key_hash museair_bfast_hash_128 88 = (0x4E483BE033CF180C, 0x3A42F44F28DBB130)"
  "key_hash museair_bfast_hash_128 89 = (0x359302EE51D90510, 0x46578FDE0A4A3970)"
  "key_hash museair_bfast_hash_128 90 = (0xA914A6FFC52360C9, 0x9EEC7A10BF3716E9)"
  "key_hash museair_bfast_hash_128 91 = (0x87483DF06C50D834, 0x872529EB362C3454)"
  "key_hash museair_bfast_hash_128 92 = (0xC2F0790F346ADE27, 0xBA7549C68ED43647)"
  "key_hash museair_bfast_hash_128 93 = (0xF507A85FBC6FBBEA, 0x34D1B9F97CB3CDA7)"
  "key_hash museair_bfast_hash_128 94 = (0xA9B9E02E93768D2C, 0xB51A2DAFC0F5507F)"
  "key_hash museair_bfast_hash_128 95 = (0xDE29A9CC99FA4942, 0xB0E1E88C89CB8F9B)"
  by (simp_all only: key_hash_eval entry_run run cong: let_weak_cong if_weak_cong)

lemma museair_bfast_hash_128_keys_096:
  "key_hash museair_bfast_hash_128 96 = (0x40A40411AE9E5DBE, 0x83AA50DDF9612D1C)"
  "key_hash museair_bfast_hash_128 97 = (0x8BD620E2670AA683, 0xE1169750165ACED0)"
  "key_hash museair_bfast_hash_128 98 = (0x7DB24BA9DCEDB6FB, 0x569133B089A24572)"
  "key_hash museair_bfast_hash_128 99 = (0xE611C7C5DA2CB840, 0x47D3B24FEFDA72AC)"
  "key_hash museair_bfast_hash_128 100 = (0xE8244250F2C2CE95, 0x9AD76C891C55B991)"
  "key_hash museair_bfast_hash_128 101 = (0xABA71E3348D9FF54, 0x3ACC24C7E6ABB851)"
  "key_hash museair_bfast_hash_128 102 = (0xF0AD700439CC7F47, 0x32717411BD420F7D)"
  "key_hash museair_bfast_hash_128 103 = (0xB7104913FD928078, 0x76B3C4B792F2B317)"
  by (simp_all only: key_hash_eval entry_run run cong: let_weak_cong if_weak_cong)

lemma museair_bfast_hash_128_keys_104:
  "key_hash museair_bfast_hash_128 104 = (0x3BE8435A3556B945, 0x092FDE379009A7FF)"
  "key_hash museair_bfast_hash_128 105 = (0x0619FAF8A2AA18CB, 0xE01350C3A2F2BEE3)"
  "key_hash museair_bfast_hash_128 106 = (0x242B59D1FE240E22, 0x08CB57D306ED98FB)"
  "key_hash museair_bfast_hash_128 107 = (0x9A9B1143B19A3BBD, 0xA94CEC3D44610479)"
  "key_hash museair_bfast_hash_128 108 = (0x5BF94BDEBF7D67F9, 0xBE4990ADCFB3F876)"
  "key_hash museair_bfast_hash_128 109 = (0x6B83887F23170901, 0x064F0993623362F5)"
  "key_hash museair_bfast_hash_128 110 = (0xA177D729B53F7278, 0x434400F369D0F5B4)"
  "key_hash museair_bfast_hash_128 111 = (0x0F5CDCC70952450E, 0x089CE05EAAB64641)"
  by (simp_all only: key_hash_eval entry_run run cong: let_weak_cong if_weak_cong)

lemma museair_bfast_hash_128_keys_112:
  "key_hash museair_bfast_hash_128 112 = (0xFA09DE49A94CFD46, 0x1385DA32F1E8595E)"
  "key_hash museair_bfast_hash_128 113 = (0x29A98909E15B8221, 0x2FFBD336D9867EC1)"
  "key_hash museair_bfast_hash_128 114 = (0x55A26AF696606F40, 0xE82DC971BFE76334)"
  "key_hash museair_bfast_hash_128 115 = (0x27FC8373A00A544C, 0x956D25C3BD9E65FE)"
  "key_hash museair_bfast_hash_128 116 = (0x5C8199552B2832CE, 0x673D2620949FF778)"
  "key_hash museair_bfast_hash_128 117 = (0x068677A258D244C0, 0x490A5815985398D1)"
  "key_hash museair_bfast_hash_128 118 = (0x23D542468099A9EA, 0xEBCACCAB62CDA5FC)"
  "key_hash museair_bfast_hash_128 119 = (0x188B871DD5B9EA45, 0x110C12B48C6AC5D2)"
  by (simp_all only: key_hash_eval entry_run run cong: let_weak_cong if_weak_cong)

lemma museair_bfast_hash_128_keys_120:
  "key_hash museair_bfast_hash_128 120 = (0xC94ED43B5E002799, 0x610A207F555E0859)"
  "key_hash museair_bfast_hash_128 121 = (0x5C1169C7815A6FE3, 0xFEB67877EE2B88D9)"
  "key_hash museair_bfast_hash_128 122 = (0xE86BC11087F7D563, 0x652AC7A6C8A96179)"
  "key_hash museair_bfast_hash_128 123 = (0x1A634632B1368211, 0x5A53ED91EC550197)"
  "key_hash museair_bfast_hash_128 124 = (0xC0A003BE6B6E874C, 0x9A80EAA696AD4898)"
  "key_hash museair_bfast_hash_128 125 = (0x871C19F4DAF92107, 0x9254A8C47F30F388)"
  "key_hash museair_bfast_hash_128 126 = (0x57124DFF29CAA50E, 0x0D502577C37CC62B)"
  "key_hash museair_bfast_hash_128 127 = (0xA21C9EE9EF5C014D, 0x38E8CC23112CCE98)"
  by (simp_all only: key_hash_eval entry_run run cong: let_weak_cong if_weak_cong)

lemma museair_bfast_hash_128_keys_128:
  "key_hash museair_bfast_hash_128 128 = (0x6CEDD2ADD680892E, 0x85327628215DDCF3)"
  "key_hash museair_bfast_hash_128 129 = (0x428ED14BD22B4340, 0x6A7D4709F82A52D3)"
  "key_hash museair_bfast_hash_128 130 = (0x7F8BB58360EE88DC, 0x7FCB2159A4A1ECCD)"
  "key_hash museair_bfast_hash_128 131 = (0x77A42602146236F2, 0x0AA3B7AA85A2F66B)"
  "key_hash museair_bfast_hash_128 132 = (0x0C3E38DFA22A0B73, 0x921D9773F1142804)"
  "key_hash museair_bfast_hash_128 133 = (0xC3129970BD0AE29C, 0x8494ACCE08D6826D)"
  "key_hash museair_bfast_hash_128 134 = (0x9F1AD9C59DE31ACB, 0xBCC9CEC377B0124F)"
  "key_hash museair_bfast_hash_128 135 = (0xE3B8F5A4FB2E0400, 0xCDDB0AA73264A30D)"
  by (simp_all only: key_hash_eval entry_run run cong: let_weak_cong if_weak_cong)

lemma museair_bfast_hash_128_keys_136:
  "key_hash museair_bfast_hash_128 136 = (0xCA25AFF7088386CB, 0x6396F41ADD4E1BAD)"
  "key_hash museair_bfast_hash_128 137 = (0x998F216495243624, 0xCB54D6C31DFAE4CB)"
  "key_hash museair_bfast_hash_128 138 = (0x464E52E4F81DA0FF, 0xEAF87F7A76F582C8)"
  "key_hash museair_bfast_hash_128 139 = (0x81C6061005D79961, 0xE1AD150928C044A8)"
  "key_hash museair_bfast_hash_128 140 = (0x7D5CE2BAA00E69ED, 0xBA13ACAB28758C9A)"
  "key_hash museair_bfast_hash_128 141 = (0x9BBCDF8147306F41, 0xC088C34B4460D817)"
  "key_hash museair_bfast_hash_128 142 = (0xC62ED101FDF39555, 0xD6449FBB78EA99C0)"
  "key_hash museair_bfast_hash_128 143 = (0xFD3CB48FB0A8481D, 0x9EBA6286412923F7)"
  by (simp_all only: key_hash_eval entry_run run cong: let_weak_cong if_weak_cong)

lemma museair_bfast_hash_128_keys_144:
  "key_hash museair_bfast_hash_128 144 = (0x1AFA5956DA9CD516, 0x10AAA64B4972913C)"
  "key_hash museair_bfast_hash_128 145 = (0xFCBD9CB47A964860, 0x228271F1B10847E9)"
  "key_hash museair_bfast_hash_128 146 = (0x6F62900A3DB136BE, 0x08F59FA6A8B2897C)"
  "key_hash museair_bfast_hash_128 147 = (0x8911B807D03C0836, 0x63122402E58276B2)"
  "key_hash museair_bfast_hash_128 148 = (0xBFE6101B758C464E, 0xCAF9590DBE2AC790)"
  "key_hash museair_bfast_hash_128 149 = (0x34E4CB2DC839809C, 0x42E29A189964AFFF)"
  "key_hash museair_bfast_hash_128 150 = (0x62740147010F2B23, 0xD98937814DA367C7)"
  "key_hash museair_bfast_hash_128 151 = (0x3C85878975683B19, 0xD11C6A9BFC80BA4C)"
  by (simp_all only: key_hash_eval entry_run run cong: let_weak_cong if_weak_cong)

lemma museair_bfast_hash_128_keys_152:
  "key_hash museair_bfast_hash_128 152 = (0xAC95EE6B3827DBE9, 0xFA8A438695F4C4F7)"
  "key_hash museair_bfast_hash_128 153 = (0xADFC52E210DAFFCF, 0x7CD0F0C64391DDCA)"
  "key_hash museair_bfast_hash_128 154 = (0x33D03A08CE32F9B0, 0x197752AC9EAD0BE0)"
  "key_hash museair_bfast_hash_128 155 = (0x1439EFFE8E749F32, 0xE2CA73DCD9C0F686)"
  "key_hash museair_bfast_hash_128 156 = (0x81CC6F6FAE932FE3, 0x95657B10DD54DDDA)"
  "key_hash museair_bfast_hash_128 157 = (0x5BBCA39D7DC39657, 0xDF3D346737048D76)"
  "key_hash museair_bfast_hash_128 158 = (0x03E8B5764A8824B0, 0xADC3A3A93AA43720)"
  "key_hash museair_bfast_hash_128 159 = (0xF99EDD7F7A4B8CC6, 0x1352144F8E02284E)"
  by (simp_all only: key_hash_eval entry_run run cong: let_weak_cong if_weak_cong)

lemma museair_bfast_hash_128_keys_160:
  "key_hash museair_bfast_hash_128 160 = (0x8C84321863F16DE1, 0xF26A0904F5592B62)"
  "key_hash museair_bfast_hash_128 161 = (0xB71AA98AAB009A12, 0xB904073571FE54C1)"
  "key_hash museair_bfast_hash_128 162 = (0x2C5F93AE9A6C383E, 0x45C0D6693ED6749E)"
  "key_hash museair_bfast_hash_128 163 = (0x9C01224386A264C5, 0xE636D96593034BF5)"
  "key_hash museair_bfast_hash_128 164 = (0xDCE3E5A723886135, 0xEA153ACF037691D5)"
  "key_hash museair_bfast_hash_128 165 = (0x28D077E81470F1FE, 0xF37CC59946BF7387)"
  "key_hash museair_bfast_hash_128 166 = (0x000D7FD497B09E0F, 0xD9B3DCDC4AA9F679)"
  "key_hash museair_bfast_hash_128 167 = (0x248E850FF58BD27B, 0xF41869872B376BA8)"
  by (simp_all only: key_hash_eval entry_run run cong: let_weak_cong if_weak_cong)

lemma museair_bfast_hash_128_keys_168:
  "key_hash museair_bfast_hash_128 168 = (0xE464F8C3A96BE885, 0xD7FBF59DC28DA40C)"
  "key_hash museair_bfast_hash_128 169 = (0x21997E9DC16D8563, 0xBC122DDD73FEF150)"
  "key_hash museair_bfast_hash_128 170 = (0x938BBD1E53C39818, 0xC3F2038055D780FA)"
  "key_hash museair_bfast_hash_128 171 = (0xAC5A880A051E07B3, 0x55A8FDB98E8FD911)"
  "key_hash museair_bfast_hash_128 172 = (0xE73A0673DCC1B824, 0xCBCC4A3FEB22BB1E)"
  "key_hash museair_bfast_hash_128 173 = (0x2D4E01C4718507F2, 0xE152C5CE323D12EA)"
  "key_hash museair_bfast_hash_128 174 = (0x320CB5264A5F9498, 0x9F81CDB089EAA9C2)"
  "key_hash museair_bfast_hash_128 175 = (0x445525D1EF3F145D, 0x23BD7ADD7E32D4DB)"
  by (simp_all only: key_hash_eval entry_run run cong: let_weak_cong if_weak_cong)

lemma museair_bfast_hash_128_keys_176:
  "key_hash museair_bfast_hash_128 176 = (0x87EE1652E82E7903, 0xA1A8BF47B59A3466)"
  "key_hash museair_bfast_hash_128 177 = (0xCFB60740A2B17521, 0xBFD365BF873636CD)"
  "key_hash museair_bfast_hash_128 178 = (0xF204B4C16BA794EA, 0xF764B7809C40FC2B)"
  "key_hash museair_bfast_hash_128 179 = (0xD8E8FE75F5A68590, 0x71C7D0E0A29ED841)"
  "key_hash museair_bfast_hash_128 180 = (0x24EEF637296273AE, 0xBA505D0F279D6895)"
  "key_hash museair_bfast_hash_128 181 = (0x834F59F2B12F49FF, 0xA397285B74789F4D)"
  "key_hash museair_bfast_hash_128 182 = (0x8797FBE6DDCC9198, 0xA62A0DCE21037D90)"
  "key_hash museair_bfast_hash_128 183 = (0x2C4CCD9FDCA9852A, 0x6DEA40FD5C681E31)"
  by (simp_all only: key_hash_eval entry_run run cong: let_weak_cong if_weak_cong)

lemma museair_bfast_hash_128_keys_184:
  "key_hash museair_bfast_hash_128 184 = (0xEB5A84AD6B06F3AB, 0x33571EF3AE7DA085)"
  "key_hash museair_bfast_hash_128 185 = (0xB3DEE0664DC4202B, 0x86FA55A455F1E9F8)"
  "key_hash museair_bfast_hash_128 186 = (0x24D617D7F3762E81, 0xB0D06B1F0174E6DA)"
  "key_hash museair_bfast_hash_128 187 = (0x3F3FB46A054F0B4C, 0xA1C0F87282DEC790)"
  "key_hash museair_bfast_hash_128 188 = (0x8CFCF25B88853433, 0xF500089C64C0F5DC)"
  "key_hash museair_bfast_hash_128 189 = (0x3D76683DBF49D6C1, 0xBFEA127D6AFEBFC7)"
  "key_hash museair_bfast_hash_128 190 = (0xB973A6EEF4A1BB9B, 0x326FC3657E72B536)"
  "key_hash museair_bfast_hash_128 191 = (0xA78586DA9324BAA2, 0xAE5D60135535B2BC)"
  by (simp_all only: key_hash_eval entry_run run cong: let_weak_cong if_weak_cong)

lemma museair_bfast_hash_128_keys_192:
  "key_hash museair_bfast_hash_128 192 = (0x435B182C6B9D26FC, 0xA17F4A0F7B9376DF)"
  "key_hash museair_bfast_hash_128 193 = (0x0D90DFF6E3CDAADA, 0xAE566A0502A91A34)"
  "key_hash museair_bfast_hash_128 194 = (0xFBBFCCFE8636436D, 0xD49C0F8F6BA9B820)"
  "key_hash museair_bfast_hash_128 195 = (0xDE64DFC55D640371, 0xFB9B36827263D58A)"
  "key_hash museair_bfast_hash_128 196 = (0x5930CB689094AE06, 0x6D734C6F0F306C06)"
  "key_hash museair_bfast_hash_128 197 = (0x94AF705CEED2D869, 0x8B0DD0BAAA25DAB1)"
  "key_hash museair_bfast_hash_128 198 = (0xFD06A3BE0CFE9819, 0x48E0CE276F49D164)"
  "key_hash museair_bfast_hash_128 199 = (0xE329C2B4001FD633, 0x8660447986891E5C)"
  by (simp_all only: key_hash_eval entry_run run cong: let_weak_cong if_weak_cong)

lemma museair_bfast_hash_128_keys_200:
  "key_hash museair_bfast_hash_128 200 = (0xF7A786B280108B56, 0xF84972A6F603D273)"
  "key_hash museair_bfast_hash_128 201 = (0x1736BA5703BDD08C, 0x44577197C6C4263C)"
  "key_hash museair_bfast_hash_128 202 = (0xCCEC6576F43875B5, 0xC5EDB52326299FDA)"
  "key_hash museair_bfast_hash_128 203 = (0xF19610368E7DBEF4, 0x5BDFABD920D5F19D)"
  "key_hash museair_bfast_hash_128 204 = (0x5B18495FB0A66994, 0x166ED56A2D972EA7)"
  "key_hash museair_bfast_hash_128 205 = (0x0F8325DED298E19A, 0xBEBE39C9ABBA8A10)"
  "key_hash museair_bfast_hash_128 206 = (0x0C793FE3C466EE50, 0x2C7B4D6D43B50FE8)"
  "key_hash museair_bfast_hash_128 207 = (0x8CE6627852E73DD0, 0xA142726F9D300A4C)"
  by (simp_all only: key_hash_eval entry_run run cong: let_weak_cong if_weak_cong)

lemma museair_bfast_hash_128_keys_208:
  "key_hash museair_bfast_hash_128 208 = (0xE846C815E2D24E75, 0xA91A5ED29CB852D6)"
  "key_hash museair_bfast_hash_128 209 = (0x8266D9393387629D, 0x719C59D42C5E8982)"
  "key_hash museair_bfast_hash_128 210 = (0x0A1DBD74520F58AF, 0x4DE6D49EECC46DA2)"
  "key_hash museair_bfast_hash_128 211 = (0xE315412334A7E14A, 0x9782F4C60735D725)"
  "key_hash museair_bfast_hash_128 212 = (0xC715C6210C07DF26, 0x1BEAF4E0F2F04976)"
  "key_hash museair_bfast_hash_128 213 = (0x1C12350E022DF843, 0x3AD2A14F2F72A8AB)"
  "key_hash museair_bfast_hash_128 214 = (0x9863645C788B2DF9, 0x4AED9D72A605F576)"
  "key_hash museair_bfast_hash_128 215 = (0x0CE6236FA24AB945, 0x6C645D6483EFEFF1)"
  by (simp_all only: key_hash_eval entry_run run cong: let_weak_cong if_weak_cong)

lemma museair_bfast_hash_128_keys_216:
  "key_hash museair_bfast_hash_128 216 = (0xD7D21743C1080E92, 0xDF08C39285F584CA)"
  "key_hash museair_bfast_hash_128 217 = (0xC3EAB9D26D2DA9C0, 0xAC71B668E1C4C54B)"
  "key_hash museair_bfast_hash_128 218 = (0x254CC438031A1F3D, 0x80C9719F350817D6)"
  "key_hash museair_bfast_hash_128 219 = (0x0D201C80FEFEBD9E, 0xA8FB93E6E14C7D12)"
  "key_hash museair_bfast_hash_128 220 = (0x30C4871A3B3DB2B3, 0xF7C88B98C583A2DF)"
  "key_hash museair_bfast_hash_128 221 = (0x7BF50219BD8E9CE0, 0x63F145A4D39D711D)"
  "key_hash museair_bfast_hash_128 222 = (0x86AF34E128F9E5E3, 0x2AC853E9BB91B79A)"
  "key_hash museair_bfast_hash_128 223 = (0x212E0FAEFE6DFC66, 0x7DBEBF0E9BE26EB5)"
  by (simp_all only: key_hash_eval entry_run run cong: let_weak_cong if_weak_cong)

lemma museair_bfast_hash_128_keys_224:
  "key_hash museair_bfast_hash_128 224 = (0xD99A7AEB1CEF4D61, 0xDDC08CF350DC88A4)"
  "key_hash museair_bfast_hash_128 225 = (0x2A60756B38B378C7, 0x3A82A4CAB4BFFF63)"
  "key_hash museair_bfast_hash_128 226 = (0x2D2F7BE5BA8A083D, 0x14E17145603E6571)"
  "key_hash museair_bfast_hash_128 227 = (0x6D3910B30011EBBB, 0x2CA272AC325534BE)"
  "key_hash museair_bfast_hash_128 228 = (0x70D3D2DF9D78B842, 0x1351FD6B645DB502)"
  "key_hash museair_bfast_hash_128 229 = (0x9A23EAE00EB4CF75, 0x110B862631CE3413)"
  "key_hash museair_bfast_hash_128 230 = (0x275A87DA7958ECD1, 0xB2AE7949BA16D3EF)"
  "key_hash museair_bfast_hash_128 231 = (0x50E0540437DFE23F, 0xEDEBF7F8F3F2B964)"
  by (simp_all only: key_hash_eval entry_run run cong: let_weak_cong if_weak_cong)

lemma museair_bfast_hash_128_keys_232:
  "key_hash museair_bfast_hash_128 232 = (0xD2BDF97436C39E79, 0xEF90C442E86D6E10)"
  "key_hash museair_bfast_hash_128 233 = (0x14E202B46909291A, 0x0D80D3FEBB6B6B85)"
  "key_hash museair_bfast_hash_128 234 = (0x2A89E82D9E1FD0C7, 0x759FC32EC042AEF4)"
  "key_hash museair_bfast_hash_128 235 = (0x4EE8996006236C5E, 0xC67D13BF83E45833)"
  "key_hash museair_bfast_hash_128 236 = (0xFA9617FCF27F02EE, 0x50D7C3402CA242BF)"
  "key_hash museair_bfast_hash_128 237 = (0xBDC521156E7F9D44, 0xA8802C54AA70B978)"
  "key_hash museair_bfast_hash_128 238 = (0xEA4D5B11CF4C419E, 0x171DAF6F25316658)"
  "key_hash museair_bfast_hash_128 239 = (0x1E7D4F805DE03829, 0xB322B4F8C5F0A8B9)"
  by (simp_all only: key_hash_eval entry_run run cong: let_weak_cong if_weak_cong)

lemma museair_bfast_hash_128_keys_240:
  "key_hash museair_bfast_hash_128 240 = (0xFF2BC5ECFB364CAC, 0xC38B24E2B06B8827)"
  "key_hash museair_bfast_hash_128 241 = (0x7B3A59FF16072C19, 0x96D4E08235D86665)"
  "key_hash museair_bfast_hash_128 242 = (0xA7C7A858450CA92E, 0x72B743D8A4713B52)"
  "key_hash museair_bfast_hash_128 243 = (0xA8CD026E1A797BCA, 0xE06F360F708A6962)"
  "key_hash museair_bfast_hash_128 244 = (0x6779D4CD0C06D993, 0x233824C472F4E974)"
  "key_hash museair_bfast_hash_128 245 = (0x202FC32DCEEF4244, 0x00A59E8EEADFA24C)"
  "key_hash museair_bfast_hash_128 246 = (0x99E4447FB6D10122, 0xACAF34DE5A83741E)"
  "key_hash museair_bfast_hash_128 247 = (0x2F4C9F9A5830C99D, 0x0D72AF7A4A9B37D3)"
  by (simp_all only: key_hash_eval entry_run run cong: let_weak_cong if_weak_cong)

lemma museair_bfast_hash_128_keys_248:
  "key_hash museair_bfast_hash_128 248 = (0xBCDE46F25AC070F5, 0x8FABD58BC107BDCD)"
  "key_hash museair_bfast_hash_128 249 = (0x9D383D1639326D0E, 0x2DA04D28F563DDCD)"
  "key_hash museair_bfast_hash_128 250 = (0x1106C9FF7A57D146, 0x88F1B6F80317DB39)"
  "key_hash museair_bfast_hash_128 251 = (0x84BFB94E293FA0DD, 0xB1639EEE172E7ADB)"
  "key_hash museair_bfast_hash_128 252 = (0xE95BCFE5D41A871A, 0x3E5CB703DBFDF400)"
  "key_hash museair_bfast_hash_128 253 = (0xCD42D530682BD7F1, 0xE02CD3EDEEB751F6)"
  "key_hash museair_bfast_hash_128 254 = (0xB2856B986BDE2715, 0x38F85BAED270D60D)"
  "key_hash museair_bfast_hash_128 255 = (0x8FFE4570ECD84B21, 0x47EEC6FCF9E6558D)"
  by (simp_all only: key_hash_eval entry_run run cong: let_weak_cong if_weak_cong)

lemmas museair_bfast_hash_128_keys =
  museair_bfast_hash_128_keys_000 museair_bfast_hash_128_keys_008
  museair_bfast_hash_128_keys_016 museair_bfast_hash_128_keys_024
  museair_bfast_hash_128_keys_032 museair_bfast_hash_128_keys_040
  museair_bfast_hash_128_keys_048 museair_bfast_hash_128_keys_056
  museair_bfast_hash_128_keys_064 museair_bfast_hash_128_keys_072
  museair_bfast_hash_128_keys_080 museair_bfast_hash_128_keys_088
  museair_bfast_hash_128_keys_096 museair_bfast_hash_128_keys_104
  museair_bfast_hash_128_keys_112 museair_bfast_hash_128_keys_120
  museair_bfast_hash_128_keys_128 museair_bfast_hash_128_keys_136
  museair_bfast_hash_128_keys_144 museair_bfast_hash_128_keys_152
  museair_bfast_hash_128_keys_160 museair_bfast_hash_128_keys_168
  museair_bfast_hash_128_keys_176 museair_bfast_hash_128_keys_184
  museair_bfast_hash_128_keys_192 museair_bfast_hash_128_keys_200
  museair_bfast_hash_128_keys_208 museair_bfast_hash_128_keys_216
  museair_bfast_hash_128_keys_224 museair_bfast_hash_128_keys_232
  museair_bfast_hash_128_keys_240 museair_bfast_hash_128_keys_248

section \<open>The hash of the digests\<close>

lemma museair_hash_sweep:
  "(ucast (museair_hash (snd (verify_sweep 8 (digest_64 museair_hash))) 2048 0) :: u32) =
      0x46B2D34D"
  by (simp only: entry_run run sweep_run museair_hash_keys cong: let_weak_cong if_weak_cong)

lemma museair_hash_128_sweep:
  "(ucast (fst (museair_hash_128 (snd (verify_sweep 16 (digest_128 museair_hash_128))) 4096 0)) ::
      u32) = 0xCABAA4CD"
  by (simp only: entry_run run sweep_run museair_hash_128_keys cong: let_weak_cong if_weak_cong)

lemma museair_bfast_hash_sweep:
  "(ucast (museair_bfast_hash (snd (verify_sweep 8 (digest_64 museair_bfast_hash))) 2048 0) :: u32)
      = 0x98CDFE3E"
  by (simp only: entry_run run sweep_run museair_bfast_hash_keys cong: let_weak_cong if_weak_cong)

lemma museair_bfast_hash_128_sweep:
  "(ucast (fst (museair_bfast_hash_128 (snd (verify_sweep 16 (digest_128 museair_bfast_hash_128)))
      4096 0)) :: u32) = 0x81D30B6E"
  by (simp only: entry_run run sweep_run museair_bfast_hash_128_keys cong: let_weak_cong
      if_weak_cong)

text \<open>
  C1: for each of the four public entry points, hashing the inputs of lengths 0..255,
  where input \<open>k\<close> is the bytes \<open>0..k-1\<close> and the seed is \<open>256 - k\<close>, concatenating the 256
  digests (little-endian) into one buffer and hashing that buffer with seed 0 through the
  same entry point gives a digest whose low 32 bits, read little-endian, are
  \<open>0x46B2D34D\<close> for \<open>museair_hash\<close>, \<open>0xCABAA4CD\<close> for \<open>museair_hash_128\<close>,
  \<open>0x98CDFE3E\<close> for \<open>museair_bfast_hash\<close> and \<open>0x81D30B6E\<close> for
  \<open>museair_bfast_hash_128\<close>.
\<close>

theorem verification_values:
  "ComputedVerifyImpl 64 (digest_64 museair_hash) = 0x46B2D34D \<and>
   ComputedVerifyImpl 128 (digest_128 museair_hash_128) = 0xCABAA4CD \<and>
   ComputedVerifyImpl 64 (digest_64 museair_bfast_hash) = 0x98CDFE3E \<and>
   ComputedVerifyImpl 128 (digest_128 museair_bfast_hash_128) = 0x81D30B6E"
proof (intro conjI)
  show "ComputedVerifyImpl 64 (digest_64 museair_hash) = 0x46B2D34D"
    by (simp only: verify_64 museair_hash_sweep)
  show "ComputedVerifyImpl 128 (digest_128 museair_hash_128) = 0xCABAA4CD"
    by (simp only: verify_128 museair_hash_128_sweep)
  show "ComputedVerifyImpl 64 (digest_64 museair_bfast_hash) = 0x98CDFE3E"
    by (simp only: verify_64 museair_bfast_hash_sweep)
  show "ComputedVerifyImpl 128 (digest_128 museair_bfast_hash_128) = 0x81D30B6E"
    by (simp only: verify_128 museair_bfast_hash_128_sweep)
qed

end
